theory Spec2Isabelle
  imports Complex_Main "HOL-Library.Word"
begin

section \<open>Python values used by the scripts\<close>

text \<open>
  The scripts are Python. A Python \<open>str\<close> is modelled as a \<open>string\<close> holding its UTF-8
  bytes: the programs only concatenate strings and compare them for equality, and UTF-8
  encoding respects both. A value that may be \<open>None\<close> is an \<open>option\<close>. Exceptions are
  values of the type \<open>exn\<close>; every constructor carries the text that \<open>str(e)\<close> returns, and
  \<open>ClientError\<close> also carries \<open>e.response['Error']['Code']\<close> and
  \<open>e.response['Error']['Message']\<close> (each absent or present). A function that may raise
  returns \<open>exn + 'a\<close>, \<open>Inl\<close> for the exception.
\<close>

type_synonym bytes = "8 word list"

datatype exn =
    ClientError "string option" "string option" string
  | JSONDecodeError string
  | ValueError string
  | TimeoutError string
  | BedrockVideoGenerationError string
  | HTTPError string
  | OSError string
  | IndexError string
  | Exception string

fun str_exn :: "exn \<Rightarrow> string" where
  "str_exn (ClientError error_code error_msg s) = s"
| "str_exn (JSONDecodeError s) = s"
| "str_exn (ValueError s) = s"
| "str_exn (TimeoutError s) = s"
| "str_exn (BedrockVideoGenerationError s) = s"
| "str_exn (HTTPError s) = s"
| "str_exn (OSError s) = s"
| "str_exn (IndexError s) = s"
| "str_exn (Exception s) = s"

text \<open>\<open>isinstance(e, BedrockVideoGenerationError)\<close>; the class has no subclass.\<close>

fun is_BedrockVideoGenerationError :: "exn \<Rightarrow> bool" where
  "is_BedrockVideoGenerationError (BedrockVideoGenerationError s) = True"
| "is_BedrockVideoGenerationError e = False"

text \<open>\<open>except ValueError\<close> also catches \<open>json.JSONDecodeError\<close>, a subclass of it.\<close>

fun is_ValueError :: "exn \<Rightarrow> bool" where
  "is_ValueError (ValueError s) = True"
| "is_ValueError (JSONDecodeError s) = True"
| "is_ValueError e = False"

text \<open>What an f-string writes for a value that is a \<open>str\<close> or \<open>None\<close>.\<close>

definition py_str_opt :: "string option \<Rightarrow> string" where
  "py_str_opt v = (case v of None \<Rightarrow> ''None'' | Some s \<Rightarrow> s)"

text \<open>What an f-string writes for an \<open>int\<close>: its decimal digits, with a sign if negative.\<close>

fun dec_nat :: "nat \<Rightarrow> string" where
  "dec_nat n =
     (if n < 10 then [''0123456789'' ! n]
      else dec_nat (n div 10) @ [''0123456789'' ! (n mod 10)])"

declare dec_nat.simps [simp del]

definition py_str_int :: "int \<Rightarrow> string" where
  "py_str_int i = (if i < 0 then ''-'' @ dec_nat (nat (- i)) else dec_nat (nat i))"

text \<open>\<open>d.get(key, default)\<close> for a key whose value, when present, is a \<open>str\<close>.\<close>

definition get_default :: "string option \<Rightarrow> string \<Rightarrow> string" where
  "get_default v d = (case v of None \<Rightarrow> d | Some s \<Rightarrow> s)"

section \<open>String literals of the source\<close>

text \<open>
  The messages of the scripts are Korean. Each literal is given here byte for byte (UTF-8),
  with the file and line it stands on and an English rendering. An f-string is the
  concatenation of its literal pieces and its formatted values.
\<close>

definition tag_access_denied :: string where
  \<comment> \<open>handle_errors.py:34; in English: access permission error:\<close>
  "tag_access_denied =
     [CHR 0xEC, CHR 0x95, CHR 0xA1, CHR 0xEC, CHR 0x84, CHR 0xB8, CHR 0xEC, CHR 0x8A, CHR 0xA4] @
     '' '' @ [CHR 0xEA, CHR 0xB6, CHR 0x8C, CHR 0xED, CHR 0x95, CHR 0x9C] @ '' '' @
     [CHR 0xEC, CHR 0x98, CHR 0xA4, CHR 0xEB, CHR 0xA5, CHR 0x98] @ '': ''"

definition tag_validation :: string where
  \<comment> \<open>handle_errors.py:37; in English: validation error:\<close>
  "tag_validation =
     [CHR 0xEC, CHR 0x9C, CHR 0xA0, CHR 0xED, CHR 0x9A, CHR 0xA8, CHR 0xEC, CHR 0x84, CHR 0xB1] @
     '' '' @ [CHR 0xEA, CHR 0xB2, CHR 0x80, CHR 0xEC, CHR 0x82, CHR 0xAC] @ '' '' @
     [CHR 0xEC, CHR 0x98, CHR 0xA4, CHR 0xEB, CHR 0xA5, CHR 0x98] @ '': ''"

definition tag_not_found :: string where
  \<comment> \<open>handle_errors.py:40; in English: resource not found:\<close>
  "tag_not_found =
     [CHR 0xEB, CHR 0xA6, CHR 0xAC, CHR 0xEC, CHR 0x86, CHR 0x8C, CHR 0xEC, CHR 0x8A, CHR 0xA4] @
     [CHR 0xEB, CHR 0xA5, CHR 0xBC] @ '' '' @
     [CHR 0xEC, CHR 0xB0, CHR 0xBE, CHR 0xEC, CHR 0x9D, CHR 0x84] @ '' '' @
     [CHR 0xEC, CHR 0x88, CHR 0x98] @ '' '' @
     [CHR 0xEC, CHR 0x97, CHR 0x86, CHR 0xEC, CHR 0x9D, CHR 0x8C] @ '': ''"

definition tag_throttling :: string where
  \<comment> \<open>handle_errors.py:43; in English: request throttling error:\<close>
  "tag_throttling = [CHR 0xEC, CHR 0x9A, CHR 0x94, CHR 0xEC, CHR 0xB2, CHR 0xAD] @ '' '' @
     [CHR 0xEC, CHR 0xA0, CHR 0x9C, CHR 0xED, CHR 0x95, CHR 0x9C] @ '' '' @
     [CHR 0xEC, CHR 0x98, CHR 0xA4, CHR 0xEB, CHR 0xA5, CHR 0x98] @ '': ''"

definition tag_quota :: string where
  \<comment> \<open>handle_errors.py:46; in English: quota exceeded error:\<close>
  "tag_quota =
     [CHR 0xED, CHR 0x95, CHR 0xA0, CHR 0xEB, CHR 0x8B, CHR 0xB9, CHR 0xEB, CHR 0x9F, CHR 0x89] @
     '' '' @ [CHR 0xEC, CHR 0xB4, CHR 0x88, CHR 0xEA, CHR 0xB3, CHR 0xBC] @ '' '' @
     [CHR 0xEC, CHR 0x98, CHR 0xA4, CHR 0xEB, CHR 0xA5, CHR 0x98] @ '': ''"

definition tag_aws_api :: string where
  \<comment> \<open>handle_errors.py:49; in English: AWS API error:\<close>
  "tag_aws_api = ''AWS API '' @ [CHR 0xEC, CHR 0x98, CHR 0xA4, CHR 0xEB, CHR 0xA5, CHR 0x98] @
     '': ''"

definition tag_json :: string where
  \<comment> \<open>handle_errors.py:52; in English: JSON decoding error:\<close>
  "tag_json = ''JSON '' @
     [CHR 0xEB, CHR 0x94, CHR 0x94, CHR 0xEC, CHR 0xBD, CHR 0x94, CHR 0xEB, CHR 0x94, CHR 0xA9] @
     '' '' @ [CHR 0xEC, CHR 0x98, CHR 0xA4, CHR 0xEB, CHR 0xA5, CHR 0x98] @ '': ''"

definition tag_unexpected :: string where
  \<comment> \<open>handle_errors.py:55; in English: unexpected error:\<close>
  "tag_unexpected =
     [CHR 0xEC, CHR 0x98, CHR 0x88, CHR 0xEC, CHR 0x83, CHR 0x81, CHR 0xEC, CHR 0xB9, CHR 0x98] @
     '' '' @ [CHR 0xEB, CHR 0xAA, CHR 0xBB, CHR 0xED, CHR 0x95, CHR 0x9C] @ '' '' @
     [CHR 0xEC, CHR 0x98, CHR 0xA4, CHR 0xEB, CHR 0xA5, CHR 0x98] @ '': ''"

definition log_access_denied_pre :: string where
  \<comment> \<open>handle_errors.py:33; in English: access denied:\<close>
  "log_access_denied_pre =
     [CHR 0xEC, CHR 0x95, CHR 0xA1, CHR 0xEC, CHR 0x84, CHR 0xB8, CHR 0xEC, CHR 0x8A, CHR 0xA4] @
     '' '' @
     [CHR 0xEA, CHR 0xB1, CHR 0xB0, CHR 0xEB, CHR 0xB6, CHR 0x80, CHR 0xEB, CHR 0x90, CHR 0xA8] @
     '': ''"

definition log_access_denied_post :: string where
  \<comment> \<open>handle_errors.py:33; in English: . check the IAM permissions.\<close>
  "log_access_denied_post = ''. IAM '' @
     [CHR 0xEA, CHR 0xB6, CHR 0x8C, CHR 0xED, CHR 0x95, CHR 0x9C, CHR 0xEC, CHR 0x9D, CHR 0x84] @
     '' '' @
     [CHR 0xED, CHR 0x99, CHR 0x95, CHR 0xEC, CHR 0x9D, CHR 0xB8, CHR 0xED, CHR 0x95, CHR 0x98] @
     [CHR 0xEC, CHR 0x84, CHR 0xB8, CHR 0xEC, CHR 0x9A, CHR 0x94] @ ''.''"

definition log_validation_pre :: string where
  \<comment> \<open>handle_errors.py:36; in English: validation error:\<close>
  "log_validation_pre =
     [CHR 0xEC, CHR 0x9C, CHR 0xA0, CHR 0xED, CHR 0x9A, CHR 0xA8, CHR 0xEC, CHR 0x84, CHR 0xB1] @
     '' '' @ [CHR 0xEA, CHR 0xB2, CHR 0x80, CHR 0xEC, CHR 0x82, CHR 0xAC] @ '' '' @
     [CHR 0xEC, CHR 0x98, CHR 0xA4, CHR 0xEB, CHR 0xA5, CHR 0x98] @ '': ''"

definition log_validation_post :: string where
  \<comment> \<open>handle_errors.py:36; in English: . check the request parameters.\<close>
  "log_validation_post = ''. '' @ [CHR 0xEC, CHR 0x9A, CHR 0x94, CHR 0xEC, CHR 0xB2, CHR 0xAD] @
     '' '' @
     [CHR 0xEB, CHR 0xA7, CHR 0xA4, CHR 0xEA, CHR 0xB0, CHR 0x9C, CHR 0xEB, CHR 0xB3, CHR 0x80] @
     [CHR 0xEC, CHR 0x88, CHR 0x98, CHR 0xEB, CHR 0xA5, CHR 0xBC] @ '' '' @
     [CHR 0xED, CHR 0x99, CHR 0x95, CHR 0xEC, CHR 0x9D, CHR 0xB8, CHR 0xED, CHR 0x95, CHR 0x98] @
     [CHR 0xEC, CHR 0x84, CHR 0xB8, CHR 0xEC, CHR 0x9A, CHR 0x94] @ ''.''"

definition log_not_found_pre :: string where
  \<comment> \<open>handle_errors.py:39; in English: resource not found:\<close>
  "log_not_found_pre =
     [CHR 0xEB, CHR 0xA6, CHR 0xAC, CHR 0xEC, CHR 0x86, CHR 0x8C, CHR 0xEC, CHR 0x8A, CHR 0xA4] @
     [CHR 0xEB, CHR 0xA5, CHR 0xBC] @ '' '' @
     [CHR 0xEC, CHR 0xB0, CHR 0xBE, CHR 0xEC, CHR 0x9D, CHR 0x84] @ '' '' @
     [CHR 0xEC, CHR 0x88, CHR 0x98] @ '' '' @
     [CHR 0xEC, CHR 0x97, CHR 0x86, CHR 0xEC, CHR 0x9D, CHR 0x8C] @ '': ''"

definition log_not_found_post :: string where
  \<comment> \<open>handle_errors.py:39; in English: . check the model ID and the endpoint.\<close>
  "log_not_found_post = ''. '' @ [CHR 0xEB, CHR 0xAA, CHR 0xA8, CHR 0xEB, CHR 0x8D, CHR 0xB8] @
     '' ID'' @ [CHR 0xEC, CHR 0x99, CHR 0x80] @ '' '' @
     [CHR 0xEC, CHR 0x97, CHR 0x94, CHR 0xEB, CHR 0x93, CHR 0x9C, CHR 0xED, CHR 0x8F, CHR 0xAC] @
     [CHR 0xEC, CHR 0x9D, CHR 0xB8, CHR 0xED, CHR 0x8A, CHR 0xB8, CHR 0xEB, CHR 0xA5, CHR 0xBC] @
     '' '' @
     [CHR 0xED, CHR 0x99, CHR 0x95, CHR 0xEC, CHR 0x9D, CHR 0xB8, CHR 0xED, CHR 0x95, CHR 0x98] @
     [CHR 0xEC, CHR 0x84, CHR 0xB8, CHR 0xEC, CHR 0x9A, CHR 0x94] @ ''.''"

definition log_throttling_pre :: string where
  \<comment> \<open>handle_errors.py:42; in English: request throttled:\<close>
  "log_throttling_pre =
     [CHR 0xEC, CHR 0x9A, CHR 0x94, CHR 0xEC, CHR 0xB2, CHR 0xAD, CHR 0xEC, CHR 0x9D, CHR 0xB4] @
     '' '' @
     [CHR 0xEC, CHR 0xA0, CHR 0x9C, CHR 0xED, CHR 0x95, CHR 0x9C, CHR 0xEB, CHR 0x90, CHR 0xA8] @
     '': ''"

definition log_throttling_post :: string where
  \<comment> \<open>handle_errors.py:42; in English: . retry or lower the API call rate.\<close>
  "log_throttling_post = ''. '' @
     [CHR 0xEC, CHR 0x9E, CHR 0xAC, CHR 0xEC, CHR 0x8B, CHR 0x9C, CHR 0xEB, CHR 0x8F, CHR 0x84] @
     [CHR 0xED, CHR 0x95, CHR 0x98, CHR 0xEA, CHR 0xB1, CHR 0xB0, CHR 0xEB, CHR 0x82, CHR 0x98] @
     '' API '' @ [CHR 0xED, CHR 0x98, CHR 0xB8, CHR 0xEC, CHR 0xB6, CHR 0x9C] @ '' '' @
     [CHR 0xEB, CHR 0xB9, CHR 0x88, CHR 0xEB, CHR 0x8F, CHR 0x84, CHR 0xEB, CHR 0xA5, CHR 0xBC] @
     '' '' @
     [CHR 0xEC, CHR 0xA4, CHR 0x84, CHR 0xEC, CHR 0x9D, CHR 0xB4, CHR 0xEC, CHR 0x84, CHR 0xB8] @
     [CHR 0xEC, CHR 0x9A, CHR 0x94] @ ''.''"

definition log_quota_pre :: string where
  \<comment> \<open>handle_errors.py:45; in English: service quota exceeded:\<close>
  "log_quota_pre =
     [CHR 0xEC, CHR 0x84, CHR 0x9C, CHR 0xEB, CHR 0xB9, CHR 0x84, CHR 0xEC, CHR 0x8A, CHR 0xA4] @
     '' '' @
     [CHR 0xED, CHR 0x95, CHR 0xA0, CHR 0xEB, CHR 0x8B, CHR 0xB9, CHR 0xEB, CHR 0x9F, CHR 0x89] @
     '' '' @ [CHR 0xEC, CHR 0xB4, CHR 0x88, CHR 0xEA, CHR 0xB3, CHR 0xBC] @ '': ''"

definition log_quota_post :: string where
  \<comment> \<open>handle_errors.py:45; in English: . request a quota increase in the AWS console.\<close>
  "log_quota_post = ''. AWS '' @
     [CHR 0xEC, CHR 0xBD, CHR 0x98, CHR 0xEC, CHR 0x86, CHR 0x94, CHR 0xEC, CHR 0x97, CHR 0x90] @
     [CHR 0xEC, CHR 0x84, CHR 0x9C] @ '' '' @
     [CHR 0xED, CHR 0x95, CHR 0xA0, CHR 0xEB, CHR 0x8B, CHR 0xB9, CHR 0xEB, CHR 0x9F, CHR 0x89] @
     '' '' @
     [CHR 0xEC, CHR 0xA6, CHR 0x9D, CHR 0xEA, CHR 0xB0, CHR 0x80, CHR 0xEB, CHR 0xA5, CHR 0xBC] @
     '' '' @
     [CHR 0xEC, CHR 0x9A, CHR 0x94, CHR 0xEC, CHR 0xB2, CHR 0xAD, CHR 0xED, CHR 0x95, CHR 0x98] @
     [CHR 0xEC, CHR 0x84, CHR 0xB8, CHR 0xEC, CHR 0x9A, CHR 0x94] @ ''.''"

definition log_aws_api :: string where
  \<comment> \<open>handle_errors.py:48; in English: AWS API error occurred:\<close>
  "log_aws_api = ''AWS API '' @ [CHR 0xEC, CHR 0x98, CHR 0xA4, CHR 0xEB, CHR 0xA5, CHR 0x98] @
     '' '' @ [CHR 0xEB, CHR 0xB0, CHR 0x9C, CHR 0xEC, CHR 0x83, CHR 0x9D] @ '': ''"

definition log_json_pre :: string where
  \<comment> \<open>handle_errors.py:51; in English: JSON decoding error:\<close>
  "log_json_pre = ''JSON '' @
     [CHR 0xEB, CHR 0x94, CHR 0x94, CHR 0xEC, CHR 0xBD, CHR 0x94, CHR 0xEB, CHR 0x94, CHR 0xA9] @
     '' '' @ [CHR 0xEC, CHR 0x98, CHR 0xA4, CHR 0xEB, CHR 0xA5, CHR 0x98] @ '': ''"

definition log_json_post :: string where
  \<comment> \<open>handle_errors.py:51; in English: . check that the response is valid JSON.\<close>
  "log_json_post = ''. '' @
     [CHR 0xEC, CHR 0x9D, CHR 0x91, CHR 0xEB, CHR 0x8B, CHR 0xB5, CHR 0xEC, CHR 0x9D, CHR 0xB4] @
     '' '' @
     [CHR 0xEC, CHR 0x98, CHR 0xAC, CHR 0xEB, CHR 0xB0, CHR 0x94, CHR 0xEB, CHR 0xA5, CHR 0xB8] @
     '' JSON '' @
     [CHR 0xED, CHR 0x98, CHR 0x95, CHR 0xEC, CHR 0x8B, CHR 0x9D, CHR 0xEC, CHR 0x9D, CHR 0xB8] @
     [CHR 0xEC, CHR 0xA7, CHR 0x80] @ '' '' @
     [CHR 0xED, CHR 0x99, CHR 0x95, CHR 0xEC, CHR 0x9D, CHR 0xB8, CHR 0xED, CHR 0x95, CHR 0x98] @
     [CHR 0xEC, CHR 0x84, CHR 0xB8, CHR 0xEC, CHR 0x9A, CHR 0x94] @ ''.''"

definition log_unexpected :: string where
  \<comment> \<open>handle_errors.py:54; in English: unexpected error occurred:\<close>
  "log_unexpected =
     [CHR 0xEC, CHR 0x98, CHR 0x88, CHR 0xEC, CHR 0x83, CHR 0x81, CHR 0xEC, CHR 0xB9, CHR 0x98] @
     '' '' @ [CHR 0xEB, CHR 0xAA, CHR 0xBB, CHR 0xED, CHR 0x95, CHR 0x9C] @ '' '' @
     [CHR 0xEC, CHR 0x98, CHR 0xA4, CHR 0xEB, CHR 0xA5, CHR 0x98] @ '' '' @
     [CHR 0xEB, CHR 0xB0, CHR 0x9C, CHR 0xEC, CHR 0x83, CHR 0x9D] @ '': ''"

definition msg_prompt_required :: string where
  \<comment> \<open>handle_errors.py:77; in English: a valid text prompt is required\<close>
  "msg_prompt_required =
     [CHR 0xEC, CHR 0x9C, CHR 0xA0, CHR 0xED, CHR 0x9A, CHR 0xA8, CHR 0xED, CHR 0x95, CHR 0x9C] @
     '' '' @
     [CHR 0xED, CHR 0x85, CHR 0x8D, CHR 0xEC, CHR 0x8A, CHR 0xA4, CHR 0xED, CHR 0x8A, CHR 0xB8] @
     '' '' @
     [CHR 0xED, CHR 0x94, CHR 0x84, CHR 0xEB, CHR 0xA1, CHR 0xAC, CHR 0xED, CHR 0x94, CHR 0x84] @
     [CHR 0xED, CHR 0x8A, CHR 0xB8, CHR 0xEA, CHR 0xB0, CHR 0x80] @ '' '' @
     [CHR 0xED, CHR 0x95, CHR 0x84, CHR 0xEC, CHR 0x9A, CHR 0x94, CHR 0xED, CHR 0x95, CHR 0xA9] @
     [CHR 0xEB, CHR 0x8B, CHR 0x88, CHR 0xEB, CHR 0x8B, CHR 0xA4]"

definition log_generate_failed :: string where
  \<comment> \<open>handle_errors.py:111; in English: error during the video generation request:\<close>
  "log_generate_failed =
     [CHR 0xEB, CHR 0xB9, CHR 0x84, CHR 0xEB, CHR 0x94, CHR 0x94, CHR 0xEC, CHR 0x98, CHR 0xA4] @
     '' '' @ [CHR 0xEC, CHR 0x83, CHR 0x9D, CHR 0xEC, CHR 0x84, CHR 0xB1] @ '' '' @
     [CHR 0xEC, CHR 0x9A, CHR 0x94, CHR 0xEC, CHR 0xB2, CHR 0xAD] @ '' '' @
     [CHR 0xEC, CHR 0xA4, CHR 0x91] @ '' '' @
     [CHR 0xEC, CHR 0x98, CHR 0xA4, CHR 0xEB, CHR 0xA5, CHR 0x98] @ '' '' @
     [CHR 0xEB, CHR 0xB0, CHR 0x9C, CHR 0xEC, CHR 0x83, CHR 0x9D] @ '': ''"

definition msg_job_id_required :: string where
  \<comment> \<open>handle_errors.py:119; in English: a valid job ID is required\<close>
  "msg_job_id_required =
     [CHR 0xEC, CHR 0x9C, CHR 0xA0, CHR 0xED, CHR 0x9A, CHR 0xA8, CHR 0xED, CHR 0x95, CHR 0x9C] @
     '' '' @ [CHR 0xEC, CHR 0x9E, CHR 0x91, CHR 0xEC, CHR 0x97, CHR 0x85] @ '' ID'' @
     [CHR 0xEA, CHR 0xB0, CHR 0x80] @ '' '' @
     [CHR 0xED, CHR 0x95, CHR 0x84, CHR 0xEC, CHR 0x9A, CHR 0x94, CHR 0xED, CHR 0x95, CHR 0xA9] @
     [CHR 0xEB, CHR 0x8B, CHR 0x88, CHR 0xEB, CHR 0x8B, CHR 0xA4]"

definition msg_unknown_error :: string where
  \<comment> \<open>handle_errors.py:137; in English: unknown error\<close>
  "msg_unknown_error = [CHR 0xEC, CHR 0x95, CHR 0x8C] @ '' '' @ [CHR 0xEC, CHR 0x88, CHR 0x98] @
     '' '' @ [CHR 0xEC, CHR 0x97, CHR 0x86, CHR 0xEB, CHR 0x8A, CHR 0x94] @ '' '' @
     [CHR 0xEC, CHR 0x98, CHR 0xA4, CHR 0xEB, CHR 0xA5, CHR 0x98]"

definition msg_job_failed :: string where
  \<comment> \<open>handle_errors.py:139; in English: video generation job failed:\<close>
  "msg_job_failed =
     [CHR 0xEB, CHR 0xB9, CHR 0x84, CHR 0xEB, CHR 0x94, CHR 0x94, CHR 0xEC, CHR 0x98, CHR 0xA4] @
     '' '' @ [CHR 0xEC, CHR 0x83, CHR 0x9D, CHR 0xEC, CHR 0x84, CHR 0xB1] @ '' '' @
     [CHR 0xEC, CHR 0x9E, CHR 0x91, CHR 0xEC, CHR 0x97, CHR 0x85] @ '' '' @
     [CHR 0xEC, CHR 0x8B, CHR 0xA4, CHR 0xED, CHR 0x8C, CHR 0xA8] @ '': ''"

definition log_status_check_failed :: string where
  \<comment> \<open>handle_errors.py:143; in English: error while checking the job status:\<close>
  "log_status_check_failed = [CHR 0xEC, CHR 0x9E, CHR 0x91, CHR 0xEC, CHR 0x97, CHR 0x85] @
     '' '' @ [CHR 0xEC, CHR 0x83, CHR 0x81, CHR 0xED, CHR 0x83, CHR 0x9C] @ '' '' @
     [CHR 0xED, CHR 0x99, CHR 0x95, CHR 0xEC, CHR 0x9D, CHR 0xB8] @ '' '' @
     [CHR 0xEC, CHR 0xA4, CHR 0x91] @ '' '' @
     [CHR 0xEC, CHR 0x98, CHR 0xA4, CHR 0xEB, CHR 0xA5, CHR 0x98] @ '' '' @
     [CHR 0xEB, CHR 0xB0, CHR 0x9C, CHR 0xEC, CHR 0x83, CHR 0x9D] @ '': ''"

definition lit_job :: string where
  \<comment> \<open>handle_errors.py:163; in English: job\<close>
  "lit_job = [CHR 0xEC, CHR 0x9E, CHR 0x91, CHR 0xEC, CHR 0x97, CHR 0x85] @ '' ''"

definition log_completed_post :: string where
  \<comment> \<open>handle_errors.py:163; in English: completed\<close>
  "log_completed_post = '' '' @
     [CHR 0xEC, CHR 0x99, CHR 0x84, CHR 0xEB, CHR 0xA3, CHR 0x8C, CHR 0xEB, CHR 0x90, CHR 0xA8]"

definition msg_job_expired :: string where
  \<comment> \<open>handle_errors.py:169; in English: the video generation job has expired\<close>
  "msg_job_expired =
     [CHR 0xEB, CHR 0xB9, CHR 0x84, CHR 0xEB, CHR 0x94, CHR 0x94, CHR 0xEC, CHR 0x98, CHR 0xA4] @
     '' '' @ [CHR 0xEC, CHR 0x83, CHR 0x9D, CHR 0xEC, CHR 0x84, CHR 0xB1] @ '' '' @
     [CHR 0xEC, CHR 0x9E, CHR 0x91, CHR 0xEC, CHR 0x97, CHR 0x85, CHR 0xEC, CHR 0x9D, CHR 0xB4] @
     '' '' @
     [CHR 0xEB, CHR 0xA7, CHR 0x8C, CHR 0xEB, CHR 0xA3, CHR 0x8C, CHR 0xEB, CHR 0x90, CHR 0x98] @
     [CHR 0xEC, CHR 0x97, CHR 0x88, CHR 0xEC, CHR 0x8A, CHR 0xB5, CHR 0xEB, CHR 0x8B, CHR 0x88] @
     [CHR 0xEB, CHR 0x8B, CHR 0xA4]"

definition log_status_pre :: string where
  \<comment> \<open>handle_errors.py:171; in English: job status:\<close>
  "log_status_pre = [CHR 0xEC, CHR 0x9E, CHR 0x91, CHR 0xEC, CHR 0x97, CHR 0x85] @ '' '' @
     [CHR 0xEC, CHR 0x83, CHR 0x81, CHR 0xED, CHR 0x83, CHR 0x9C] @ '': ''"

definition log_status_mid :: string where
  \<comment> \<open>handle_errors.py:171; in English: , waiting... (attempt\<close>
  "log_status_mid = '', '' @ [CHR 0xEB, CHR 0x8C, CHR 0x80, CHR 0xEA, CHR 0xB8, CHR 0xB0] @
     '' '' @ [CHR 0xEC, CHR 0xA4, CHR 0x91] @ ''... ('' @
     [CHR 0xEC, CHR 0x8B, CHR 0x9C, CHR 0xEB, CHR 0x8F, CHR 0x84] @ '' ''"

definition msg_timeout_mid :: string where
  \<comment> \<open>handle_errors.py:184; in English: [did not complete within the] time limit\<close>
  "msg_timeout_mid = [CHR 0xEC, CHR 0x9D, CHR 0xB4] @ ''('' @ [CHR 0xEA, CHR 0xB0, CHR 0x80] @
     '') '' @ [CHR 0xEC, CHR 0xA0, CHR 0x9C, CHR 0xED, CHR 0x95, CHR 0x9C] @ '' '' @
     [CHR 0xEC, CHR 0x8B, CHR 0x9C, CHR 0xEA, CHR 0xB0, CHR 0x84] @ '' ''"

definition msg_timeout_post :: string where
  \<comment> \<open>handle_errors.py:184; in English: seconds [...] did not complete\<close>
  "msg_timeout_post = [CHR 0xEC, CHR 0xB4, CHR 0x88] @ '' '' @
     [CHR 0xEB, CHR 0x82, CHR 0xB4, CHR 0xEC, CHR 0x97, CHR 0x90] @ '' '' @
     [CHR 0xEC, CHR 0x99, CHR 0x84, CHR 0xEB, CHR 0xA3, CHR 0x8C, CHR 0xEB, CHR 0x90, CHR 0x98] @
     [CHR 0xEC, CHR 0xA7, CHR 0x80] @ '' '' @
     [CHR 0xEC, CHR 0x95, CHR 0x8A, CHR 0xEC, CHR 0x95, CHR 0x98, CHR 0xEC, CHR 0x8A, CHR 0xB5] @
     [CHR 0xEB, CHR 0x8B, CHR 0x88, CHR 0xEB, CHR 0x8B, CHR 0xA4]"

definition msg_attempts_mid :: string where
  \<comment> \<open>handle_errors.py:186; in English: [did not complete within the] maximum number of attempts\<close>
  "msg_attempts_mid = [CHR 0xEC, CHR 0x9D, CHR 0xB4] @ ''('' @ [CHR 0xEA, CHR 0xB0, CHR 0x80] @
     '') '' @ [CHR 0xEC, CHR 0xB5, CHR 0x9C, CHR 0xEB, CHR 0x8C, CHR 0x80] @ '' '' @
     [CHR 0xEC, CHR 0x8B, CHR 0x9C, CHR 0xEB, CHR 0x8F, CHR 0x84] @ '' '' @
     [CHR 0xED, CHR 0x9A, CHR 0x9F, CHR 0xEC, CHR 0x88, CHR 0x98] @ '' ''"

definition msg_attempts_post :: string where
  \<comment> \<open>handle_errors.py:186; in English: times [...] did not complete\<close>
  "msg_attempts_post = [CHR 0xED, CHR 0x9A, CHR 0x8C] @ '' '' @
     [CHR 0xEB, CHR 0x82, CHR 0xB4, CHR 0xEC, CHR 0x97, CHR 0x90] @ '' '' @
     [CHR 0xEC, CHR 0x99, CHR 0x84, CHR 0xEB, CHR 0xA3, CHR 0x8C, CHR 0xEB, CHR 0x90, CHR 0x98] @
     [CHR 0xEC, CHR 0xA7, CHR 0x80] @ '' '' @
     [CHR 0xEC, CHR 0x95, CHR 0x8A, CHR 0xEC, CHR 0x95, CHR 0x98, CHR 0xEC, CHR 0x8A, CHR 0xB5] @
     [CHR 0xEB, CHR 0x8B, CHR 0x88, CHR 0xEB, CHR 0x8B, CHR 0xA4]"

definition log_start_pre :: string where
  \<comment> \<open>generate_video.py:129; in English: video generation started: '\<close>
  "log_start_pre =
     [CHR 0xEB, CHR 0xB9, CHR 0x84, CHR 0xEB, CHR 0x94, CHR 0x94, CHR 0xEC, CHR 0x98, CHR 0xA4] @
     '' '' @ [CHR 0xEC, CHR 0x83, CHR 0x9D, CHR 0xEC, CHR 0x84, CHR 0xB1] @ '' '' @
     [CHR 0xEC, CHR 0x8B, CHR 0x9C, CHR 0xEC, CHR 0x9E, CHR 0x91] @ '': '' @ [CHR 0x27]"

definition msg_no_job_id :: string where
  \<comment> \<open>generate_video.py:135; in English: no job ID found in the response\<close>
  "msg_no_job_id =
     [CHR 0xEC, CHR 0x9D, CHR 0x91, CHR 0xEB, CHR 0x8B, CHR 0xB5, CHR 0xEC, CHR 0x97, CHR 0x90] @
     [CHR 0xEC, CHR 0x84, CHR 0x9C] @ '' '' @
     [CHR 0xEC, CHR 0x9E, CHR 0x91, CHR 0xEC, CHR 0x97, CHR 0x85] @ '' ID'' @
     [CHR 0xEB, CHR 0xA5, CHR 0xBC] @ '' '' @
     [CHR 0xEC, CHR 0xB0, CHR 0xBE, CHR 0xEC, CHR 0x9D, CHR 0x84] @ '' '' @
     [CHR 0xEC, CHR 0x88, CHR 0x98] @ '' '' @
     [CHR 0xEC, CHR 0x97, CHR 0x86, CHR 0xEC, CHR 0x8A, CHR 0xB5, CHR 0xEB, CHR 0x8B, CHR 0x88] @
     [CHR 0xEB, CHR 0x8B, CHR 0xA4]"

definition log_job_id_pre :: string where
  \<comment> \<open>generate_video.py:137; in English: job ID:\<close>
  "log_job_id_pre = [CHR 0xEC, CHR 0x9E, CHR 0x91, CHR 0xEC, CHR 0x97, CHR 0x85] @ '' ID: ''"

definition log_job_id_post :: string where
  \<comment> \<open>generate_video.py:137; in English: , checking the generation status...\<close>
  "log_job_id_post = '', '' @ [CHR 0xEC, CHR 0x83, CHR 0x9D, CHR 0xEC, CHR 0x84, CHR 0xB1] @
     '' '' @ [CHR 0xEC, CHR 0x83, CHR 0x81, CHR 0xED, CHR 0x83, CHR 0x9C] @ '' '' @
     [CHR 0xED, CHR 0x99, CHR 0x95, CHR 0xEC, CHR 0x9D, CHR 0xB8] @ '' '' @
     [CHR 0xEC, CHR 0xA4, CHR 0x91] @ ''...''"

definition log_video_saved_pre :: string where
  \<comment> \<open>generate_video.py:148; in English: the video was generated and saved to\<close>
  "log_video_saved_pre =
     [CHR 0xEB, CHR 0xB9, CHR 0x84, CHR 0xEB, CHR 0x94, CHR 0x94, CHR 0xEC, CHR 0x98, CHR 0xA4] @
     [CHR 0xEA, CHR 0xB0, CHR 0x80] @ '' '' @
     [CHR 0xEC, CHR 0x84, CHR 0xB1, CHR 0xEA, CHR 0xB3, CHR 0xB5, CHR 0xEC, CHR 0xA0, CHR 0x81] @
     [CHR 0xEC, CHR 0x9C, CHR 0xBC, CHR 0xEB, CHR 0xA1, CHR 0x9C] @ '' '' @
     [CHR 0xEC, CHR 0x83, CHR 0x9D, CHR 0xEC, CHR 0x84, CHR 0xB1, CHR 0xEB, CHR 0x90, CHR 0x98] @
     [CHR 0xEC, CHR 0x96, CHR 0xB4] @ '' ''"

definition log_saved_post :: string where
  \<comment> \<open>generate_video.py:148; in English: [saved to, postposition]\<close>
  "log_saved_post = [CHR 0xEC, CHR 0x97, CHR 0x90] @ '' '' @
     [CHR 0xEC, CHR 0xA0, CHR 0x80, CHR 0xEC, CHR 0x9E, CHR 0xA5, CHR 0xEB, CHR 0x90, CHR 0x98] @
     [CHR 0xEC, CHR 0x97, CHR 0x88, CHR 0xEC, CHR 0x8A, CHR 0xB5, CHR 0xEB, CHR 0x8B, CHR 0x88] @
     [CHR 0xEB, CHR 0x8B, CHR 0xA4]"

definition log_thumbnail_saved_pre :: string where
  \<comment> \<open>generate_video.py:156; in English: the thumbnail was saved to\<close>
  "log_thumbnail_saved_pre =
     [CHR 0xEC, CHR 0x8D, CHR 0xB8, CHR 0xEB, CHR 0x84, CHR 0xA4, CHR 0xEC, CHR 0x9D, CHR 0xBC] @
     [CHR 0xEC, CHR 0x9D, CHR 0xB4] @ '' ''"

definition log_done :: string where
  \<comment> \<open>generate_video.py:158; in English: video generation finished!\<close>
  "log_done =
     [CHR 0xEB, CHR 0xB9, CHR 0x84, CHR 0xEB, CHR 0x94, CHR 0x94, CHR 0xEC, CHR 0x98, CHR 0xA4] @
     '' '' @ [CHR 0xEC, CHR 0x83, CHR 0x9D, CHR 0xEC, CHR 0x84, CHR 0xB1] @ '' '' @
     [CHR 0xEC, CHR 0x99, CHR 0x84, CHR 0xEB, CHR 0xA3, CHR 0x8C] @ ''!''"

definition log_error_pre :: string where
  \<comment> \<open>generate_video.py:161; in English: error occurred:\<close>
  "log_error_pre = [CHR 0xEC, CHR 0x98, CHR 0xA4, CHR 0xEB, CHR 0xA5, CHR 0x98] @ '' '' @
     [CHR 0xEB, CHR 0xB0, CHR 0x9C, CHR 0xEC, CHR 0x83, CHR 0x9D] @ '': ''"

definition log_no_video_url :: string where
  \<comment> \<open>simple_example.py:93; in English: no video URL found\<close>
  "log_no_video_url =
     [CHR 0xEB, CHR 0xB9, CHR 0x84, CHR 0xEB, CHR 0x94, CHR 0x94, CHR 0xEC, CHR 0x98, CHR 0xA4] @
     '' URL'' @ [CHR 0xEC, CHR 0x9D, CHR 0x84] @ '' '' @
     [CHR 0xEC, CHR 0xB0, CHR 0xBE, CHR 0xEC, CHR 0x9D, CHR 0x84] @ '' '' @
     [CHR 0xEC, CHR 0x88, CHR 0x98] @ '' '' @
     [CHR 0xEC, CHR 0x97, CHR 0x86, CHR 0xEC, CHR 0x8A, CHR 0xB5, CHR 0xEB, CHR 0x8B, CHR 0x88] @
     [CHR 0xEB, CHR 0x8B, CHR 0xA4]"

definition log_no_video :: string where
  \<comment> \<open>simple_example.py:95; in English: no video was generated\<close>
  "log_no_video =
     [CHR 0xEC, CHR 0x83, CHR 0x9D, CHR 0xEC, CHR 0x84, CHR 0xB1, CHR 0xEB, CHR 0x90, CHR 0x9C] @
     '' '' @
     [CHR 0xEB, CHR 0xB9, CHR 0x84, CHR 0xEB, CHR 0x94, CHR 0x94, CHR 0xEC, CHR 0x98, CHR 0xA4] @
     [CHR 0xEA, CHR 0xB0, CHR 0x80] @ '' '' @
     [CHR 0xEC, CHR 0x97, CHR 0x86, CHR 0xEC, CHR 0x8A, CHR 0xB5, CHR 0xEB, CHR 0x8B, CHR 0x88] @
     [CHR 0xEB, CHR 0x8B, CHR 0xA4]"

definition log_generation_error :: string where
  \<comment> \<open>simple_example.py:108; in English: video generation error:\<close>
  "log_generation_error =
     [CHR 0xEB, CHR 0xB9, CHR 0x84, CHR 0xEB, CHR 0x94, CHR 0x94, CHR 0xEC, CHR 0x98, CHR 0xA4] @
     '' '' @ [CHR 0xEC, CHR 0x83, CHR 0x9D, CHR 0xEC, CHR 0x84, CHR 0xB1] @ '' '' @
     [CHR 0xEC, CHR 0x98, CHR 0xA4, CHR 0xEB, CHR 0xA5, CHR 0x98] @ '': ''"

definition log_value_error :: string where
  \<comment> \<open>simple_example.py:111; in English: value error:\<close>
  "log_value_error = [CHR 0xEA, CHR 0xB0, CHR 0x92] @ '' '' @
     [CHR 0xEC, CHR 0x98, CHR 0xA4, CHR 0xEB, CHR 0xA5, CHR 0x98] @ '': ''"

definition log_missing_vars :: string where
  \<comment> \<open>config.py:54; in English: the following environment variables are not set:\<close>
  "log_missing_vars = [CHR 0xEB, CHR 0x8B, CHR 0xA4, CHR 0xEC, CHR 0x9D, CHR 0x8C] @ '' '' @
     [CHR 0xED, CHR 0x99, CHR 0x98, CHR 0xEA, CHR 0xB2, CHR 0xBD] @ '' '' @
     [CHR 0xEB, CHR 0xB3, CHR 0x80, CHR 0xEC, CHR 0x88, CHR 0x98, CHR 0xEA, CHR 0xB0, CHR 0x80] @
     '' '' @
     [CHR 0xEC, CHR 0x84, CHR 0xA4, CHR 0xEC, CHR 0xA0, CHR 0x95, CHR 0xEB, CHR 0x90, CHR 0x98] @
     [CHR 0xEC, CHR 0xA7, CHR 0x80] @ '' '' @
     [CHR 0xEC, CHR 0x95, CHR 0x8A, CHR 0xEC, CHR 0x95, CHR 0x98, CHR 0xEC, CHR 0x8A, CHR 0xB5] @
     [CHR 0xEB, CHR 0x8B, CHR 0x88, CHR 0xEB, CHR 0x8B, CHR 0xA4] @ '': ''"

definition log_set_credentials :: string where
  \<comment> \<open>config.py:55; in English: to set AWS credentials create a .env file or set the environment variables.\<close>
  "log_set_credentials = ''AWS '' @ [CHR 0xEC, CHR 0x9E, CHR 0x90, CHR 0xEA, CHR 0xB2, CHR 0xA9] @
     '' '' @
     [CHR 0xEC, CHR 0xA6, CHR 0x9D, CHR 0xEB, CHR 0xAA, CHR 0x85, CHR 0xEC, CHR 0x9D, CHR 0x84] @
     '' '' @
     [CHR 0xEC, CHR 0x84, CHR 0xA4, CHR 0xEC, CHR 0xA0, CHR 0x95, CHR 0xED, CHR 0x95, CHR 0x98] @
     [CHR 0xEB, CHR 0xA0, CHR 0xA4, CHR 0xEB, CHR 0xA9, CHR 0xB4] @ '' .env '' @
     [CHR 0xED, CHR 0x8C, CHR 0x8C, CHR 0xEC, CHR 0x9D, CHR 0xBC, CHR 0xEC, CHR 0x9D, CHR 0x84] @
     '' '' @
     [CHR 0xEB, CHR 0xA7, CHR 0x8C, CHR 0xEB, CHR 0x93, CHR 0xA4, CHR 0xEA, CHR 0xB1, CHR 0xB0] @
     [CHR 0xEB, CHR 0x82, CHR 0x98] @ '' '' @
     [CHR 0xED, CHR 0x99, CHR 0x98, CHR 0xEA, CHR 0xB2, CHR 0xBD] @ '' '' @
     [CHR 0xEB, CHR 0xB3, CHR 0x80, CHR 0xEC, CHR 0x88, CHR 0x98, CHR 0xEB, CHR 0xA5, CHR 0xBC] @
     '' '' @ [CHR 0xEC, CHR 0xA7, CHR 0x81, CHR 0xEC, CHR 0xA0, CHR 0x91] @ '' '' @
     [CHR 0xEC, CHR 0x84, CHR 0xA4, CHR 0xEC, CHR 0xA0, CHR 0x95, CHR 0xED, CHR 0x95, CHR 0x98] @
     [CHR 0xEC, CHR 0x84, CHR 0xB8, CHR 0xEC, CHR 0x9A, CHR 0x94] @ ''.''"

definition log_default_chain :: string where
  \<comment> \<open>config.py:76; in English: no AWS credentials, using the default credential provider chain.\<close>
  "log_default_chain = ''AWS '' @ [CHR 0xEC, CHR 0x9E, CHR 0x90, CHR 0xEA, CHR 0xB2, CHR 0xA9] @
     '' '' @
     [CHR 0xEC, CHR 0xA6, CHR 0x9D, CHR 0xEB, CHR 0xAA, CHR 0x85, CHR 0xEC, CHR 0x9D, CHR 0xB4] @
     '' '' @ [CHR 0xEC, CHR 0x97, CHR 0x86, CHR 0xEC, CHR 0x96, CHR 0xB4] @ '' '' @
     [CHR 0xEA, CHR 0xB8, CHR 0xB0, CHR 0xEB, CHR 0xB3, CHR 0xB8] @ '' '' @
     [CHR 0xEC, CHR 0x9E, CHR 0x90, CHR 0xEA, CHR 0xB2, CHR 0xA9] @ '' '' @
     [CHR 0xEC, CHR 0xA6, CHR 0x9D, CHR 0xEB, CHR 0xAA, CHR 0x85] @ '' '' @
     [CHR 0xEA, CHR 0xB3, CHR 0xB5, CHR 0xEA, CHR 0xB8, CHR 0x89, CHR 0xEC, CHR 0x9E, CHR 0x90] @
     '' '' @
     [CHR 0xEC, CHR 0xB2, CHR 0xB4, CHR 0xEC, CHR 0x9D, CHR 0xB8, CHR 0xEC, CHR 0x9D, CHR 0x84] @
     '' '' @
     [CHR 0xEC, CHR 0x82, CHR 0xAC, CHR 0xEC, CHR 0x9A, CHR 0xA9, CHR 0xED, CHR 0x95, CHR 0xA9] @
     [CHR 0xEB, CHR 0x8B, CHR 0x88, CHR 0xEB, CHR 0x8B, CHR 0xA4] @ ''.''"

section \<open>The remote service, the clock and the other effects\<close>

text \<open>
  The response body of the service after \<open>json.loads\<close>: the keys the scripts read, each
  absent (\<open>None\<close>, what \<open>.get\<close> returns) or present with a value of the type the service
  documents.
\<close>

record artifact =
  url :: "string option"

record response_body =
  status :: "string option"
  jobId :: "string option"
  errorMessage :: "string option"
  videos :: "artifact list option"
  thumbnails :: "artifact list option"

text \<open>
  The dictionary given to \<open>json.dumps\<close> as the body of a request, in the order of its keys:
  a text-to-video submission (prompt, seed, duration, aspectRatio, jobType, taskType,
  imageQuality, negativePrompt, stylePreset), a storyboard submission (storyboard, seed,
  duration, aspectRatio, jobType, taskType, imageQuality) and a status check (jobId,
  taskType).
\<close>

datatype body =
    TextToVideoBody string int int string string string string "string option" "string option"
  | StoryboardBody "string list" int int string string string string
  | StatusBody string string

fun body_seed :: "body \<Rightarrow> int option" where
  "body_seed (TextToVideoBody prompt seed duration aspectRatio jobType taskType imageQuality
      negativePrompt stylePreset) = Some seed"
| "body_seed (StoryboardBody storyboard seed duration aspectRatio jobType taskType
      imageQuality) = Some seed"
| "body_seed (StatusBody job_id taskType) = None"

record request =
  modelId :: string
  contentType :: string
  accept :: string
  body :: body

record http_response =
  status_code :: int
  reason :: string
  content :: bytes

datatype level = INFO | WARNING | ERROR

text \<open>
  The world the scripts run in. Its first fields are what the environment decides and the
  scripts never change: the result of the \<open>k\<close>-th call of \<open>invoke_model\<close> followed by
  \<open>json.loads\<close> (an exception or a response body), the \<open>k\<close>-th reading of \<open>time.time()\<close>, the
  \<open>k\<close>-th UUID of \<open>uuid.uuid4()\<close> as text, Python's \<open>hash\<close> of a string, the result of the
  \<open>k\<close>-th \<open>requests.get\<close>, the exception with which \<open>open(path, 'wb')\<close> and
  \<open>os.makedirs(path, exist_ok=True)\<close> fail, if they do, and \<open>base64.b64encode\<close>.
  The other fields record what the scripts did: the requests sent, the number of clock
  readings and of UUIDs drawn, the URLs fetched, the arguments of \<open>time.sleep\<close>, the log
  records, the directories made and the files on disk.
\<close>

record world =
  invoke_results :: "nat \<Rightarrow> exn + response_body"
  clock :: "nat \<Rightarrow> real"
  uuid4 :: "nat \<Rightarrow> string"
  py_hash :: "string \<Rightarrow> int"
  http_results :: "nat \<Rightarrow> exn + http_response"
  open_fails :: "string \<Rightarrow> exn option"
  makedirs_fails :: "string \<Rightarrow> exn option"
  b64encode :: "bytes \<Rightarrow> string"
  requests :: "request list"
  clock_reads :: nat
  uuids_drawn :: nat
  fetched :: "string list"
  sleeps :: "int list"
  logs :: "(level \<times> string) list"
  made_dirs :: "string list"
  files :: "string \<Rightarrow> bytes option"

definition logger_info :: "string \<Rightarrow> world \<Rightarrow> world" where
  "logger_info msg w = w\<lparr>logs := logs w @ [(INFO, msg)]\<rparr>"

definition logger_warning :: "string \<Rightarrow> world \<Rightarrow> world" where
  "logger_warning msg w = w\<lparr>logs := logs w @ [(WARNING, msg)]\<rparr>"

definition logger_error :: "string \<Rightarrow> world \<Rightarrow> world" where
  "logger_error msg w = w\<lparr>logs := logs w @ [(ERROR, msg)]\<rparr>"

definition time_time :: "world \<Rightarrow> real \<times> world" where
  "time_time w = (clock w (clock_reads w), w\<lparr>clock_reads := Suc (clock_reads w)\<rparr>)"

text \<open>\<open>time.sleep\<close> raises \<open>ValueError\<close> for a negative argument.\<close>

definition time_sleep :: "int \<Rightarrow> world \<Rightarrow> (exn + unit) \<times> world" where
  "time_sleep secs w =
     (if secs < 0 then (Inl (ValueError ''sleep length must be non-negative''), w)
      else (Inr (), w\<lparr>sleeps := sleeps w @ [secs]\<rparr>))"

text \<open>
  \<open>response = client.invoke_model(**request_body)\<close> followed by
  \<open>json.loads(response['body'].read())\<close>: the request is sent, and the environment answers
  with an exception (a \<open>ClientError\<close> of the SDK, a \<open>JSONDecodeError\<close> of \<open>json.loads\<close>, or
  another one) or with the decoded body.
\<close>

definition invoke_model :: "request \<Rightarrow> world \<Rightarrow> (exn + response_body) \<times> world" where
  "invoke_model request_body w =
     (invoke_results w (length (requests w)), w\<lparr>requests := requests w @ [request_body]\<rparr>)"

section \<open>config.py\<close>

text \<open>
  The values the module reads from the environment when it is imported. \<open>environ\<close> is
  \<open>os.environ\<close> after \<open>load_dotenv\<close>; \<open>py_int\<close> is Python's \<open>int\<close> on a string, \<open>None\<close> where
  it raises \<open>ValueError\<close>; \<open>project_root\<close> is the directory of the module.
\<close>

record config =
  AWS_ACCESS_KEY_ID :: "string option"
  AWS_SECRET_ACCESS_KEY :: "string option"
  AWS_REGION :: string
  DEFAULT_MODEL_ID :: string
  DEFAULT_DURATION :: int
  DEFAULT_IMAGE_QUALITY :: string
  OUTPUT_DIR :: string

text \<open>\<open>os.path.join\<close> of two POSIX paths.\<close>

definition os_path_join :: "string \<Rightarrow> string \<Rightarrow> string" where
  "os_path_join a b =
     (if b \<noteq> [] \<and> hd b = CHR ''/'' then b
      else if a = [] \<or> last a = CHR ''/'' then a @ b
      else a @ ''/'' @ b)"

definition load_config ::
  "(string \<Rightarrow> string option) \<Rightarrow> (string \<Rightarrow> int option) \<Rightarrow> string \<Rightarrow> exn + config" where
  "load_config environ py_int project_root =
     (case (case environ ''DEFAULT_DURATION'' of
              None \<Rightarrow> Inr 5000
            | Some s \<Rightarrow>
                (case py_int s of
                   None \<Rightarrow> Inl (ValueError (''invalid literal for int() with base 10: '' @ s))
                 | Some i \<Rightarrow> Inr i)) of
        Inl e \<Rightarrow> Inl e
      | Inr default_duration \<Rightarrow>
          Inr \<lparr>AWS_ACCESS_KEY_ID = environ ''AWS_ACCESS_KEY_ID'',
               AWS_SECRET_ACCESS_KEY = environ ''AWS_SECRET_ACCESS_KEY'',
               AWS_REGION = get_default (environ ''AWS_REGION'') ''us-east-1'',
               DEFAULT_MODEL_ID =
                 get_default (environ ''DEFAULT_MODEL_ID'') ''amazon.nova.video-1080p'',
               DEFAULT_DURATION = default_duration,
               DEFAULT_IMAGE_QUALITY =
                 get_default (environ ''DEFAULT_IMAGE_QUALITY'') ''standard'',
               OUTPUT_DIR =
                 get_default (environ ''OUTPUT_DIR'') (os_path_join project_root ''output'')\<rparr>)"

text \<open>Python's truth value of a value that is a \<open>str\<close> or \<open>None\<close>.\<close>

definition truthy :: "string option \<Rightarrow> bool" where
  "truthy v = (case v of None \<Rightarrow> False | Some s \<Rightarrow> s \<noteq> [])"

text \<open>\<open>sep.join(xs)\<close>.\<close>

fun str_join :: "string \<Rightarrow> string list \<Rightarrow> string" where
  "str_join sep [] = []"
| "str_join sep [x] = x"
| "str_join sep (x # y # ys) = x @ sep @ str_join sep (y # ys)"

definition missing_vars :: "config \<Rightarrow> string list" where
  "missing_vars cfg =
     (if \<not> truthy (AWS_ACCESS_KEY_ID cfg) then [''AWS_ACCESS_KEY_ID''] else []) @
     (if \<not> truthy (AWS_SECRET_ACCESS_KEY cfg) then [''AWS_SECRET_ACCESS_KEY''] else [])"

definition validate_aws_credentials :: "config \<Rightarrow> world \<Rightarrow> bool \<times> world" where
  "validate_aws_credentials cfg w =
     (if missing_vars cfg \<noteq> [] then
        (False,
         logger_warning log_set_credentials
           (logger_warning (log_missing_vars @ str_join '', '' (missing_vars cfg)) w))
      else (True, w))"

text \<open>
  \<open>config.create_bedrock_client\<close>. Building the SDK's client object has no effect that the
  scripts observe: the client is the service of the world. What remains is the validation
  and its log records.
\<close>

definition config_create_bedrock_client :: "config \<Rightarrow> world \<Rightarrow> world" where
  "config_create_bedrock_client cfg w =
     (case validate_aws_credentials cfg w of
        (valid, w1) \<Rightarrow> if \<not> valid then logger_warning log_default_chain w1 else w1)"

section \<open>handle\_errors.py\<close>

subsection \<open>The decorator \<open>handle_common_errors\<close>\<close>

definition handle_common_errors ::
  "(world \<Rightarrow> (exn + 'a) \<times> world) \<Rightarrow> world \<Rightarrow> (exn + 'a) \<times> world" where
  "handle_common_errors func w =
     (case func w of
        (Inr v, w1) \<Rightarrow> (Inr v, w1)
      | (Inl e, w1) \<Rightarrow>
          (case e of
             ClientError error_code error_msg s \<Rightarrow>
               if error_code = Some ''AccessDeniedException'' then
                 (Inl (BedrockVideoGenerationError (tag_access_denied @ py_str_opt error_msg)),
                  logger_error
                    (log_access_denied_pre @ py_str_opt error_msg @ log_access_denied_post) w1)
               else if error_code = Some ''ValidationException'' then
                 (Inl (BedrockVideoGenerationError (tag_validation @ py_str_opt error_msg)),
                  logger_error
                    (log_validation_pre @ py_str_opt error_msg @ log_validation_post) w1)
               else if error_code = Some ''ResourceNotFoundException'' then
                 (Inl (BedrockVideoGenerationError (tag_not_found @ py_str_opt error_msg)),
                  logger_error
                    (log_not_found_pre @ py_str_opt error_msg @ log_not_found_post) w1)
               else if error_code = Some ''ThrottlingException'' then
                 (Inl (BedrockVideoGenerationError (tag_throttling @ py_str_opt error_msg)),
                  logger_error
                    (log_throttling_pre @ py_str_opt error_msg @ log_throttling_post) w1)
               else if error_code = Some ''ServiceQuotaExceededException'' then
                 (Inl (BedrockVideoGenerationError (tag_quota @ py_str_opt error_msg)),
                  logger_error
                    (log_quota_pre @ py_str_opt error_msg @ log_quota_post) w1)
               else
                 (Inl (BedrockVideoGenerationError
                    (tag_aws_api @ py_str_opt error_code @ '' - '' @ py_str_opt error_msg)),
                  logger_error
                    (log_aws_api @ py_str_opt error_code @ '' - '' @ py_str_opt error_msg) w1)
           | JSONDecodeError s \<Rightarrow>
               (Inl (BedrockVideoGenerationError (tag_json @ s)),
                logger_error (log_json_pre @ s @ log_json_post) w1)
           | _ \<Rightarrow>
               (Inl (BedrockVideoGenerationError (tag_unexpected @ str_exn e)),
                logger_error (log_unexpected @ str_exn e) w1)))"

subsection \<open>\<open>BedrockVideoClient.generate_video\<close>\<close>

text \<open>
  The keyword arguments the method reads with \<open>kwargs.get\<close> and \<open>in kwargs\<close>, each given or
  not.
\<close>

record kwargs =
  kw_seed :: "int option"
  kw_duration :: "int option"
  kw_aspect_ratio :: "string option"
  kw_image_quality :: "string option"
  kw_negative_prompt :: "string option"
  kw_style_preset :: "string option"

definition int_default :: "int option \<Rightarrow> int \<Rightarrow> int" where
  "int_default v d = (case v of None \<Rightarrow> d | Some i \<Rightarrow> i)"

text \<open>The function under the decorator, then the method as callers see it.\<close>

definition BedrockVideoClient_generate_video_func ::
  "string \<Rightarrow> string \<Rightarrow> kwargs \<Rightarrow> world \<Rightarrow> (exn + response_body) \<times> world" where
  "BedrockVideoClient_generate_video_func prompt model_id kw w =
     (if prompt = [] then (Inl (ValueError msg_prompt_required), w)
      else
        (case invoke_model
           \<lparr>modelId = model_id, contentType = ''application/json'',
            accept = ''application/json'',
            body = TextToVideoBody prompt (int_default (kw_seed kw) 42)
              (int_default (kw_duration kw) 4000) (get_default (kw_aspect_ratio kw) ''16:9'')
              ''video-generation'' ''text-to-video''
              (get_default (kw_image_quality kw) ''standard'')
              (kw_negative_prompt kw) (kw_style_preset kw)\<rparr> w of
           (Inl e, w1) \<Rightarrow> (Inl e, logger_error (log_generate_failed @ str_exn e) w1)
         | (Inr response_body, w1) \<Rightarrow> (Inr response_body, w1)))"

definition BedrockVideoClient_generate_video ::
  "string \<Rightarrow> string \<Rightarrow> kwargs \<Rightarrow> world \<Rightarrow> (exn + response_body) \<times> world" where
  "BedrockVideoClient_generate_video prompt model_id kw =
     handle_common_errors (BedrockVideoClient_generate_video_func prompt model_id kw)"

subsection \<open>\<open>BedrockVideoClient.check_job_status\<close>\<close>

definition status_request :: "string \<Rightarrow> string \<Rightarrow> string \<Rightarrow> request" where
  "status_request job_id model_id task_type =
     \<lparr>modelId = model_id, contentType = ''application/json'', accept = ''application/json'',
      body = StatusBody job_id task_type\<rparr>"

text \<open>
  An exception raised inside the \<open>try\<close> block, the one for status \<open>failed\<close> included, passes
  through \<open>except Exception\<close>, which logs it and raises it again.
\<close>

definition BedrockVideoClient_check_job_status_func ::
  "string \<Rightarrow> string \<Rightarrow> string \<Rightarrow> world \<Rightarrow> (exn + response_body) \<times> world" where
  "BedrockVideoClient_check_job_status_func job_id model_id task_type w =
     (if job_id = [] then (Inl (ValueError msg_job_id_required), w)
      else
        (case invoke_model (status_request job_id model_id task_type) w of
           (Inl e, w1) \<Rightarrow> (Inl e, logger_error (log_status_check_failed @ str_exn e) w1)
         | (Inr response_body, w1) \<Rightarrow>
             if status response_body = Some ''failed'' then
               (let error_message = get_default (errorMessage response_body) msg_unknown_error;
                    w2 = logger_error (msg_job_failed @ error_message) w1;
                    e = BedrockVideoGenerationError (msg_job_failed @ error_message)
                in (Inl e, logger_error (log_status_check_failed @ str_exn e) w2))
             else (Inr response_body, w1)))"

definition BedrockVideoClient_check_job_status ::
  "string \<Rightarrow> string \<Rightarrow> string \<Rightarrow> world \<Rightarrow> (exn + response_body) \<times> world" where
  "BedrockVideoClient_check_job_status job_id model_id task_type =
     handle_common_errors (BedrockVideoClient_check_job_status_func job_id model_id task_type)"

subsection \<open>\<open>BedrockVideoClient.wait_for_job_completion\<close>\<close>

text \<open>
  The \<open>except Exception\<close> clause of the loop: a \<open>BedrockVideoGenerationError\<close> is raised
  again; any other exception is logged, the loop sleeps and goes on (\<open>Inr None\<close>). An
  exception of the handler's own \<open>time.sleep\<close> leaves the function.
\<close>

definition wait_except :: "int \<Rightarrow> exn \<Rightarrow> world \<Rightarrow> (exn + response_body option) \<times> world" where
  "wait_except interval e w =
     (if is_BedrockVideoGenerationError e then (Inl e, w)
      else
        (case time_sleep interval (logger_error (log_status_check_failed @ str_exn e) w) of
           (Inl e', w1) \<Rightarrow> (Inl e', w1)
         | (Inr u, w1) \<Rightarrow> (Inr None, w1)))"

text \<open>
  One pass through the body of the \<open>while\<close> loop, the \<open>try\<close> block with its handler:
  \<open>Inl e\<close> when \<open>e\<close> leaves the function, \<open>Inr (Some response)\<close> for \<open>return response\<close>,
  \<open>Inr None\<close> when the pass ends with \<open>attempt += 1\<close>.
\<close>

definition wait_try ::
  "string \<Rightarrow> string \<Rightarrow> string \<Rightarrow> int \<Rightarrow> int \<Rightarrow> int \<Rightarrow> world
     \<Rightarrow> (exn + response_body option) \<times> world" where
  "wait_try job_id model_id task_type interval max_attempts attempt w =
     (case BedrockVideoClient_check_job_status job_id model_id task_type w of
        (Inl e, w1) \<Rightarrow> wait_except interval e w1
      | (Inr response, w1) \<Rightarrow>
          if status response = Some ''completed'' then
            (Inr (Some response), logger_info (lit_job @ job_id @ log_completed_post) w1)
          else if status response = Some ''failed'' then
            wait_except interval
              (BedrockVideoGenerationError
                 (msg_job_failed @ get_default (errorMessage response) msg_unknown_error)) w1
          else if status response = Some ''expired'' then
            wait_except interval (BedrockVideoGenerationError msg_job_expired) w1
          else
            (case time_sleep interval
               (logger_info
                  (log_status_pre @ py_str_opt (status response) @ log_status_mid @
                   py_str_int (attempt + 1) @ ''/'' @ py_str_int max_attempts @ '')'') w1) of
               (Inl e, w2) \<Rightarrow> wait_except interval e w2
             | (Inr u, w2) \<Rightarrow> (Inr None, w2)))"

text \<open>The two \<open>raise TimeoutError\<close> after the loop, chosen by one more clock reading.\<close>

definition wait_after_loop ::
  "string \<Rightarrow> int \<Rightarrow> int \<Rightarrow> real \<Rightarrow> world \<Rightarrow> (exn + response_body) \<times> world" where
  "wait_after_loop job_id max_attempts timeout start_time w =
     (case time_time w of
        (now, w1) \<Rightarrow>
          if now - start_time \<ge> of_int timeout then
            (Inl (TimeoutError
               (lit_job @ job_id @ msg_timeout_mid @ py_str_int timeout @ msg_timeout_post)), w1)
          else
            (Inl (TimeoutError
               (lit_job @ job_id @ msg_attempts_mid @ py_str_int max_attempts @
                msg_attempts_post)), w1))"

text \<open>
  The \<open>while\<close> loop with what follows it. \<open>and\<close> does not evaluate its right side when the
  left one is false, so the clock is read only while \<open>attempt < max_attempts\<close>.
\<close>

function wait_loop ::
  "string \<Rightarrow> string \<Rightarrow> string \<Rightarrow> int \<Rightarrow> int \<Rightarrow> int \<Rightarrow> real \<Rightarrow> int \<Rightarrow> world
     \<Rightarrow> (exn + response_body) \<times> world" where
  "wait_loop job_id model_id task_type interval max_attempts timeout start_time attempt w =
     (if attempt < max_attempts then
        (case time_time w of
           (now, w1) \<Rightarrow>
             if now - start_time < of_int timeout then
               (case wait_try job_id model_id task_type interval max_attempts attempt w1 of
                  (Inl e, w2) \<Rightarrow> (Inl e, w2)
                | (Inr (Some response), w2) \<Rightarrow> (Inr response, w2)
                | (Inr None, w2) \<Rightarrow>
                    wait_loop job_id model_id task_type interval max_attempts timeout
                      start_time (attempt + 1) w2)
             else wait_after_loop job_id max_attempts timeout start_time w1)
      else wait_after_loop job_id max_attempts timeout start_time w)"
  by pat_completeness auto
termination
  by (relation "measure (\<lambda>(job_id, model_id, task_type, interval, max_attempts, timeout,
        start_time, attempt, w). nat (max_attempts - attempt))") auto

declare wait_loop.simps [simp del]

definition BedrockVideoClient_wait_for_job_completion_func ::
  "string \<Rightarrow> string \<Rightarrow> string \<Rightarrow> int \<Rightarrow> int \<Rightarrow> int \<Rightarrow> world
     \<Rightarrow> (exn + response_body) \<times> world" where
  "BedrockVideoClient_wait_for_job_completion_func job_id model_id task_type interval
       max_attempts timeout w =
     (if job_id = [] then (Inl (ValueError msg_job_id_required), w)
      else
        (case time_time w of
           (start_time, w1) \<Rightarrow>
             wait_loop job_id model_id task_type interval max_attempts timeout start_time 0
               w1))"

definition BedrockVideoClient_wait_for_job_completion ::
  "string \<Rightarrow> string \<Rightarrow> string \<Rightarrow> int \<Rightarrow> int \<Rightarrow> int \<Rightarrow> world
     \<Rightarrow> (exn + response_body) \<times> world" where
  "BedrockVideoClient_wait_for_job_completion job_id model_id task_type interval max_attempts
       timeout =
     handle_common_errors
       (BedrockVideoClient_wait_for_job_completion_func job_id model_id task_type interval
          max_attempts timeout)"

section \<open>generate\_video.py\<close>

definition uuid_uuid4 :: "world \<Rightarrow> string \<times> world" where
  "uuid_uuid4 w = (uuid4 w (uuids_drawn w), w\<lparr>uuids_drawn := Suc (uuids_drawn w)\<rparr>)"

text \<open>The expression \<open>abs(hash(str(uuid.uuid4()))) % (2**32)\<close>.\<close>

definition random_seed :: "world \<Rightarrow> int \<times> world" where
  "random_seed w = (case uuid_uuid4 w of (u, w1) \<Rightarrow> (\<bar>py_hash w1 u\<bar> mod 2 ^ 32, w1))"

definition generate_video ::
  "string \<Rightarrow> string \<Rightarrow> world \<Rightarrow> (exn + response_body) \<times> world" where
  "generate_video prompt model_id w =
     (case random_seed w of
        (seed, w1) \<Rightarrow>
          invoke_model
            \<lparr>modelId = model_id, contentType = ''application/json'',
             accept = ''application/json'',
             body = TextToVideoBody prompt seed 4000 ''16:9'' ''video-generation''
               ''text-to-video'' ''standard'' None None\<rparr> w1)"

text \<open>
  \<open>requests.get(url)\<close> and \<open>response.raise_for_status()\<close> of the \<open>requests\<close> library: the
  latter raises \<open>HTTPError\<close> for a status code from 400 to 599 and returns otherwise.
\<close>

definition requests_get :: "string \<Rightarrow> world \<Rightarrow> (exn + http_response) \<times> world" where
  "requests_get u w = (http_results w (length (fetched w)), w\<lparr>fetched := fetched w @ [u]\<rparr>)"

definition raise_for_status :: "string \<Rightarrow> http_response \<Rightarrow> exn + unit" where
  "raise_for_status u response =
     (if 400 \<le> status_code response \<and> status_code response < 500 then
        Inl (HTTPError (py_str_int (status_code response) @ '' Client Error: '' @
          reason response @ '' for url: '' @ u))
      else if 500 \<le> status_code response \<and> status_code response < 600 then
        Inl (HTTPError (py_str_int (status_code response) @ '' Server Error: '' @
          reason response @ '' for url: '' @ u))
      else Inr ())"

text \<open>
  \<open>with open(output_path, 'wb') as f\<close> followed by the writes of the given chunks: opening
  may raise; if it does not, the file exists and holds what was written.
\<close>

definition open_wb_write :: "string \<Rightarrow> bytes list \<Rightarrow> world \<Rightarrow> (exn + unit) \<times> world" where
  "open_wb_write output_path chunks w =
     (case open_fails w output_path of
        Some e \<Rightarrow> (Inl e, w)
      | None \<Rightarrow> (Inr (), w\<lparr>files := (files w)(output_path \<mapsto> foldl (@) [] chunks)\<rparr>))"

definition download_content :: "string \<Rightarrow> string \<Rightarrow> world \<Rightarrow> (exn + string) \<times> world" where
  "download_content u output_path w =
     (case requests_get u w of
        (Inl e, w1) \<Rightarrow> (Inl e, w1)
      | (Inr response, w1) \<Rightarrow>
          (case raise_for_status u response of
             Inl e \<Rightarrow> (Inl e, w1)
           | Inr checked \<Rightarrow>
               (case open_wb_write output_path [content response] w1 of
                  (Inl e, w2) \<Rightarrow> (Inl e, w2)
                | (Inr done, w2) \<Rightarrow> (Inr output_path, w2))))"

function poll_loop ::
  "string \<Rightarrow> string \<Rightarrow> int \<Rightarrow> int \<Rightarrow> int \<Rightarrow> world \<Rightarrow> (exn + response_body) \<times> world" where
  "poll_loop job_id model_id interval max_attempts attempts w =
     (if attempts < max_attempts then
        (case invoke_model (status_request job_id model_id ''text-to-video'') w of
           (Inl e, w1) \<Rightarrow> (Inl e, w1)
         | (Inr response_body, w1) \<Rightarrow>
             (let w2 = logger_info (''Job status: '' @ py_str_opt (status response_body)) w1
              in if status response_body = Some ''completed'' then (Inr response_body, w2)
                 else if status response_body \<in> {Some ''failed'', Some ''expired''} then
                   (Inl (Exception
                      (''Job '' @ job_id @ '' '' @ py_str_opt (status response_body) @ '': '' @
                       get_default (errorMessage response_body) ''No error message'')), w2)
                 else
                   (case time_sleep interval w2 of
                      (Inl e, w3) \<Rightarrow> (Inl e, w3)
                    | (Inr u, w3) \<Rightarrow>
                        poll_loop job_id model_id interval max_attempts (attempts + 1) w3)))
      else
        (Inl (TimeoutError
           (''Job '' @ job_id @ '' did not complete within the expected time'')), w))"
  by pat_completeness auto
termination
  by (relation "measure (\<lambda>(job_id, model_id, interval, max_attempts, attempts, w).
        nat (max_attempts - attempts))") auto

declare poll_loop.simps [simp del]

definition poll_job_status ::
  "string \<Rightarrow> string \<Rightarrow> int \<Rightarrow> int \<Rightarrow> world \<Rightarrow> (exn + response_body) \<times> world" where
  "poll_job_status job_id model_id interval max_attempts w =
     poll_loop job_id model_id interval max_attempts 0 w"

record args =
  arg_prompt :: string
  arg_model_id :: string
  arg_duration :: int
  arg_output_dir :: string
  arg_region :: string

definition os_makedirs :: "string \<Rightarrow> world \<Rightarrow> (exn + unit) \<times> world" where
  "os_makedirs path w =
     (case makedirs_fails w path of
        Some e \<Rightarrow> (Inl e, w)
      | None \<Rightarrow> (Inr (), w\<lparr>made_dirs := made_dirs w @ [path]\<rparr>))"

definition create_bedrock_client :: "config \<Rightarrow> string \<Rightarrow> world \<Rightarrow> world" where
  "create_bedrock_client cfg region w =
     (if region \<noteq> AWS_REGION cfg then w else config_create_bedrock_client cfg w)"

text \<open>
  The two blocks of \<open>main\<close> that save the first video and the first thumbnail of the
  result. \<open>result[key][0]\<close> raises \<open>IndexError\<close> on an empty list.
\<close>

definition save_first ::
  "artifact list option \<Rightarrow> string \<Rightarrow> string \<Rightarrow> string \<Rightarrow> world \<Rightarrow> (exn + unit) \<times> world" where
  "save_first listed path log_pre log_post w =
     (case listed of
        None \<Rightarrow> (Inr (), w)
      | Some [] \<Rightarrow> (Inl (IndexError ''list index out of range''), w)
      | Some (first # rest) \<Rightarrow>
          if truthy (url first) then
            (case download_content (the (url first)) path w of
               (Inl e, w1) \<Rightarrow> (Inl e, w1)
             | (Inr p, w1) \<Rightarrow> (Inr (), logger_info (log_pre @ path @ log_post) w1))
          else (Inr (), w))"

text \<open>The \<open>try\<close> block of \<open>main\<close>.\<close>

definition main_try :: "args \<Rightarrow> world \<Rightarrow> (exn + unit) \<times> world" where
  "main_try a w =
     (case generate_video (arg_prompt a) (arg_model_id a)
             (logger_info (log_start_pre @ arg_prompt a @ [CHR 0x27]) w) of
        (Inl e, w1) \<Rightarrow> (Inl e, w1)
      | (Inr response, w1) \<Rightarrow>
          if \<not> truthy (jobId response) then (Inl (ValueError msg_no_job_id), w1)
          else
            (let job_id = the (jobId response)
             in case poll_job_status job_id (arg_model_id a) 5 60
                  (logger_info (log_job_id_pre @ job_id @ log_job_id_post) w1) of
               (Inl e, w2) \<Rightarrow> (Inl e, w2)
             | (Inr result, w2) \<Rightarrow>
                 (case save_first (videos result)
                    (os_path_join (arg_output_dir a) (''video_'' @ job_id @ ''.mp4''))
                    log_video_saved_pre log_saved_post w2 of
                    (Inl e, w3) \<Rightarrow> (Inl e, w3)
                  | (Inr u, w3) \<Rightarrow>
                      (case save_first (thumbnails result)
                         (os_path_join (arg_output_dir a)
                            (''thumbnail_'' @ job_id @ ''.jpg''))
                         log_thumbnail_saved_pre log_saved_post w3 of
                         (Inl e, w4) \<Rightarrow> (Inl e, w4)
                       | (Inr u', w4) \<Rightarrow> (Inr (), logger_info log_done w4)))))"

text \<open>
  \<open>main\<close>: the value is the exit status. Only an exception of \<open>os.makedirs\<close>, outside the
  \<open>try\<close> block, leaves \<open>main\<close>.
\<close>

definition main :: "config \<Rightarrow> args \<Rightarrow> world \<Rightarrow> (exn + int) \<times> world" where
  "main cfg a w =
     (case os_makedirs (arg_output_dir a) w of
        (Inl e, w1) \<Rightarrow> (Inl e, w1)
      | (Inr u, w1) \<Rightarrow>
          (case main_try a (create_bedrock_client cfg (arg_region a) w1) of
             (Inl e, w2) \<Rightarrow> (Inr 1, logger_error (log_error_pre @ str_exn e) w2)
           | (Inr u', w2) \<Rightarrow> (Inr 0, w2)))"

section \<open>simple\_example.py\<close>

text \<open>
  \<open>response.iter_content(chunk_size=8192)\<close>: the body in pieces of at most the given size,
  in order. The body is taken to arrive whole.
\<close>

function iter_content :: "nat \<Rightarrow> bytes \<Rightarrow> bytes list" where
  "iter_content chunk_size data =
     (if chunk_size = 0 \<or> data = [] then []
      else take chunk_size data # iter_content chunk_size (drop chunk_size data))"
  by pat_completeness auto
termination
  by (relation "measure (\<lambda>(chunk_size, data). length data)") auto

declare iter_content.simps [simp del]

definition download_video :: "string \<Rightarrow> string \<Rightarrow> world \<Rightarrow> (exn + string) \<times> world" where
  "download_video u output_path w =
     (case requests_get u w of
        (Inl e, w1) \<Rightarrow> (Inl e, w1)
      | (Inr response, w1) \<Rightarrow>
          (case raise_for_status u response of
             Inl e \<Rightarrow> (Inl e, w1)
           | Inr checked \<Rightarrow>
               (case open_wb_write output_path (iter_content 8192 (content response)) w1 of
                  (Inl e, w2) \<Rightarrow> (Inl e, w2)
                | (Inr done, w2) \<Rightarrow> (Inr output_path, w2))))"

text \<open>\<open>BedrockVideoClient(region=args.region)\<close>, the constructor of handle\_errors.py.\<close>

definition BedrockVideoClient_init :: "config \<Rightarrow> string \<Rightarrow> world \<Rightarrow> world" where
  "BedrockVideoClient_init cfg region w =
     (if region \<noteq> [] then w else config_create_bedrock_client cfg w)"

text \<open>
  The blocks of \<open>main\<close> that save the first video and the first thumbnail: here the list
  is tested for emptiness first, and a warning is logged where the source has an \<open>else\<close>
  (for the video only).
\<close>

definition save_video :: "artifact list option \<Rightarrow> string \<Rightarrow> world \<Rightarrow> (exn + unit) \<times> world" where
  "save_video listed path w =
     (case listed of
        None \<Rightarrow> (Inr (), logger_warning log_no_video w)
      | Some [] \<Rightarrow> (Inr (), logger_warning log_no_video w)
      | Some (first # rest) \<Rightarrow>
          if truthy (url first) then
            (case download_video (the (url first)) path w of
               (Inl e, w1) \<Rightarrow> (Inl e, w1)
             | (Inr p, w1) \<Rightarrow>
                 (Inr (), logger_info (log_video_saved_pre @ path @ log_saved_post) w1))
          else (Inr (), logger_warning log_no_video_url w))"

definition save_thumbnail ::
  "artifact list option \<Rightarrow> string \<Rightarrow> world \<Rightarrow> (exn + unit) \<times> world" where
  "save_thumbnail listed path w =
     (case listed of
        None \<Rightarrow> (Inr (), w)
      | Some [] \<Rightarrow> (Inr (), w)
      | Some (first # rest) \<Rightarrow>
          if truthy (url first) then
            (case download_video (the (url first)) path w of
               (Inl e, w1) \<Rightarrow> (Inl e, w1)
             | (Inr p, w1) \<Rightarrow>
                 (Inr (), logger_info (log_thumbnail_saved_pre @ path @ log_saved_post) w1))
          else (Inr (), w))"

definition simple_main_try :: "args \<Rightarrow> world \<Rightarrow> (exn + unit) \<times> world" where
  "simple_main_try a w =
     (case BedrockVideoClient_generate_video (arg_prompt a) (arg_model_id a)
             \<lparr>kw_seed = None, kw_duration = Some (arg_duration a), kw_aspect_ratio = None,
              kw_image_quality = Some ''standard'', kw_negative_prompt = None,
              kw_style_preset = None\<rparr>
             (logger_info (log_start_pre @ arg_prompt a @ [CHR 0x27]) w) of
        (Inl e, w1) \<Rightarrow> (Inl e, w1)
      | (Inr response, w1) \<Rightarrow>
          if \<not> truthy (jobId response) then (Inl (ValueError msg_no_job_id), w1)
          else
            (let job_id = the (jobId response)
             in case BedrockVideoClient_wait_for_job_completion job_id (arg_model_id a)
                  ''text-to-video'' 5 60 300
                  (logger_info (log_job_id_pre @ job_id @ log_job_id_post) w1) of
               (Inl e, w2) \<Rightarrow> (Inl e, w2)
             | (Inr result, w2) \<Rightarrow>
                 (case save_video (videos result)
                    (os_path_join (arg_output_dir a) (''video_'' @ job_id @ ''.mp4'')) w2 of
                    (Inl e, w3) \<Rightarrow> (Inl e, w3)
                  | (Inr u, w3) \<Rightarrow>
                      (case save_thumbnail (thumbnails result)
                         (os_path_join (arg_output_dir a)
                            (''thumbnail_'' @ job_id @ ''.jpg'')) w3 of
                         (Inl e, w4) \<Rightarrow> (Inl e, w4)
                       | (Inr u', w4) \<Rightarrow> (Inr (), logger_info log_done w4)))))"

text \<open>
  \<open>main\<close> of simple\_example.py, with its three \<open>except\<close> clauses in the order of the
  source.
\<close>

definition simple_main :: "config \<Rightarrow> args \<Rightarrow> world \<Rightarrow> (exn + int) \<times> world" where
  "simple_main cfg a w =
     (case os_makedirs (arg_output_dir a) w of
        (Inl e, w1) \<Rightarrow> (Inl e, w1)
      | (Inr u, w1) \<Rightarrow>
          (case simple_main_try a (BedrockVideoClient_init cfg (arg_region a) w1) of
             (Inl e, w2) \<Rightarrow>
               if is_BedrockVideoGenerationError e then
                 (Inr 1, logger_error (log_generation_error @ str_exn e) w2)
               else if is_ValueError e then
                 (Inr 1, logger_error (log_value_error @ str_exn e) w2)
               else (Inr 1, logger_error (tag_unexpected @ str_exn e) w2)
           | (Inr u', w2) \<Rightarrow> (Inr 0, w2)))"

section \<open>generate\_video\_with\_storyboard.py\<close>

text \<open>\<open>encode_image\<close>: reading a file that does not exist raises.\<close>

definition encode_image :: "string \<Rightarrow> world \<Rightarrow> exn + string" where
  "encode_image image_path w =
     (case files w image_path of
        None \<Rightarrow> Inl (OSError (''[Errno 2] No such file or directory: '' @ image_path))
      | Some data \<Rightarrow> Inr (b64encode w data))"

fun encode_images :: "string list \<Rightarrow> world \<Rightarrow> exn + string list" where
  "encode_images [] w = Inr []"
| "encode_images (img_path # rest) w =
     (case encode_image img_path w of
        Inl e \<Rightarrow> Inl e
      | Inr img \<Rightarrow>
          (case encode_images rest w of
             Inl e \<Rightarrow> Inl e
           | Inr imgs \<Rightarrow> Inr (img # imgs)))"

definition generate_video_from_storyboard ::
  "string list \<Rightarrow> string \<Rightarrow> world \<Rightarrow> (exn + response_body) \<times> world" where
  "generate_video_from_storyboard storyboard_images model_id w =
     (case encode_images storyboard_images w of
        Inl e \<Rightarrow> (Inl e, w)
      | Inr encoded_images \<Rightarrow>
          (case random_seed w of
             (seed, w1) \<Rightarrow>
               invoke_model
                 \<lparr>modelId = model_id, contentType = ''application/json'',
                  accept = ''application/json'',
                  body = StoryboardBody encoded_images seed 6000 ''16:9''
                    ''video-generation'' ''image-to-video'' ''standard''\<rparr> w1))"

section \<open>Concrete inputs\<close>

text \<open>
  A world in which nothing has happened yet, for a given behaviour of the service and of
  the clock, and a response body with a given status and error message.
\<close>

definition test_world :: "(nat \<Rightarrow> exn + response_body) \<Rightarrow> (nat \<Rightarrow> real) \<Rightarrow> world" where
  "test_world results readings =
     \<lparr>invoke_results = results, clock = readings, uuid4 = (\<lambda>k. ''uuid''),
      py_hash = (\<lambda>s. 0), http_results = (\<lambda>k. Inl (OSError ''unreachable'')),
      open_fails = (\<lambda>p. None),
      makedirs_fails = (\<lambda>p. None), b64encode = (\<lambda>b. []), requests = [], clock_reads = 0,
      uuids_drawn = 0, fetched = [], sleeps = [], logs = [], made_dirs = [],
      files = (\<lambda>p. None)\<rparr>"

definition response_with :: "string \<Rightarrow> string option \<Rightarrow> response_body" where
  "response_with s m =
     \<lparr>status = Some s, jobId = None, errorMessage = m, videos = None, thumbnails = None\<rparr>"

text \<open>
  Behaviours of the service and of the clock: the same answer every time, and a script of
  answers followed by one that is repeated from then on.
\<close>

definition always :: "'a \<Rightarrow> 'b \<Rightarrow> 'a" where
  "always x k = x"

definition script :: "'a list \<Rightarrow> 'a \<Rightarrow> nat \<Rightarrow> 'a" where
  "script xs x k = (if k < length xs then xs ! k else x)"

text \<open>A call that raises the given exception and does nothing else.\<close>

definition raising :: "exn \<Rightarrow> world \<Rightarrow> (exn + 'a) \<times> world" where
  "raising e w = (Inl e, w)"


text \<open>
  Command-line arguments, a configuration with the given credentials, no keyword
  arguments, and a response body that has none of the keys.
\<close>

definition test_args :: args where
  "test_args =
     \<lparr>arg_prompt = ''A cat playing with a ball'', arg_model_id = ''amazon.nova.video-1080p'',
      arg_duration = 5000, arg_output_dir = ''output'', arg_region = ''us-east-1''\<rparr>"

definition test_config :: "string option \<Rightarrow> string option \<Rightarrow> config" where
  "test_config key secret =
     \<lparr>AWS_ACCESS_KEY_ID = key, AWS_SECRET_ACCESS_KEY = secret, AWS_REGION = ''us-east-1'',
      DEFAULT_MODEL_ID = ''amazon.nova.video-1080p'', DEFAULT_DURATION = 5000,
      DEFAULT_IMAGE_QUALITY = ''standard'', OUTPUT_DIR = ''output''\<rparr>"

definition no_kwargs :: kwargs where
  "no_kwargs =
     \<lparr>kw_seed = None, kw_duration = None, kw_aspect_ratio = None, kw_image_quality = None,
      kw_negative_prompt = None, kw_style_preset = None\<rparr>"

definition empty_response :: response_body where
  "empty_response =
     \<lparr>status = None, jobId = None, errorMessage = None, videos = None, thumbnails = None\<rparr>"

text \<open>
  A world for the seeds: the given UUIDs and the given hash function, and a service that
  answers every request with the empty body. \<open>length_hash\<close> is a hash function that is
  negative and depends on its argument.
\<close>

definition length_hash :: "string \<Rightarrow> int" where
  "length_hash s = - int (length s)"

definition random_world :: "(nat \<Rightarrow> string) \<Rightarrow> (string \<Rightarrow> int) \<Rightarrow> world" where
  "random_world uuids hash =
     (test_world (always (Inr empty_response)) (always 0))\<lparr>uuid4 := uuids, py_hash := hash\<rparr>"

section \<open>Effects of the primitive operations\<close>

text \<open>
  What each operation returns, and what it changes in the world: exactly one of the
  recording fields, and none of those the environment decides.
\<close>

lemma fst_time_time [simp]: "fst (time_time w) = clock w (clock_reads w)"
  by (simp add: time_time_def)

lemma fst_time_sleep [simp]:
  "fst (time_sleep secs w) =
     (if secs < 0 then Inl (ValueError ''sleep length must be non-negative'') else Inr ())"
  by (simp add: time_sleep_def)

lemma fst_invoke_model [simp]:
  "fst (invoke_model request_body w) = invoke_results w (length (requests w))"
  by (simp add: invoke_model_def)

lemma fst_uuid_uuid4 [simp]: "fst (uuid_uuid4 w) = uuid4 w (uuids_drawn w)"
  by (simp add: uuid_uuid4_def)

lemma fst_requests_get [simp]: "fst (requests_get u w) = http_results w (length (fetched w))"
  by (simp add: requests_get_def)

lemma logger_info_fields [simp]:
  "invoke_results (logger_info msg w) = invoke_results w"
  "clock (logger_info msg w) = clock w"
  "uuid4 (logger_info msg w) = uuid4 w"
  "py_hash (logger_info msg w) = py_hash w"
  "http_results (logger_info msg w) = http_results w"
  "open_fails (logger_info msg w) = open_fails w"
  "makedirs_fails (logger_info msg w) = makedirs_fails w"
  "b64encode (logger_info msg w) = b64encode w"
  "requests (logger_info msg w) = requests w"
  "clock_reads (logger_info msg w) = clock_reads w"
  "uuids_drawn (logger_info msg w) = uuids_drawn w"
  "fetched (logger_info msg w) = fetched w"
  "sleeps (logger_info msg w) = sleeps w"
  "logs (logger_info msg w) = logs w @ [(INFO, msg)]"
  "made_dirs (logger_info msg w) = made_dirs w"
  "files (logger_info msg w) = files w"
  by (simp_all add: logger_info_def)

lemma logger_warning_fields [simp]:
  "invoke_results (logger_warning msg w) = invoke_results w"
  "clock (logger_warning msg w) = clock w"
  "uuid4 (logger_warning msg w) = uuid4 w"
  "py_hash (logger_warning msg w) = py_hash w"
  "http_results (logger_warning msg w) = http_results w"
  "open_fails (logger_warning msg w) = open_fails w"
  "makedirs_fails (logger_warning msg w) = makedirs_fails w"
  "b64encode (logger_warning msg w) = b64encode w"
  "requests (logger_warning msg w) = requests w"
  "clock_reads (logger_warning msg w) = clock_reads w"
  "uuids_drawn (logger_warning msg w) = uuids_drawn w"
  "fetched (logger_warning msg w) = fetched w"
  "sleeps (logger_warning msg w) = sleeps w"
  "logs (logger_warning msg w) = logs w @ [(WARNING, msg)]"
  "made_dirs (logger_warning msg w) = made_dirs w"
  "files (logger_warning msg w) = files w"
  by (simp_all add: logger_warning_def)

lemma logger_error_fields [simp]:
  "invoke_results (logger_error msg w) = invoke_results w"
  "clock (logger_error msg w) = clock w"
  "uuid4 (logger_error msg w) = uuid4 w"
  "py_hash (logger_error msg w) = py_hash w"
  "http_results (logger_error msg w) = http_results w"
  "open_fails (logger_error msg w) = open_fails w"
  "makedirs_fails (logger_error msg w) = makedirs_fails w"
  "b64encode (logger_error msg w) = b64encode w"
  "requests (logger_error msg w) = requests w"
  "clock_reads (logger_error msg w) = clock_reads w"
  "uuids_drawn (logger_error msg w) = uuids_drawn w"
  "fetched (logger_error msg w) = fetched w"
  "sleeps (logger_error msg w) = sleeps w"
  "logs (logger_error msg w) = logs w @ [(ERROR, msg)]"
  "made_dirs (logger_error msg w) = made_dirs w"
  "files (logger_error msg w) = files w"
  by (simp_all add: logger_error_def)

lemma time_time_fields [simp]:
  "invoke_results (snd (time_time w)) = invoke_results w"
  "clock (snd (time_time w)) = clock w"
  "uuid4 (snd (time_time w)) = uuid4 w"
  "py_hash (snd (time_time w)) = py_hash w"
  "http_results (snd (time_time w)) = http_results w"
  "open_fails (snd (time_time w)) = open_fails w"
  "makedirs_fails (snd (time_time w)) = makedirs_fails w"
  "b64encode (snd (time_time w)) = b64encode w"
  "requests (snd (time_time w)) = requests w"
  "clock_reads (snd (time_time w)) = Suc (clock_reads w)"
  "uuids_drawn (snd (time_time w)) = uuids_drawn w"
  "fetched (snd (time_time w)) = fetched w"
  "sleeps (snd (time_time w)) = sleeps w"
  "logs (snd (time_time w)) = logs w"
  "made_dirs (snd (time_time w)) = made_dirs w"
  "files (snd (time_time w)) = files w"
  by (simp_all add: time_time_def)

lemma time_sleep_fields [simp]:
  "invoke_results (snd (time_sleep secs w)) = invoke_results w"
  "clock (snd (time_sleep secs w)) = clock w"
  "uuid4 (snd (time_sleep secs w)) = uuid4 w"
  "py_hash (snd (time_sleep secs w)) = py_hash w"
  "http_results (snd (time_sleep secs w)) = http_results w"
  "open_fails (snd (time_sleep secs w)) = open_fails w"
  "makedirs_fails (snd (time_sleep secs w)) = makedirs_fails w"
  "b64encode (snd (time_sleep secs w)) = b64encode w"
  "requests (snd (time_sleep secs w)) = requests w"
  "clock_reads (snd (time_sleep secs w)) = clock_reads w"
  "uuids_drawn (snd (time_sleep secs w)) = uuids_drawn w"
  "fetched (snd (time_sleep secs w)) = fetched w"
  "sleeps (snd (time_sleep secs w)) = (if secs < 0 then sleeps w else sleeps w @ [secs])"
  "logs (snd (time_sleep secs w)) = logs w"
  "made_dirs (snd (time_sleep secs w)) = made_dirs w"
  "files (snd (time_sleep secs w)) = files w"
  by (simp_all add: time_sleep_def)

lemma invoke_model_fields [simp]:
  "invoke_results (snd (invoke_model request_body w)) = invoke_results w"
  "clock (snd (invoke_model request_body w)) = clock w"
  "uuid4 (snd (invoke_model request_body w)) = uuid4 w"
  "py_hash (snd (invoke_model request_body w)) = py_hash w"
  "http_results (snd (invoke_model request_body w)) = http_results w"
  "open_fails (snd (invoke_model request_body w)) = open_fails w"
  "makedirs_fails (snd (invoke_model request_body w)) = makedirs_fails w"
  "b64encode (snd (invoke_model request_body w)) = b64encode w"
  "requests (snd (invoke_model request_body w)) = requests w @ [request_body]"
  "clock_reads (snd (invoke_model request_body w)) = clock_reads w"
  "uuids_drawn (snd (invoke_model request_body w)) = uuids_drawn w"
  "fetched (snd (invoke_model request_body w)) = fetched w"
  "sleeps (snd (invoke_model request_body w)) = sleeps w"
  "logs (snd (invoke_model request_body w)) = logs w"
  "made_dirs (snd (invoke_model request_body w)) = made_dirs w"
  "files (snd (invoke_model request_body w)) = files w"
  by (simp_all add: invoke_model_def)

lemma uuid_uuid4_fields [simp]:
  "invoke_results (snd (uuid_uuid4 w)) = invoke_results w"
  "clock (snd (uuid_uuid4 w)) = clock w"
  "uuid4 (snd (uuid_uuid4 w)) = uuid4 w"
  "py_hash (snd (uuid_uuid4 w)) = py_hash w"
  "http_results (snd (uuid_uuid4 w)) = http_results w"
  "open_fails (snd (uuid_uuid4 w)) = open_fails w"
  "makedirs_fails (snd (uuid_uuid4 w)) = makedirs_fails w"
  "b64encode (snd (uuid_uuid4 w)) = b64encode w"
  "requests (snd (uuid_uuid4 w)) = requests w"
  "clock_reads (snd (uuid_uuid4 w)) = clock_reads w"
  "uuids_drawn (snd (uuid_uuid4 w)) = Suc (uuids_drawn w)"
  "fetched (snd (uuid_uuid4 w)) = fetched w"
  "sleeps (snd (uuid_uuid4 w)) = sleeps w"
  "logs (snd (uuid_uuid4 w)) = logs w"
  "made_dirs (snd (uuid_uuid4 w)) = made_dirs w"
  "files (snd (uuid_uuid4 w)) = files w"
  by (simp_all add: uuid_uuid4_def)

lemma requests_get_fields [simp]:
  "invoke_results (snd (requests_get u w)) = invoke_results w"
  "clock (snd (requests_get u w)) = clock w"
  "uuid4 (snd (requests_get u w)) = uuid4 w"
  "py_hash (snd (requests_get u w)) = py_hash w"
  "http_results (snd (requests_get u w)) = http_results w"
  "open_fails (snd (requests_get u w)) = open_fails w"
  "makedirs_fails (snd (requests_get u w)) = makedirs_fails w"
  "b64encode (snd (requests_get u w)) = b64encode w"
  "requests (snd (requests_get u w)) = requests w"
  "clock_reads (snd (requests_get u w)) = clock_reads w"
  "uuids_drawn (snd (requests_get u w)) = uuids_drawn w"
  "fetched (snd (requests_get u w)) = fetched w @ [u]"
  "sleeps (snd (requests_get u w)) = sleeps w"
  "logs (snd (requests_get u w)) = logs w"
  "made_dirs (snd (requests_get u w)) = made_dirs w"
  "files (snd (requests_get u w)) = files w"
  by (simp_all add: requests_get_def)

lemma os_makedirs_fields [simp]:
  "invoke_results (snd (os_makedirs path w)) = invoke_results w"
  "clock (snd (os_makedirs path w)) = clock w"
  "uuid4 (snd (os_makedirs path w)) = uuid4 w"
  "py_hash (snd (os_makedirs path w)) = py_hash w"
  "http_results (snd (os_makedirs path w)) = http_results w"
  "open_fails (snd (os_makedirs path w)) = open_fails w"
  "makedirs_fails (snd (os_makedirs path w)) = makedirs_fails w"
  "b64encode (snd (os_makedirs path w)) = b64encode w"
  "requests (snd (os_makedirs path w)) = requests w"
  "clock_reads (snd (os_makedirs path w)) = clock_reads w"
  "uuids_drawn (snd (os_makedirs path w)) = uuids_drawn w"
  "fetched (snd (os_makedirs path w)) = fetched w"
  "sleeps (snd (os_makedirs path w)) = sleeps w"
  "logs (snd (os_makedirs path w)) = logs w"
  "files (snd (os_makedirs path w)) = files w"
  by (simp_all add: os_makedirs_def split: option.split)

lemma validate_aws_credentials_fields [simp]:
  "invoke_results (snd (validate_aws_credentials cfg w)) = invoke_results w"
  "clock (snd (validate_aws_credentials cfg w)) = clock w"
  "uuid4 (snd (validate_aws_credentials cfg w)) = uuid4 w"
  "py_hash (snd (validate_aws_credentials cfg w)) = py_hash w"
  "http_results (snd (validate_aws_credentials cfg w)) = http_results w"
  "open_fails (snd (validate_aws_credentials cfg w)) = open_fails w"
  "makedirs_fails (snd (validate_aws_credentials cfg w)) = makedirs_fails w"
  "b64encode (snd (validate_aws_credentials cfg w)) = b64encode w"
  "requests (snd (validate_aws_credentials cfg w)) = requests w"
  "clock_reads (snd (validate_aws_credentials cfg w)) = clock_reads w"
  "uuids_drawn (snd (validate_aws_credentials cfg w)) = uuids_drawn w"
  "fetched (snd (validate_aws_credentials cfg w)) = fetched w"
  "sleeps (snd (validate_aws_credentials cfg w)) = sleeps w"
  "made_dirs (snd (validate_aws_credentials cfg w)) = made_dirs w"
  "files (snd (validate_aws_credentials cfg w)) = files w"
  by (simp_all add: validate_aws_credentials_def)

lemma config_create_bedrock_client_fields [simp]:
  "invoke_results (config_create_bedrock_client cfg w) = invoke_results w"
  "clock (config_create_bedrock_client cfg w) = clock w"
  "uuid4 (config_create_bedrock_client cfg w) = uuid4 w"
  "py_hash (config_create_bedrock_client cfg w) = py_hash w"
  "http_results (config_create_bedrock_client cfg w) = http_results w"
  "open_fails (config_create_bedrock_client cfg w) = open_fails w"
  "makedirs_fails (config_create_bedrock_client cfg w) = makedirs_fails w"
  "b64encode (config_create_bedrock_client cfg w) = b64encode w"
  "requests (config_create_bedrock_client cfg w) = requests w"
  "clock_reads (config_create_bedrock_client cfg w) = clock_reads w"
  "uuids_drawn (config_create_bedrock_client cfg w) = uuids_drawn w"
  "fetched (config_create_bedrock_client cfg w) = fetched w"
  "sleeps (config_create_bedrock_client cfg w) = sleeps w"
  "made_dirs (config_create_bedrock_client cfg w) = made_dirs w"
  "files (config_create_bedrock_client cfg w) = files w"
  by (simp_all add: config_create_bedrock_client_def case_prod_beta)

lemma create_bedrock_client_fields [simp]:
  "invoke_results (create_bedrock_client cfg region w) = invoke_results w"
  "clock (create_bedrock_client cfg region w) = clock w"
  "uuid4 (create_bedrock_client cfg region w) = uuid4 w"
  "py_hash (create_bedrock_client cfg region w) = py_hash w"
  "http_results (create_bedrock_client cfg region w) = http_results w"
  "open_fails (create_bedrock_client cfg region w) = open_fails w"
  "makedirs_fails (create_bedrock_client cfg region w) = makedirs_fails w"
  "b64encode (create_bedrock_client cfg region w) = b64encode w"
  "requests (create_bedrock_client cfg region w) = requests w"
  "clock_reads (create_bedrock_client cfg region w) = clock_reads w"
  "uuids_drawn (create_bedrock_client cfg region w) = uuids_drawn w"
  "fetched (create_bedrock_client cfg region w) = fetched w"
  "sleeps (create_bedrock_client cfg region w) = sleeps w"
  "made_dirs (create_bedrock_client cfg region w) = made_dirs w"
  "files (create_bedrock_client cfg region w) = files w"
  by (simp_all add: create_bedrock_client_def)

lemma BedrockVideoClient_init_fields [simp]:
  "invoke_results (BedrockVideoClient_init cfg region w) = invoke_results w"
  "clock (BedrockVideoClient_init cfg region w) = clock w"
  "uuid4 (BedrockVideoClient_init cfg region w) = uuid4 w"
  "py_hash (BedrockVideoClient_init cfg region w) = py_hash w"
  "http_results (BedrockVideoClient_init cfg region w) = http_results w"
  "open_fails (BedrockVideoClient_init cfg region w) = open_fails w"
  "makedirs_fails (BedrockVideoClient_init cfg region w) = makedirs_fails w"
  "b64encode (BedrockVideoClient_init cfg region w) = b64encode w"
  "requests (BedrockVideoClient_init cfg region w) = requests w"
  "clock_reads (BedrockVideoClient_init cfg region w) = clock_reads w"
  "uuids_drawn (BedrockVideoClient_init cfg region w) = uuids_drawn w"
  "fetched (BedrockVideoClient_init cfg region w) = fetched w"
  "sleeps (BedrockVideoClient_init cfg region w) = sleeps w"
  "made_dirs (BedrockVideoClient_init cfg region w) = made_dirs w"
  "files (BedrockVideoClient_init cfg region w) = files w"
  by (simp_all add: BedrockVideoClient_init_def)

section \<open>The decorator and the status check\<close>

lemma handle_common_errors_Inr:
  "fst (func w) = Inr v \<Longrightarrow> handle_common_errors func w = (Inr v, snd (func w))"
  by (simp add: handle_common_errors_def case_prod_beta)

lemma handle_common_errors_BVGE:
  "fst (func w) = Inl (BedrockVideoGenerationError s) \<Longrightarrow>
   handle_common_errors func w =
     (Inl (BedrockVideoGenerationError (tag_unexpected @ s)),
      logger_error (log_unexpected @ s) (snd (func w)))"
  by (simp add: handle_common_errors_def case_prod_beta)

lemma handle_common_errors_TimeoutError:
  "fst (func w) = Inl (TimeoutError s) \<Longrightarrow>
   handle_common_errors func w =
     (Inl (BedrockVideoGenerationError (tag_unexpected @ s)),
      logger_error (log_unexpected @ s) (snd (func w)))"
  by (simp add: handle_common_errors_def case_prod_beta)

lemma check_job_status_failed:
  assumes "job_id \<noteq> []" and "invoke_results w (length (requests w)) = Inr response"
    and "status response = Some ''failed''"
  shows "fst (BedrockVideoClient_check_job_status job_id model_id task_type w) =
    Inl (BedrockVideoGenerationError
      (tag_unexpected @ msg_job_failed @ get_default (errorMessage response) msg_unknown_error))"
    and "requests (snd (BedrockVideoClient_check_job_status job_id model_id task_type w)) =
      requests w @ [status_request job_id model_id task_type]"
    and "sleeps (snd (BedrockVideoClient_check_job_status job_id model_id task_type w)) =
      sleeps w"
  using assms
  by (simp_all add: BedrockVideoClient_check_job_status_def handle_common_errors_def
      BedrockVideoClient_check_job_status_func_def case_prod_beta Let_def)

lemma check_job_status_returns:
  assumes "job_id \<noteq> []" and "invoke_results w (length (requests w)) = Inr response"
    and "status response \<noteq> Some ''failed''"
  shows "BedrockVideoClient_check_job_status job_id model_id task_type w =
    (Inr response, snd (invoke_model (status_request job_id model_id task_type) w))"
  using assms
  by (simp add: BedrockVideoClient_check_job_status_def handle_common_errors_def
      BedrockVideoClient_check_job_status_func_def case_prod_beta)

text \<open>
  Claim C10. For a valid job id and a status query that the service answers with a body
  (no transport error), \<open>BedrockVideoClient.check_job_status\<close> raises if and only if the
  status of the body is \<open>failed\<close>, and what it raises then is the domain exception with the
  error message of the body. For every other status it returns the body; so it does for
  \<open>expired\<close>, which only the loop of \<open>wait_for_job_completion\<close> turns into the domain
  exception.
\<close>

theorem check_job_status_raises_iff_failed:
  assumes "job_id \<noteq> []" and "invoke_results w (length (requests w)) = Inr response"
  shows "(isl (fst (BedrockVideoClient_check_job_status job_id model_id task_type w))
            \<longleftrightarrow> status response = Some ''failed'')
    \<and> (status response = Some ''failed'' \<longrightarrow>
          fst (BedrockVideoClient_check_job_status job_id model_id task_type w) =
            Inl (BedrockVideoGenerationError
              (tag_unexpected @ msg_job_failed @
               get_default (errorMessage response) msg_unknown_error)))
    \<and> (status response \<noteq> Some ''failed'' \<longrightarrow>
          fst (BedrockVideoClient_check_job_status job_id model_id task_type w) = Inr response)
    \<and> (status response = Some ''expired'' \<longrightarrow>
          fst (BedrockVideoClient_check_job_status job_id model_id task_type w) = Inr response
          \<and> fst (wait_try job_id model_id task_type interval max_attempts attempt w) =
              Inl (BedrockVideoGenerationError msg_job_expired))"
proof (cases "status response = Some ''failed''")
  case True
  from check_job_status_failed(1) [OF assms True] show ?thesis
    using True by simp
next
  case False
  note ret = check_job_status_returns [OF assms False]
  have "status response = Some ''expired'' \<Longrightarrow>
      fst (wait_try job_id model_id task_type interval max_attempts attempt w) =
        Inl (BedrockVideoGenerationError msg_job_expired)"
    by (simp add: wait_try_def ret wait_except_def)
  with False ret show ?thesis by simp
qed

theorem check_job_status_raises_iff_failed_witness:
  "\<not> isl (fst (BedrockVideoClient_check_job_status ''job-1'' ''amazon.nova.video-1080p''
       ''text-to-video'' (test_world (always (Inr (response_with ''expired'' None))) (always 0))))
   \<and> fst (BedrockVideoClient_check_job_status ''job-1'' ''amazon.nova.video-1080p''
       ''text-to-video'' (test_world (always (Inr (response_with ''expired'' None))) (always 0))) =
       Inr (response_with ''expired'' None)
   \<and> fst (wait_try ''job-1'' ''amazon.nova.video-1080p'' ''text-to-video'' 5 60 0
       (test_world (always (Inr (response_with ''expired'' None))) (always 0))) =
       Inl (BedrockVideoGenerationError msg_job_expired)"
proof -
  have id: "''job-1'' \<noteq> []" by simp
  have answer: "invoke_results (test_world (always (Inr (response_with ''expired'' None))) (always 0))
      (length (requests (test_world (always (Inr (response_with ''expired'' None))) (always 0)))) =
      Inr (response_with ''expired'' None)"
    by (simp add: test_world_def always_def)
  have st: "status (response_with ''expired'' None) = Some ''expired''"
    by (simp add: response_with_def)
  from check_job_status_raises_iff_failed [OF id answer, of "''amazon.nova.video-1080p''"
      "''text-to-video''" 5 60 0]
  show ?thesis by (simp add: st)
qed

text \<open>
  The five tags of the recognized codes are told apart by their first bytes, whatever
  follows them.
\<close>

lemma tags_differ:
  "tag_access_denied @ m \<noteq> tag_validation @ m'"
  "tag_access_denied @ m \<noteq> tag_not_found @ m'"
  "tag_access_denied @ m \<noteq> tag_throttling @ m'"
  "tag_access_denied @ m \<noteq> tag_quota @ m'"
  "tag_validation @ m \<noteq> tag_not_found @ m'"
  "tag_validation @ m \<noteq> tag_throttling @ m'"
  "tag_validation @ m \<noteq> tag_quota @ m'"
  "tag_not_found @ m \<noteq> tag_throttling @ m'"
  "tag_not_found @ m \<noteq> tag_quota @ m'"
  "tag_throttling @ m \<noteq> tag_quota @ m'"
  by (simp_all add: tag_access_denied_def tag_validation_def tag_not_found_def
      tag_throttling_def tag_quota_def)

lemma raised_for_recognized:
  "fst (handle_common_errors
      (\<lambda>u. (Inl (ClientError (Some ''AccessDeniedException'') (Some m) t), u)) v)
     = (Inl (BedrockVideoGenerationError (tag_access_denied @ m)) :: exn + 'a)"
  "fst (handle_common_errors
      (\<lambda>u. (Inl (ClientError (Some ''ValidationException'') (Some m) t), u)) v)
     = (Inl (BedrockVideoGenerationError (tag_validation @ m)) :: exn + 'a)"
  "fst (handle_common_errors
      (\<lambda>u. (Inl (ClientError (Some ''ResourceNotFoundException'') (Some m) t), u)) v)
     = (Inl (BedrockVideoGenerationError (tag_not_found @ m)) :: exn + 'a)"
  "fst (handle_common_errors
      (\<lambda>u. (Inl (ClientError (Some ''ThrottlingException'') (Some m) t), u)) v)
     = (Inl (BedrockVideoGenerationError (tag_throttling @ m)) :: exn + 'a)"
  "fst (handle_common_errors
      (\<lambda>u. (Inl (ClientError (Some ''ServiceQuotaExceededException'') (Some m) t), u)) v)
     = (Inl (BedrockVideoGenerationError (tag_quota @ m)) :: exn + 'a)"
  by (simp_all add: handle_common_errors_def py_str_opt_def)

lemma recognized_codes_preserved:
  assumes "c \<in> {''AccessDeniedException'', ''ValidationException'',
      ''ResourceNotFoundException'', ''ThrottlingException'', ''ServiceQuotaExceededException''}"
    and "c' \<in> {''AccessDeniedException'', ''ValidationException'',
      ''ResourceNotFoundException'', ''ThrottlingException'', ''ServiceQuotaExceededException''}"
    and "(fst (handle_common_errors (\<lambda>u. (Inl (ClientError (Some c) (Some m) t), u)) v)
          :: exn + 'a) =
      fst (handle_common_errors (\<lambda>u. (Inl (ClientError (Some c') (Some m') t'), u)) v')"
  shows "c = c' \<and> m = m'"
proof -
  note d = tags_differ tags_differ [symmetric]
  from assms(1) have c: "c = ''AccessDeniedException'' \<or> c = ''ValidationException''
    \<or> c = ''ResourceNotFoundException'' \<or> c = ''ThrottlingException''
    \<or> c = ''ServiceQuotaExceededException''"
    by (simp only: insert_iff empty_iff simp_thms)
  from assms(2) have c': "c' = ''AccessDeniedException'' \<or> c' = ''ValidationException''
    \<or> c' = ''ResourceNotFoundException'' \<or> c' = ''ThrottlingException''
    \<or> c' = ''ServiceQuotaExceededException''"
    by (simp only: insert_iff empty_iff simp_thms)
  from c c' assms(3) show ?thesis
    by (elim disjE; simp only: raised_for_recognized sum.inject exn.inject d same_append_eq
        simp_thms)
qed

text \<open>
  Claim C5. When the wrapped call raises, the decorator raises
  \<open>BedrockVideoGenerationError\<close>, the one domain exception, and the text of it starts with
  the tag of the error: one tag for each of the five recognized codes of a \<open>ClientError\<close>,
  followed by the message of the error; the tag of the generic service error, followed by
  the code and the message, for every other code (an absent code included); the tag of the
  decode error for a \<open>JSONDecodeError\<close>; and the tag of the unexpected error, followed by
  \<open>str(e)\<close>, for every other exception. For the recognized codes the text keeps code and
  message apart: two errors with recognized codes that give the same text have the same
  code and the same message.
\<close>

theorem handle_common_errors_classifies:
  assumes "func w = (Inl e, w1)"
  shows "(e = ClientError (Some ''AccessDeniedException'') error_msg s \<longrightarrow>
           fst (handle_common_errors func w) =
             Inl (BedrockVideoGenerationError (tag_access_denied @ py_str_opt error_msg)))
    \<and> (e = ClientError (Some ''ValidationException'') error_msg s \<longrightarrow>
           fst (handle_common_errors func w) =
             Inl (BedrockVideoGenerationError (tag_validation @ py_str_opt error_msg)))
    \<and> (e = ClientError (Some ''ResourceNotFoundException'') error_msg s \<longrightarrow>
           fst (handle_common_errors func w) =
             Inl (BedrockVideoGenerationError (tag_not_found @ py_str_opt error_msg)))
    \<and> (e = ClientError (Some ''ThrottlingException'') error_msg s \<longrightarrow>
           fst (handle_common_errors func w) =
             Inl (BedrockVideoGenerationError (tag_throttling @ py_str_opt error_msg)))
    \<and> (e = ClientError (Some ''ServiceQuotaExceededException'') error_msg s \<longrightarrow>
           fst (handle_common_errors func w) =
             Inl (BedrockVideoGenerationError (tag_quota @ py_str_opt error_msg)))
    \<and> (e = ClientError error_code error_msg s \<and>
        error_code \<notin> {Some ''AccessDeniedException'', Some ''ValidationException'',
          Some ''ResourceNotFoundException'', Some ''ThrottlingException'',
          Some ''ServiceQuotaExceededException''} \<longrightarrow>
           fst (handle_common_errors func w) =
             Inl (BedrockVideoGenerationError
               (tag_aws_api @ py_str_opt error_code @ '' - '' @ py_str_opt error_msg)))
    \<and> (e = JSONDecodeError s \<longrightarrow>
           fst (handle_common_errors func w) =
             Inl (BedrockVideoGenerationError (tag_json @ s)))
    \<and> ((\<forall>c m t. e \<noteq> ClientError c m t) \<and> (\<forall>t. e \<noteq> JSONDecodeError t) \<longrightarrow>
           fst (handle_common_errors func w) =
             Inl (BedrockVideoGenerationError (tag_unexpected @ str_exn e)))
    \<and> (\<forall>c \<in> {''AccessDeniedException'', ''ValidationException'',
               ''ResourceNotFoundException'', ''ThrottlingException'',
               ''ServiceQuotaExceededException''}.
        \<forall>c' \<in> {''AccessDeniedException'', ''ValidationException'',
               ''ResourceNotFoundException'', ''ThrottlingException'',
               ''ServiceQuotaExceededException''}.
        \<forall>m m' t t' v v'.
          fst (handle_common_errors (\<lambda>u. (Inl (ClientError (Some c) (Some m) t), u)) v) =
          fst (handle_common_errors (\<lambda>u. (Inl (ClientError (Some c') (Some m') t'), u)) v')
          \<longrightarrow> c = c' \<and> m = m')"
  apply (intro conjI)
  subgoal using assms by (cases e) (simp_all add: handle_common_errors_def)
  subgoal using assms by (cases e) (simp_all add: handle_common_errors_def)
  subgoal using assms by (cases e) (simp_all add: handle_common_errors_def)
  subgoal using assms by (cases e) (simp_all add: handle_common_errors_def)
  subgoal using assms by (cases e) (simp_all add: handle_common_errors_def)
  subgoal using assms by (cases e) (simp_all add: handle_common_errors_def)
  subgoal using assms by (cases e) (simp_all add: handle_common_errors_def)
  subgoal using assms by (cases e) (simp_all add: handle_common_errors_def)
  subgoal by (intro ballI allI impI) (rule recognized_codes_preserved)
  done

theorem handle_common_errors_classifies_witness:
  "fst (handle_common_errors
     (raising (ClientError (Some ''ThrottlingException'') (Some ''Rate exceeded'')
        ''An error occurred (ThrottlingException): Rate exceeded''))
     (test_world (always (Inr (response_with ''running'' None))) (always 0))) =
   (Inl (BedrockVideoGenerationError (tag_throttling @ ''Rate exceeded'')) :: exn + unit)"
proof -
  let ?e = "ClientError (Some ''ThrottlingException'') (Some ''Rate exceeded'')
        ''An error occurred (ThrottlingException): Rate exceeded''"
  let ?w = "test_world (always (Inr (response_with ''running'' None))) (always 0)"
  have raised: "(raising ?e ?w :: (exn + unit) \<times> world) = (Inl ?e, ?w)"
    by (simp add: raising_def)
  from handle_common_errors_classifies [where func = "raising ?e" and w = ?w
      and error_msg = "Some ''Rate exceeded''"
      and s = "''An error occurred (ThrottlingException): Rate exceeded''", OF raised,
      THEN conjunct2, THEN conjunct2, THEN conjunct2, THEN conjunct1]
  show ?thesis by (simp add: py_str_opt_def)
qed

section \<open>The two pollers\<close>

subsection \<open>One pass of the loop of \<open>wait_for_job_completion\<close>\<close>

lemma wait_try_continue:
  assumes "job_id \<noteq> []" and "invoke_results w (length (requests w)) = Inr r"
    and "status r \<noteq> Some ''completed''" and "status r \<noteq> Some ''failed''"
    and "status r \<noteq> Some ''expired''" and "0 \<le> interval"
  shows "wait_try job_id model_id task_type interval max_attempts attempt w =
    (Inr None,
     snd (time_sleep interval
       (logger_info (log_status_pre @ py_str_opt (status r) @ log_status_mid @
                   py_str_int (attempt + 1) @ ''/'' @ py_str_int max_attempts @ '')'')
          (snd (invoke_model (status_request job_id model_id task_type) w)))))"
  using assms
  by (simp add: wait_try_def check_job_status_returns case_prod_beta)

lemma wait_try_completed:
  assumes "job_id \<noteq> []" and "invoke_results w (length (requests w)) = Inr r"
    and "status r = Some ''completed''"
  shows "wait_try job_id model_id task_type interval max_attempts attempt w =
    (Inr (Some r),
     logger_info (lit_job @ job_id @ log_completed_post)
       (snd (invoke_model (status_request job_id model_id task_type) w)))"
  using assms
  by (simp add: wait_try_def check_job_status_returns)

lemma wait_loop_continue:
  assumes "attempt < max_attempts"
    and "clock w (clock_reads w) - start_time < of_int timeout"
    and "job_id \<noteq> []" and "invoke_results w (length (requests w)) = Inr r"
    and "status r \<noteq> Some ''completed''" and "status r \<noteq> Some ''failed''"
    and "status r \<noteq> Some ''expired''" and "0 \<le> interval"
  shows "wait_loop job_id model_id task_type interval max_attempts timeout start_time attempt w =
    wait_loop job_id model_id task_type interval max_attempts timeout start_time (attempt + 1)
     (snd (time_sleep interval
       (logger_info (log_status_pre @ py_str_opt (status r) @ log_status_mid @
                   py_str_int (attempt + 1) @ ''/'' @ py_str_int max_attempts @ '')'')
          (snd (invoke_model (status_request job_id model_id task_type)
             (snd (time_time w)))))))"
  using assms
  by (subst wait_loop.simps) (simp add: wait_try_continue case_prod_beta)

lemma wait_loop_completed:
  assumes "attempt < max_attempts"
    and "clock w (clock_reads w) - start_time < of_int timeout"
    and "job_id \<noteq> []" and "invoke_results w (length (requests w)) = Inr r"
    and "status r = Some ''completed''"
  shows "wait_loop job_id model_id task_type interval max_attempts timeout start_time attempt w =
    (Inr r,
     logger_info (lit_job @ job_id @ log_completed_post)
       (snd (invoke_model (status_request job_id model_id task_type) (snd (time_time w)))))"
  using assms
  by (subst wait_loop.simps) (simp add: wait_try_completed case_prod_beta)

subsection \<open>One pass of the loop of \<open>poll_job_status\<close>\<close>

lemma poll_loop_continue:
  assumes "attempts < max_attempts"
    and "invoke_results w (length (requests w)) = Inr r"
    and "status r \<noteq> Some ''completed''" and "status r \<noteq> Some ''failed''"
    and "status r \<noteq> Some ''expired''" and "0 \<le> interval"
  shows "poll_loop job_id model_id interval max_attempts attempts w =
    poll_loop job_id model_id interval max_attempts (attempts + 1)
     (snd (time_sleep interval
       (logger_info (''Job status: '' @ py_str_opt (status r))
          (snd (invoke_model (status_request job_id model_id ''text-to-video'') w)))))"
  using assms
  by (subst poll_loop.simps) (simp add: case_prod_beta Let_def)

lemma poll_loop_completed:
  assumes "attempts < max_attempts"
    and "invoke_results w (length (requests w)) = Inr r"
    and "status r = Some ''completed''"
  shows "poll_loop job_id model_id interval max_attempts attempts w =
    (Inr r,
     logger_info (''Job status: '' @ py_str_opt (status r))
       (snd (invoke_model (status_request job_id model_id ''text-to-video'') w)))"
  using assms
  by (subst poll_loop.simps) (simp add: case_prod_beta Let_def)

text \<open>
  Claim C1. The service answers the next three status queries \<open>running\<close>, \<open>running\<close>,
  \<open>completed\<close>; the budget is at least three attempts, the interval is not negative, and
  (for \<open>wait_for_job_completion\<close>, which alone has a timeout) the three clock readings of
  the loop are less than the timeout after the reading at the start. Then each poller
  returns the third body, having sent exactly three status requests and slept exactly
  twice, for the interval each time.
\<close>

theorem poller_returns_completed_after_three_queries:
  assumes "job_id \<noteq> []" and "0 \<le> interval" and "3 \<le> max_attempts"
    and "invoke_results w (length (requests w)) = Inr r0" and "status r0 = Some ''running''"
    and "invoke_results w (length (requests w) + 1) = Inr r1"
    and "status r1 = Some ''running''"
    and "invoke_results w (length (requests w) + 2) = Inr r2"
    and "status r2 = Some ''completed''"
    and "\<forall>k \<in> {1, 2, 3}.
           clock w (clock_reads w + k) - clock w (clock_reads w) < of_int timeout"
  shows "fst (BedrockVideoClient_wait_for_job_completion job_id model_id task_type interval
            max_attempts timeout w) = Inr r2
    \<and> requests (snd (BedrockVideoClient_wait_for_job_completion job_id model_id task_type
            interval max_attempts timeout w)) =
       requests w @ [status_request job_id model_id task_type,
         status_request job_id model_id task_type, status_request job_id model_id task_type]
    \<and> sleeps (snd (BedrockVideoClient_wait_for_job_completion job_id model_id task_type
            interval max_attempts timeout w)) = sleeps w @ [interval, interval]
    \<and> fst (poll_job_status job_id model_id interval max_attempts w) = Inr r2
    \<and> requests (snd (poll_job_status job_id model_id interval max_attempts w)) =
       requests w @ [status_request job_id model_id ''text-to-video'',
         status_request job_id model_id ''text-to-video'',
         status_request job_id model_id ''text-to-video'']
    \<and> sleeps (snd (poll_job_status job_id model_id interval max_attempts w)) =
       sleeps w @ [interval, interval]"
proof -
  let ?sr = "status_request job_id model_id task_type"
  let ?start = "snd (time_time w)"
  let ?w1 = "snd (time_sleep interval
       (logger_info (log_status_pre @ py_str_opt (status r0) @ log_status_mid @
                   py_str_int (0 + 1) @ ''/'' @ py_str_int max_attempts @ '')'')
          (snd (invoke_model ?sr (snd (time_time ?start))))))"
  let ?w2 = "snd (time_sleep interval
       (logger_info (log_status_pre @ py_str_opt (status r1) @ log_status_mid @
                   py_str_int (0 + 1 + 1) @ ''/'' @ py_str_int max_attempts @ '')'')
          (snd (invoke_model ?sr (snd (time_time ?w1))))))"
  let ?w3 = "logger_info (lit_job @ job_id @ log_completed_post)
       (snd (invoke_model ?sr (snd (time_time ?w2))))"
  from assms have s1: "wait_loop job_id model_id task_type interval max_attempts timeout
      (clock w (clock_reads w)) 0 ?start =
    wait_loop job_id model_id task_type interval max_attempts timeout
      (clock w (clock_reads w)) (0 + 1) ?w1"
    by (intro wait_loop_continue) (simp_all add: eval_nat_numeral)
  from assms have s2: "wait_loop job_id model_id task_type interval max_attempts timeout
      (clock w (clock_reads w)) (0 + 1) ?w1 =
    wait_loop job_id model_id task_type interval max_attempts timeout
      (clock w (clock_reads w)) (0 + 1 + 1) ?w2"
    by (intro wait_loop_continue) (simp_all add: eval_nat_numeral)
  from assms have s3: "wait_loop job_id model_id task_type interval max_attempts timeout
      (clock w (clock_reads w)) (0 + 1 + 1) ?w2 = (Inr r2, ?w3)"
    by (intro wait_loop_completed) (simp_all add: eval_nat_numeral)
  have "BedrockVideoClient_wait_for_job_completion_func job_id model_id task_type
      interval max_attempts timeout w = (Inr r2, ?w3)"
    using assms(1) s1 s2 s3
    by (simp add: BedrockVideoClient_wait_for_job_completion_func_def case_prod_beta)
  then have waited: "BedrockVideoClient_wait_for_job_completion job_id model_id task_type
      interval max_attempts timeout w = (Inr r2, ?w3)"
    by (simp add: BedrockVideoClient_wait_for_job_completion_def handle_common_errors_def)
  let ?pr = "status_request job_id model_id ''text-to-video''"
  let ?v1 = "snd (time_sleep interval
       (logger_info (''Job status: '' @ py_str_opt (status r0)) (snd (invoke_model ?pr w))))"
  let ?v2 = "snd (time_sleep interval
       (logger_info (''Job status: '' @ py_str_opt (status r1)) (snd (invoke_model ?pr ?v1))))"
  let ?v3 = "logger_info (''Job status: '' @ py_str_opt (status r2))
       (snd (invoke_model ?pr ?v2))"
  from assms have p1: "poll_loop job_id model_id interval max_attempts 0 w =
      poll_loop job_id model_id interval max_attempts (0 + 1) ?v1"
    by (intro poll_loop_continue) simp_all
  from assms have p2: "poll_loop job_id model_id interval max_attempts (0 + 1) ?v1 =
      poll_loop job_id model_id interval max_attempts (0 + 1 + 1) ?v2"
    by (intro poll_loop_continue) simp_all
  from assms have p3: "poll_loop job_id model_id interval max_attempts (0 + 1 + 1) ?v2 =
      (Inr r2, ?v3)"
    by (intro poll_loop_completed) simp_all
  have polled: "poll_job_status job_id model_id interval max_attempts w = (Inr r2, ?v3)"
    using p1 p2 p3 by (simp add: poll_job_status_def)
  show ?thesis using assms(2) by (simp add: waited polled)
qed

theorem poller_returns_completed_after_three_queries_witness:
  "fst (BedrockVideoClient_wait_for_job_completion ''job-1'' ''amazon.nova.video-1080p''
      ''text-to-video'' 0 3 300
      (test_world (script [Inr (response_with ''running'' None), Inr (response_with ''running'' None)]
         (Inr (response_with ''completed'' None))) real)) = Inr (response_with ''completed'' None)
   \<and> length (requests (snd (BedrockVideoClient_wait_for_job_completion ''job-1''
      ''amazon.nova.video-1080p'' ''text-to-video'' 0 3 300
      (test_world (script [Inr (response_with ''running'' None), Inr (response_with ''running'' None)]
         (Inr (response_with ''completed'' None))) real)))) = 3
   \<and> sleeps (snd (BedrockVideoClient_wait_for_job_completion ''job-1''
      ''amazon.nova.video-1080p'' ''text-to-video'' 0 3 300
      (test_world (script [Inr (response_with ''running'' None), Inr (response_with ''running'' None)]
         (Inr (response_with ''completed'' None))) real))) = [0, 0]
   \<and> fst (poll_job_status ''job-1'' ''amazon.nova.video-1080p'' 0 3
      (test_world (script [Inr (response_with ''running'' None), Inr (response_with ''running'' None)]
         (Inr (response_with ''completed'' None))) real)) = Inr (response_with ''completed'' None)
   \<and> length (requests (snd (poll_job_status ''job-1'' ''amazon.nova.video-1080p'' 0 3
      (test_world (script [Inr (response_with ''running'' None), Inr (response_with ''running'' None)]
         (Inr (response_with ''completed'' None))) real)))) = 3
   \<and> sleeps (snd (poll_job_status ''job-1'' ''amazon.nova.video-1080p'' 0 3
      (test_world (script [Inr (response_with ''running'' None), Inr (response_with ''running'' None)]
         (Inr (response_with ''completed'' None))) real))) = [0, 0]"
proof -
  let ?w = "test_world
    (script [Inr (response_with ''running'' None), Inr (response_with ''running'' None)]
       (Inr (response_with ''completed'' None))) real"
  have fields: "requests ?w = []" "sleeps ?w = []" "clock_reads ?w = 0"
    "clock ?w = real"
    "invoke_results ?w =
      script [Inr (response_with ''running'' None), Inr (response_with ''running'' None)]
        (Inr (response_with ''completed'' None))"
    by (simp_all add: test_world_def)
  have st: "status (response_with ''running'' None) = Some ''running''"
    "status (response_with ''completed'' None) = Some ''completed''"
    by (simp_all add: response_with_def)
  have "fst (BedrockVideoClient_wait_for_job_completion ''job-1'' ''amazon.nova.video-1080p''
            ''text-to-video'' 0 3 300 ?w) = Inr (response_with ''completed'' None)
    \<and> requests (snd (BedrockVideoClient_wait_for_job_completion ''job-1''
            ''amazon.nova.video-1080p'' ''text-to-video'' 0 3 300 ?w)) =
       requests ?w @ [status_request ''job-1'' ''amazon.nova.video-1080p'' ''text-to-video'',
         status_request ''job-1'' ''amazon.nova.video-1080p'' ''text-to-video'',
         status_request ''job-1'' ''amazon.nova.video-1080p'' ''text-to-video'']
    \<and> sleeps (snd (BedrockVideoClient_wait_for_job_completion ''job-1''
            ''amazon.nova.video-1080p'' ''text-to-video'' 0 3 300 ?w)) = sleeps ?w @ [0, 0]
    \<and> fst (poll_job_status ''job-1'' ''amazon.nova.video-1080p'' 0 3 ?w) =
       Inr (response_with ''completed'' None)
    \<and> requests (snd (poll_job_status ''job-1'' ''amazon.nova.video-1080p'' 0 3 ?w)) =
       requests ?w @ [status_request ''job-1'' ''amazon.nova.video-1080p'' ''text-to-video'',
         status_request ''job-1'' ''amazon.nova.video-1080p'' ''text-to-video'',
         status_request ''job-1'' ''amazon.nova.video-1080p'' ''text-to-video'']
    \<and> sleeps (snd (poll_job_status ''job-1'' ''amazon.nova.video-1080p'' 0 3 ?w)) =
       sleeps ?w @ [0, 0]"
    by (rule poller_returns_completed_after_three_queries
          [where ?r0.0 = "response_with ''running'' None"
             and ?r1.0 = "response_with ''running'' None"])
       (simp_all add: fields st script_def)
  then show ?thesis by (simp add: fields)
qed

subsection \<open>Terminal states\<close>

lemma wait_try_failed:
  assumes "job_id \<noteq> []" and "invoke_results w (length (requests w)) = Inr r"
    and "status r = Some ''failed''"
  shows "fst (wait_try job_id model_id task_type interval max_attempts attempt w) =
      Inl (BedrockVideoGenerationError
        (tag_unexpected @ msg_job_failed @ get_default (errorMessage r) msg_unknown_error))"
    and "requests (snd (wait_try job_id model_id task_type interval max_attempts attempt w)) =
      requests w @ [status_request job_id model_id task_type]"
    and "sleeps (snd (wait_try job_id model_id task_type interval max_attempts attempt w)) =
      sleeps w"
  using check_job_status_failed [OF assms, of model_id task_type]
  by (simp_all add: wait_try_def wait_except_def case_prod_beta)

lemma wait_try_expired:
  assumes "job_id \<noteq> []" and "invoke_results w (length (requests w)) = Inr r"
    and "status r = Some ''expired''"
  shows "wait_try job_id model_id task_type interval max_attempts attempt w =
      (Inl (BedrockVideoGenerationError msg_job_expired),
       snd (invoke_model (status_request job_id model_id task_type) w))"
  using assms
  by (simp add: wait_try_def wait_except_def check_job_status_returns)

lemma wait_loop_raises:
  assumes "attempt < max_attempts"
    and "clock w (clock_reads w) - start_time < of_int timeout"
    and "fst (wait_try job_id model_id task_type interval max_attempts attempt
           (snd (time_time w))) = Inl e"
  shows "wait_loop job_id model_id task_type interval max_attempts timeout start_time attempt w =
    (Inl e, snd (wait_try job_id model_id task_type interval max_attempts attempt
       (snd (time_time w))))"
  using assms by (subst wait_loop.simps) (simp add: case_prod_beta)

lemma wait_func_enters_loop:
  "job_id \<noteq> [] \<Longrightarrow>
   BedrockVideoClient_wait_for_job_completion_func job_id model_id task_type interval
     max_attempts timeout w =
   wait_loop job_id model_id task_type interval max_attempts timeout
     (clock w (clock_reads w)) 0 (snd (time_time w))"
  by (simp add: BedrockVideoClient_wait_for_job_completion_func_def case_prod_beta)

lemma wait_loop_terminal:
  assumes "job_id \<noteq> []" and "invoke_results w (length (requests w)) = Inr r"
    and "status r = Some ''failed'' \<or> status r = Some ''expired''"
    and "attempt < max_attempts"
    and "clock w (clock_reads w) - start_time < of_int timeout"
  shows "fst (wait_loop job_id model_id task_type interval max_attempts timeout start_time
        attempt w) =
      Inl (BedrockVideoGenerationError
        (if status r = Some ''failed''
         then tag_unexpected @ msg_job_failed @ get_default (errorMessage r) msg_unknown_error
         else msg_job_expired))
     \<and> requests (snd (wait_loop job_id model_id task_type interval max_attempts timeout
        start_time attempt w)) = requests w @ [status_request job_id model_id task_type]
     \<and> sleeps (snd (wait_loop job_id model_id task_type interval max_attempts timeout
        start_time attempt w)) = sleeps w"
proof -
  let ?start = "snd (time_time w)"
  have q: "invoke_results ?start (length (requests ?start)) = Inr r"
    using assms(2) by simp
  from assms(3) show ?thesis
  proof
    assume failed: "status r = Some ''failed''"
    note t = wait_try_failed [OF assms(1) q failed, of model_id task_type interval
        max_attempts attempt]
    from wait_loop_raises [OF assms(4,5) t(1)] t(2,3) failed show ?thesis by simp
  next
    assume expired: "status r = Some ''expired''"
    note t = wait_try_expired [OF assms(1) q expired, of model_id task_type interval
        max_attempts attempt]
    have "fst (wait_try job_id model_id task_type interval max_attempts attempt ?start) =
        Inl (BedrockVideoGenerationError msg_job_expired)"
      by (simp add: t)
    from wait_loop_raises [OF assms(4,5) this] expired show ?thesis by (simp add: t)
  qed
qed

lemma wait_for_job_completion_terminal:
  assumes "job_id \<noteq> []" and "invoke_results w (length (requests w)) = Inr r"
    and "status r = Some ''failed'' \<or> status r = Some ''expired''"
    and "0 < max_attempts"
    and "clock w (clock_reads w + 1) - clock w (clock_reads w) < of_int timeout"
  shows "fst (BedrockVideoClient_wait_for_job_completion job_id model_id task_type interval
        max_attempts timeout w) =
      Inl (BedrockVideoGenerationError
        (tag_unexpected @
         (if status r = Some ''failed''
          then tag_unexpected @ msg_job_failed @ get_default (errorMessage r) msg_unknown_error
          else msg_job_expired)))
     \<and> requests (snd (BedrockVideoClient_wait_for_job_completion job_id model_id task_type
        interval max_attempts timeout w)) = requests w @ [status_request job_id model_id task_type]
     \<and> sleeps (snd (BedrockVideoClient_wait_for_job_completion job_id model_id task_type
        interval max_attempts timeout w)) = sleeps w"
proof -
  let ?start = "snd (time_time w)"
  have q: "invoke_results ?start (length (requests ?start)) = Inr r"
    using assms(2) by simp
  have c: "clock ?start (clock_reads ?start) - clock w (clock_reads w) < of_int timeout"
    using assms(5) by simp
  note l = wait_loop_terminal [OF assms(1) q assms(3,4) c, of model_id task_type interval]
  from l have "fst (BedrockVideoClient_wait_for_job_completion_func job_id model_id task_type
      interval max_attempts timeout w) =
      Inl (BedrockVideoGenerationError
        (if status r = Some ''failed''
         then tag_unexpected @ msg_job_failed @ get_default (errorMessage r) msg_unknown_error
         else msg_job_expired))"
    by (simp add: wait_func_enters_loop [OF assms(1)])
  from handle_common_errors_BVGE [where w = w and func =
      "BedrockVideoClient_wait_for_job_completion_func job_id model_id task_type interval
         max_attempts timeout", OF this] l
  show ?thesis
    by (simp add: BedrockVideoClient_wait_for_job_completion_def
        wait_func_enters_loop [OF assms(1)])
qed

lemma poll_loop_terminal:
  assumes "invoke_results w (length (requests w)) = Inr r"
    and "status r = Some ''failed'' \<or> status r = Some ''expired''"
    and "attempts < max_attempts"
  shows "poll_loop job_id model_id interval max_attempts attempts w =
    (Inl (Exception (''Job '' @ job_id @ '' '' @ py_str_opt (status r) @ '': '' @
        get_default (errorMessage r) ''No error message'')),
     logger_info (''Job status: '' @ py_str_opt (status r))
       (snd (invoke_model (status_request job_id model_id ''text-to-video'') w)))"
  using assms
  by (subst poll_loop.simps) (auto simp add: case_prod_beta Let_def)

text \<open>
  Claim C2, as the code has it. A status query is answered \<open>failed\<close> or \<open>expired\<close>. Then
  the loop of either poller, at whatever attempt it stands (for \<open>wait_for_job_completion\<close>,
  with the clock within the timeout), raises at once: this one status request is the last
  one sent and nothing is slept; so do the pollers themselves when it is their first
  query. \<open>wait_for_job_completion\<close> raises the domain exception, with the error message of
  the body (or the text for an unknown error) when the status is \<open>failed\<close> and with a fixed
  text when it is \<open>expired\<close>; \<open>poll_job_status\<close> raises \<open>Exception\<close> with the job id, the
  status and the error message of the body (or \<open>No error message\<close>).
\<close>

theorem poller_raises_on_terminal_status:
  assumes "job_id \<noteq> []" and "invoke_results w (length (requests w)) = Inr r"
    and "status r = Some ''failed'' \<or> status r = Some ''expired''"
  shows "(attempt < max_attempts \<and> clock w (clock_reads w) - start_time < of_int timeout \<longrightarrow>
        fst (wait_loop job_id model_id task_type interval max_attempts timeout start_time
          attempt w) =
          Inl (BedrockVideoGenerationError
            (if status r = Some ''failed''
             then tag_unexpected @ msg_job_failed @
               get_default (errorMessage r) msg_unknown_error
             else msg_job_expired))
        \<and> requests (snd (wait_loop job_id model_id task_type interval max_attempts timeout
            start_time attempt w)) = requests w @ [status_request job_id model_id task_type]
        \<and> sleeps (snd (wait_loop job_id model_id task_type interval max_attempts timeout
            start_time attempt w)) = sleeps w)
    \<and> (0 < max_attempts \<and>
        clock w (clock_reads w + 1) - clock w (clock_reads w) < of_int timeout \<longrightarrow>
        fst (BedrockVideoClient_wait_for_job_completion job_id model_id task_type interval
          max_attempts timeout w) =
          Inl (BedrockVideoGenerationError
            (tag_unexpected @
             (if status r = Some ''failed''
              then tag_unexpected @ msg_job_failed @
                get_default (errorMessage r) msg_unknown_error
              else msg_job_expired)))
        \<and> requests (snd (BedrockVideoClient_wait_for_job_completion job_id model_id task_type
            interval max_attempts timeout w)) =
            requests w @ [status_request job_id model_id task_type]
        \<and> sleeps (snd (BedrockVideoClient_wait_for_job_completion job_id model_id task_type
            interval max_attempts timeout w)) = sleeps w)
    \<and> (attempt < max_attempts \<longrightarrow>
        fst (poll_loop job_id model_id interval max_attempts attempt w) =
          Inl (Exception (''Job '' @ job_id @ '' '' @ py_str_opt (status r) @ '': '' @
            get_default (errorMessage r) ''No error message''))
        \<and> requests (snd (poll_loop job_id model_id interval max_attempts attempt w)) =
            requests w @ [status_request job_id model_id ''text-to-video'']
        \<and> sleeps (snd (poll_loop job_id model_id interval max_attempts attempt w)) = sleeps w)
    \<and> (0 < max_attempts \<longrightarrow>
        fst (poll_job_status job_id model_id interval max_attempts w) =
          Inl (Exception (''Job '' @ job_id @ '' '' @ py_str_opt (status r) @ '': '' @
            get_default (errorMessage r) ''No error message''))
        \<and> requests (snd (poll_job_status job_id model_id interval max_attempts w)) =
            requests w @ [status_request job_id model_id ''text-to-video'']
        \<and> sleeps (snd (poll_job_status job_id model_id interval max_attempts w)) = sleeps w)"
  apply (intro conjI impI)
  subgoal using wait_loop_terminal [OF assms] by blast
  subgoal using wait_loop_terminal [OF assms] by blast
  subgoal using wait_loop_terminal [OF assms] by blast
  subgoal using wait_for_job_completion_terminal [OF assms] by blast
  subgoal using wait_for_job_completion_terminal [OF assms] by blast
  subgoal using wait_for_job_completion_terminal [OF assms] by blast
  subgoal by (simp add: poll_loop_terminal [OF assms(2,3)])
  subgoal by (simp add: poll_loop_terminal [OF assms(2,3)])
  subgoal by (simp add: poll_loop_terminal [OF assms(2,3)])
  subgoal by (simp add: poll_job_status_def poll_loop_terminal [OF assms(2,3)])
  subgoal by (simp add: poll_job_status_def poll_loop_terminal [OF assms(2,3)])
  subgoal by (simp add: poll_job_status_def poll_loop_terminal [OF assms(2,3)])
  done

theorem poller_raises_on_terminal_status_witness:
  "fst (BedrockVideoClient_wait_for_job_completion ''job-1'' ''amazon.nova.video-1080p''
      ''text-to-video'' 5 60 300
      (test_world (always (Inr (response_with ''failed'' (Some ''content policy violation''))))
         (always 0))) =
     Inl (BedrockVideoGenerationError
       (tag_unexpected @ tag_unexpected @ msg_job_failed @ ''content policy violation''))
   \<and> sleeps (snd (BedrockVideoClient_wait_for_job_completion ''job-1''
      ''amazon.nova.video-1080p'' ''text-to-video'' 5 60 300
      (test_world (always (Inr (response_with ''failed'' (Some ''content policy violation''))))
         (always 0)))) = []
   \<and> length (requests (snd (BedrockVideoClient_wait_for_job_completion ''job-1''
      ''amazon.nova.video-1080p'' ''text-to-video'' 5 60 300
      (test_world (always (Inr (response_with ''failed'' (Some ''content policy violation''))))
         (always 0))))) = 1
   \<and> fst (poll_job_status ''job-1'' ''amazon.nova.video-1080p'' 5 60
      (test_world (always (Inr (response_with ''failed'' (Some ''content policy violation''))))
         (always 0))) =
     Inl (Exception ''Job job-1 failed: content policy violation'')
   \<and> sleeps (snd (poll_job_status ''job-1'' ''amazon.nova.video-1080p'' 5 60
      (test_world (always (Inr (response_with ''failed'' (Some ''content policy violation''))))
         (always 0)))) = []"
proof -
  let ?r = "response_with ''failed'' (Some ''content policy violation'')"
  let ?w = "test_world (always (Inr ?r)) (always 0)"
  have fields: "requests ?w = []" "sleeps ?w = []" "clock_reads ?w = 0"
    "clock ?w = always 0" "invoke_results ?w = always (Inr ?r)"
    by (simp_all add: test_world_def)
  have st: "status ?r = Some ''failed''"
    "errorMessage ?r = Some ''content policy violation''"
    by (simp_all add: response_with_def)
  have id: "''job-1'' \<noteq> []" by simp
  have answer: "invoke_results ?w (length (requests ?w)) = Inr ?r"
    by (simp add: fields always_def)
  have terminal: "status ?r = Some ''failed'' \<or> status ?r = Some ''expired''"
    by (simp add: st)
  from poller_raises_on_terminal_status [OF id answer terminal,
      of 0 60 "0" 300 "''amazon.nova.video-1080p''" "''text-to-video''" 5]
  show ?thesis
    by (simp add: fields st get_default_def py_str_opt_def always_def)
qed

theorem expired_error_without_vendor_message:
  "fst (BedrockVideoClient_wait_for_job_completion ''job-1'' ''amazon.nova.video-1080p''
      ''text-to-video'' 5 60 300
      (test_world (always (Inr (response_with ''expired'' (Some ''capacity reclaimed''))))
         (always 0))) =
     Inl (BedrockVideoGenerationError (tag_unexpected @ msg_job_expired))
   \<and> fst (BedrockVideoClient_wait_for_job_completion ''job-1'' ''amazon.nova.video-1080p''
      ''text-to-video'' 5 60 300
      (test_world (always (Inr (response_with ''expired'' (Some ''input no longer available''))))
         (always 0))) =
     Inl (BedrockVideoGenerationError (tag_unexpected @ msg_job_expired))"
proof -
  have id: "''job-1'' \<noteq> []" by simp
  have one: "fst (BedrockVideoClient_wait_for_job_completion ''job-1''
      ''amazon.nova.video-1080p'' ''text-to-video'' 5 60 300
      (test_world (always (Inr (response_with ''expired'' (Some m)))) (always 0))) =
     Inl (BedrockVideoGenerationError (tag_unexpected @ msg_job_expired))" for m
  proof -
    let ?r = "response_with ''expired'' (Some m)"
    let ?w = "test_world (always (Inr ?r)) (always 0)"
    have answer: "invoke_results ?w (length (requests ?w)) = Inr ?r"
      by (simp add: test_world_def always_def)
    have st: "status ?r = Some ''expired''" by (simp add: response_with_def)
    then have terminal: "status ?r = Some ''failed'' \<or> status ?r = Some ''expired''"
      by simp
    have budget: "(0::int) < 60" by simp
    have time: "clock ?w (clock_reads ?w + 1) - clock ?w (clock_reads ?w) < of_int 300"
      by (simp add: test_world_def always_def)
    from wait_for_job_completion_terminal [OF id answer terminal budget time,
        of "''amazon.nova.video-1080p''" "''text-to-video''" 5]
    show ?thesis by (simp add: st)
  qed
  from one [of "''capacity reclaimed''"] one [of "''input no longer available''"]
  show ?thesis by simp
qed

subsection \<open>The budget of attempts\<close>

text \<open>
  The decorator only adds a log record: what was sent, slept and read is what the wrapped
  function sent, slept and read. Whatever the wrapped function raises, the decorator
  raises the domain exception.
\<close>

lemma handle_common_errors_fields [simp]:
  "requests (snd (handle_common_errors func w)) = requests (snd (func w))"
  "sleeps (snd (handle_common_errors func w)) = sleeps (snd (func w))"
  "clock_reads (snd (handle_common_errors func w)) = clock_reads (snd (func w))"
  "files (snd (handle_common_errors func w)) = files (snd (func w))"
  "uuids_drawn (snd (handle_common_errors func w)) = uuids_drawn (snd (func w))"
  by (simp_all add: handle_common_errors_def case_prod_beta split: sum.split exn.split)

lemma handle_common_errors_raises:
  "fst (func w) = Inl e \<Longrightarrow>
   \<exists>m. fst (handle_common_errors func w) = Inl (BedrockVideoGenerationError m)"
  by (simp add: handle_common_errors_def case_prod_beta split: exn.split)

text \<open>
  While the service answers with a status that is none of \<open>completed\<close>, \<open>failed\<close> and
  \<open>expired\<close> and the clock stays within the timeout, the loop of
  \<open>wait_for_job_completion\<close> uses up the attempts that are left, one status request and
  one sleep for each, and then reaches the statements after the loop.
\<close>

lemma wait_loop_exhausts:
  assumes "job_id \<noteq> []" and "0 \<le> interval"
    and "max_attempts - attempt = int n"
    and "\<forall>i<n. \<exists>r. invoke_results w (length (requests w) + i) = Inr r \<and>
           status r \<noteq> Some ''completed'' \<and> status r \<noteq> Some ''failed'' \<and>
           status r \<noteq> Some ''expired''"
    and "\<forall>i<n. clock w (clock_reads w + i) - start_time < of_int timeout"
  shows "\<exists>w'. wait_loop job_id model_id task_type interval max_attempts timeout start_time
             attempt w = wait_after_loop job_id max_attempts timeout start_time w'
           \<and> requests w' = requests w @ replicate n (status_request job_id model_id task_type)
           \<and> sleeps w' = sleeps w @ replicate n interval
           \<and> clock_reads w' = clock_reads w + n \<and> clock w' = clock w"
  using assms(3-5)
proof (induction n arbitrary: attempt w)
  case 0
  then have "\<not> attempt < max_attempts" by simp
  then have "wait_loop job_id model_id task_type interval max_attempts timeout start_time
      attempt w = wait_after_loop job_id max_attempts timeout start_time w"
    by (subst wait_loop.simps) simp
  then show ?case by (intro exI [of _ w]) simp
next
  case (Suc n)
  from Suc.prems(1) have more: "attempt < max_attempts" by simp
  from Suc.prems(2) obtain r where r: "invoke_results w (length (requests w)) = Inr r"
    "status r \<noteq> Some ''completed''" "status r \<noteq> Some ''failed''"
    "status r \<noteq> Some ''expired''"
    by force
  from Suc.prems(3) have now: "clock w (clock_reads w) - start_time < of_int timeout"
    by force
  let ?w1 = "snd (time_sleep interval
       (logger_info (log_status_pre @ py_str_opt (status r) @ log_status_mid @
                   py_str_int (attempt + 1) @ ''/'' @ py_str_int max_attempts @ '')'')
          (snd (invoke_model (status_request job_id model_id task_type)
             (snd (time_time w))))))"
  note step = wait_loop_continue [OF more now assms(1) r assms(2), of model_id task_type]
  have left: "max_attempts - (attempt + 1) = int n"
    using Suc.prems(1) by simp
  have answers: "\<forall>i<n. \<exists>r. invoke_results ?w1 (length (requests ?w1) + i) = Inr r \<and>
           status r \<noteq> Some ''completed'' \<and> status r \<noteq> Some ''failed'' \<and>
           status r \<noteq> Some ''expired''"
    using Suc.prems(2) by (auto simp: assms(2))
  have times: "\<forall>i<n. clock ?w1 (clock_reads ?w1 + i) - start_time < of_int timeout"
    using Suc.prems(3) by (auto simp: assms(2))
  from Suc.IH [OF left answers times] obtain w' where w':
    "wait_loop job_id model_id task_type interval max_attempts timeout start_time
       (attempt + 1) ?w1 = wait_after_loop job_id max_attempts timeout start_time w'"
    "requests w' = requests ?w1 @ replicate n (status_request job_id model_id task_type)"
    "sleeps w' = sleeps ?w1 @ replicate n interval"
    "clock_reads w' = clock_reads ?w1 + n" "clock w' = clock ?w1"
    by blast
  have "wait_loop job_id model_id task_type interval max_attempts timeout start_time
      attempt w = wait_after_loop job_id max_attempts timeout start_time w'"
    using step w'(1) by simp
  moreover have "requests w' =
      requests w @ replicate (Suc n) (status_request job_id model_id task_type)"
    using w'(2) by simp
  moreover have "sleeps w' = sleeps w @ replicate (Suc n) interval"
    using w'(3) assms(2) by simp
  moreover have "clock_reads w' = clock_reads w + Suc n" "clock w' = clock w"
    using w'(4,5) by simp_all
  ultimately show ?case by blast
qed

text \<open>
  So the function under the decorator raises \<open>TimeoutError\<close>, with the text for the timeout
  or the text for the attempts as the last clock reading decides; and the method that
  callers see, being decorated, raises the domain exception with the tag of the
  unexpected error before that text.
\<close>

lemma wait_for_job_completion_exhausts:
  assumes "job_id \<noteq> []" and "0 \<le> interval" and "max_attempts = int n"
    and "\<forall>i<n. \<exists>r. invoke_results w (length (requests w) + i) = Inr r \<and>
           status r \<noteq> Some ''completed'' \<and> status r \<noteq> Some ''failed'' \<and>
           status r \<noteq> Some ''expired''"
    and "\<forall>i<n. clock w (clock_reads w + 1 + i) - clock w (clock_reads w) < of_int timeout"
  shows "fst (BedrockVideoClient_wait_for_job_completion_func job_id model_id task_type
          interval max_attempts timeout w) =
        Inl (TimeoutError
          (if clock w (clock_reads w + 1 + n) - clock w (clock_reads w) \<ge> of_int timeout
           then lit_job @ job_id @ msg_timeout_mid @ py_str_int timeout @ msg_timeout_post
           else lit_job @ job_id @ msg_attempts_mid @ py_str_int max_attempts @
             msg_attempts_post))
    \<and> fst (BedrockVideoClient_wait_for_job_completion job_id model_id task_type
          interval max_attempts timeout w) =
        Inl (BedrockVideoGenerationError
          (tag_unexpected @
           (if clock w (clock_reads w + 1 + n) - clock w (clock_reads w) \<ge> of_int timeout
            then lit_job @ job_id @ msg_timeout_mid @ py_str_int timeout @ msg_timeout_post
            else lit_job @ job_id @ msg_attempts_mid @ py_str_int max_attempts @
              msg_attempts_post)))
    \<and> requests (snd (BedrockVideoClient_wait_for_job_completion job_id model_id task_type
          interval max_attempts timeout w)) =
        requests w @ replicate n (status_request job_id model_id task_type)
    \<and> sleeps (snd (BedrockVideoClient_wait_for_job_completion job_id model_id task_type
          interval max_attempts timeout w)) = sleeps w @ replicate n interval"
proof -
  let ?start = "snd (time_time w)"
  let ?func = "BedrockVideoClient_wait_for_job_completion_func job_id model_id task_type
      interval max_attempts timeout"
  have left: "max_attempts - 0 = int n" using assms(3) by simp
  have answers: "\<forall>i<n. \<exists>r. invoke_results ?start (length (requests ?start) + i) = Inr r \<and>
           status r \<noteq> Some ''completed'' \<and> status r \<noteq> Some ''failed'' \<and>
           status r \<noteq> Some ''expired''"
    using assms(4) by simp
  have times: "\<forall>i<n. clock ?start (clock_reads ?start + i) - clock w (clock_reads w)
      < of_int timeout"
    using assms(5) by simp
  from wait_loop_exhausts [OF assms(1,2) left answers times, of model_id task_type]
  obtain w' where w':
    "wait_loop job_id model_id task_type interval max_attempts timeout
       (clock w (clock_reads w)) 0 ?start =
     wait_after_loop job_id max_attempts timeout (clock w (clock_reads w)) w'"
    "requests w' = requests ?start @ replicate n (status_request job_id model_id task_type)"
    "sleeps w' = sleeps ?start @ replicate n interval"
    "clock_reads w' = clock_reads ?start + n" "clock w' = clock ?start"
    by blast
  have func: "?func w = wait_after_loop job_id max_attempts timeout (clock w (clock_reads w)) w'"
    using w'(1) by (simp add: wait_func_enters_loop [OF assms(1)])
  have raised: "fst (?func w) =
        Inl (TimeoutError
          (if clock w (clock_reads w + 1 + n) - clock w (clock_reads w) \<ge> of_int timeout
           then lit_job @ job_id @ msg_timeout_mid @ py_str_int timeout @ msg_timeout_post
           else lit_job @ job_id @ msg_attempts_mid @ py_str_int max_attempts @
             msg_attempts_post))"
    using w'(4,5) by (simp add: func wait_after_loop_def case_prod_beta)
  have effects: "requests (snd (?func w)) =
      requests w @ replicate n (status_request job_id model_id task_type)"
    "sleeps (snd (?func w)) = sleeps w @ replicate n interval"
    using w'(2,3) by (simp_all add: func wait_after_loop_def case_prod_beta)
  from handle_common_errors_TimeoutError [where func = ?func and w = w, OF raised]
  have "fst (BedrockVideoClient_wait_for_job_completion job_id model_id task_type
          interval max_attempts timeout w) =
        Inl (BedrockVideoGenerationError
          (tag_unexpected @
           (if clock w (clock_reads w + 1 + n) - clock w (clock_reads w) \<ge> of_int timeout
            then lit_job @ job_id @ msg_timeout_mid @ py_str_int timeout @ msg_timeout_post
            else lit_job @ job_id @ msg_attempts_mid @ py_str_int max_attempts @
              msg_attempts_post)))"
    by (simp add: BedrockVideoClient_wait_for_job_completion_def)
  with raised effects show ?thesis
    by (simp add: BedrockVideoClient_wait_for_job_completion_def)
qed

lemma poll_loop_exhausts:
  assumes "0 \<le> interval"
    and "max_attempts - attempts = int n"
    and "\<forall>i<n. \<exists>r. invoke_results w (length (requests w) + i) = Inr r \<and>
           status r \<noteq> Some ''completed'' \<and> status r \<noteq> Some ''failed'' \<and>
           status r \<noteq> Some ''expired''"
  shows "fst (poll_loop job_id model_id interval max_attempts attempts w) =
        Inl (TimeoutError (''Job '' @ job_id @ '' did not complete within the expected time''))
    \<and> requests (snd (poll_loop job_id model_id interval max_attempts attempts w)) =
        requests w @ replicate n (status_request job_id model_id ''text-to-video'')
    \<and> sleeps (snd (poll_loop job_id model_id interval max_attempts attempts w)) =
        sleeps w @ replicate n interval"
  using assms(2,3)
proof (induction n arbitrary: attempts w)
  case 0
  then have "\<not> attempts < max_attempts" by simp
  then show ?case by (subst poll_loop.simps, subst poll_loop.simps, subst poll_loop.simps) simp
next
  case (Suc n)
  from Suc.prems(1) have more: "attempts < max_attempts" by simp
  from Suc.prems(2) obtain r where r: "invoke_results w (length (requests w)) = Inr r"
    "status r \<noteq> Some ''completed''" "status r \<noteq> Some ''failed''"
    "status r \<noteq> Some ''expired''"
    by force
  let ?w1 = "snd (time_sleep interval
       (logger_info (''Job status: '' @ py_str_opt (status r))
          (snd (invoke_model (status_request job_id model_id ''text-to-video'') w))))"
  note step = poll_loop_continue [OF more r assms(1), of job_id model_id]
  have left: "max_attempts - (attempts + 1) = int n"
    using Suc.prems(1) by simp
  have answers: "\<forall>i<n. \<exists>r. invoke_results ?w1 (length (requests ?w1) + i) = Inr r \<and>
           status r \<noteq> Some ''completed'' \<and> status r \<noteq> Some ''failed'' \<and>
           status r \<noteq> Some ''expired''"
    using Suc.prems(2) by (auto simp: assms(1))
  from Suc.IH [OF left answers] show ?case
    using assms(1) by (simp add: step)
qed

text \<open>
  Claim C3, at the input of the claim: the status is \<open>running\<close> at every query, the budget
  is three attempts and the clock does not move. \<open>poll_job_status\<close> raises \<open>TimeoutError\<close>
  after exactly three status requests. The function under the decorator of
  \<open>wait_for_job_completion\<close> raises \<open>TimeoutError\<close> after exactly three status requests too,
  but the decorated method, the one that callers have, raises
  \<open>BedrockVideoGenerationError\<close> with the tag of the unexpected error, and so it does
  when the clock has passed the timeout; the two cases differ in the text alone.
\<close>

theorem wait_for_job_completion_timeout_is_wrapped:
  "fst (BedrockVideoClient_wait_for_job_completion ''job-1'' ''amazon.nova.video-1080p''
      ''text-to-video'' 0 3 300
      (test_world (always (Inr (response_with ''running'' None))) (always 0))) =
     Inl (BedrockVideoGenerationError
       (tag_unexpected @ lit_job @ ''job-1'' @ msg_attempts_mid @ ''3'' @ msg_attempts_post))
   \<and> requests (snd (BedrockVideoClient_wait_for_job_completion ''job-1''
      ''amazon.nova.video-1080p'' ''text-to-video'' 0 3 300
      (test_world (always (Inr (response_with ''running'' None))) (always 0)))) =
     replicate 3 (status_request ''job-1'' ''amazon.nova.video-1080p'' ''text-to-video'')
   \<and> fst (BedrockVideoClient_wait_for_job_completion_func ''job-1''
      ''amazon.nova.video-1080p'' ''text-to-video'' 0 3 300
      (test_world (always (Inr (response_with ''running'' None))) (always 0))) =
     Inl (TimeoutError
       (lit_job @ ''job-1'' @ msg_attempts_mid @ ''3'' @ msg_attempts_post))
   \<and> fst (BedrockVideoClient_wait_for_job_completion ''job-1'' ''amazon.nova.video-1080p''
      ''text-to-video'' 0 3 300
      (test_world (always (Inr (response_with ''running'' None))) (script [0] 1000))) =
     Inl (BedrockVideoGenerationError
       (tag_unexpected @ lit_job @ ''job-1'' @ msg_timeout_mid @ ''300'' @ msg_timeout_post))
   \<and> fst (poll_job_status ''job-1'' ''amazon.nova.video-1080p'' 0 3
      (test_world (always (Inr (response_with ''running'' None))) (always 0))) =
     Inl (TimeoutError ''Job job-1 did not complete within the expected time'')
   \<and> requests (snd (poll_job_status ''job-1'' ''amazon.nova.video-1080p'' 0 3
      (test_world (always (Inr (response_with ''running'' None))) (always 0)))) =
     replicate 3 (status_request ''job-1'' ''amazon.nova.video-1080p'' ''text-to-video'')"
proof -
  let ?r = "response_with ''running'' None"
  let ?w = "test_world (always (Inr ?r)) (always 0)"
  let ?v = "test_world (always (Inr ?r)) (script [0] 1000)"
  have fields: "requests ?w = []" "sleeps ?w = []" "clock_reads ?w = 0"
    "clock ?w = always 0" "invoke_results ?w = always (Inr ?r)"
    by (simp_all add: test_world_def)
  have st: "status ?r = Some ''running''" by (simp add: response_with_def)
  have id: "''job-1'' \<noteq> []" and interval: "(0::int) \<le> 0" and budget: "(3::int) = int 3"
    by simp_all
  have answers: "\<forall>i<3. \<exists>r. invoke_results ?w (length (requests ?w) + i) = Inr r \<and>
           status r \<noteq> Some ''completed'' \<and> status r \<noteq> Some ''failed'' \<and>
           status r \<noteq> Some ''expired''"
    by (simp add: fields always_def st)
  have times: "\<forall>i<3. clock ?w (clock_reads ?w + 1 + i) - clock ?w (clock_reads ?w)
      < of_int 300"
    by (simp add: fields always_def)
  note waited = wait_for_job_completion_exhausts [OF id interval budget answers times,
      of "''amazon.nova.video-1080p''" "''text-to-video''"]
  have left: "(3::int) - 0 = int 3" by simp
  note polled = poll_loop_exhausts [OF interval left answers,
      of "''job-1''" "''amazon.nova.video-1080p''"]
  have three: "py_str_int 3 = ''3''" and hundreds: "py_str_int 300 = ''300''"
    by (simp_all add: py_str_int_def dec_nat.simps)
  have late: "fst (BedrockVideoClient_wait_for_job_completion_func ''job-1''
      ''amazon.nova.video-1080p'' ''text-to-video'' 0 3 300 ?v) =
     Inl (TimeoutError (lit_job @ ''job-1'' @ msg_timeout_mid @ ''300'' @ msg_timeout_post))"
    by (subst wait_func_enters_loop [OF id], subst wait_loop.simps)
       (simp add: test_world_def script_def wait_after_loop_def case_prod_beta hundreds)
  from handle_common_errors_TimeoutError [where w = ?v and func =
      "BedrockVideoClient_wait_for_job_completion_func ''job-1''
         ''amazon.nova.video-1080p'' ''text-to-video'' 0 3 300", OF late]
  have wrapped: "fst (BedrockVideoClient_wait_for_job_completion ''job-1''
      ''amazon.nova.video-1080p'' ''text-to-video'' 0 3 300 ?v) =
     Inl (BedrockVideoGenerationError
       (tag_unexpected @ lit_job @ ''job-1'' @ msg_timeout_mid @ ''300'' @ msg_timeout_post))"
    by (simp add: BedrockVideoClient_wait_for_job_completion_def)
  from waited polled wrapped show ?thesis
    by (simp add: fields always_def three poll_job_status_def)
qed

subsection \<open>An exception of the status query\<close>

text \<open>
  Whatever exception a status query raises, the decorated \<open>check_job_status\<close> turns it into
  the domain exception, which the handler of the loop raises again: the wait ends with
  this one request and without a sleep.
\<close>

lemma check_job_status_transport_error:
  assumes "job_id \<noteq> []" and "invoke_results w (length (requests w)) = Inl e"
  shows "\<exists>m. fst (BedrockVideoClient_check_job_status job_id model_id task_type w) =
          Inl (BedrockVideoGenerationError m)"
    and "requests (snd (BedrockVideoClient_check_job_status job_id model_id task_type w)) =
          requests w @ [status_request job_id model_id task_type]"
    and "sleeps (snd (BedrockVideoClient_check_job_status job_id model_id task_type w)) =
          sleeps w"
proof -
  let ?func = "BedrockVideoClient_check_job_status_func job_id model_id task_type"
  have raised: "fst (?func w) = Inl e"
    and effects: "requests (snd (?func w)) =
      requests w @ [status_request job_id model_id task_type]"
      "sleeps (snd (?func w)) = sleeps w"
    using assms by (simp_all add: BedrockVideoClient_check_job_status_func_def case_prod_beta)
  from handle_common_errors_raises [where func = ?func and w = w, OF raised]
  show "\<exists>m. fst (BedrockVideoClient_check_job_status job_id model_id task_type w) =
          Inl (BedrockVideoGenerationError m)"
    by (simp add: BedrockVideoClient_check_job_status_def)
  from effects
  show "requests (snd (BedrockVideoClient_check_job_status job_id model_id task_type w)) =
          requests w @ [status_request job_id model_id task_type]"
    and "sleeps (snd (BedrockVideoClient_check_job_status job_id model_id task_type w)) =
          sleeps w"
    by (simp_all add: BedrockVideoClient_check_job_status_def)
qed

lemma wait_for_job_completion_transport_error:
  assumes "job_id \<noteq> []" and "invoke_results w (length (requests w)) = Inl e"
    and "0 < max_attempts"
    and "clock w (clock_reads w + 1) - clock w (clock_reads w) < of_int timeout"
  shows "(\<exists>m. fst (BedrockVideoClient_wait_for_job_completion job_id model_id task_type
           interval max_attempts timeout w) = Inl (BedrockVideoGenerationError m))
    \<and> requests (snd (BedrockVideoClient_wait_for_job_completion job_id model_id task_type
           interval max_attempts timeout w)) =
        requests w @ [status_request job_id model_id task_type]
    \<and> sleeps (snd (BedrockVideoClient_wait_for_job_completion job_id model_id task_type
           interval max_attempts timeout w)) = sleeps w"
proof -
  let ?start = "snd (time_time w)"
  let ?func = "BedrockVideoClient_wait_for_job_completion_func job_id model_id task_type
      interval max_attempts timeout"
  let ?pass = "snd (time_time ?start)"
  have q: "invoke_results ?pass (length (requests ?pass)) = Inl e"
    using assms(2) by simp
  note c = check_job_status_transport_error [OF assms(1) q, of model_id task_type]
  from c(1) obtain m where m:
    "fst (BedrockVideoClient_check_job_status job_id model_id task_type ?pass) =
       Inl (BedrockVideoGenerationError m)"
    by blast
  have t: "wait_try job_id model_id task_type interval max_attempts 0 ?pass =
      (Inl (BedrockVideoGenerationError m),
       snd (BedrockVideoClient_check_job_status job_id model_id task_type ?pass))"
    using m by (simp add: wait_try_def wait_except_def case_prod_beta)
  have time: "clock ?start (clock_reads ?start) - clock w (clock_reads w) < of_int timeout"
    using assms(4) by simp
  have "fst (wait_try job_id model_id task_type interval max_attempts 0 ?pass) =
      Inl (BedrockVideoGenerationError m)"
    by (simp add: t)
  from wait_loop_raises [OF assms(3) time this]
  have func: "?func w = (Inl (BedrockVideoGenerationError m),
      snd (BedrockVideoClient_check_job_status job_id model_id task_type ?pass))"
    by (simp add: wait_func_enters_loop [OF assms(1)] t)
  then have "fst (?func w) = Inl (BedrockVideoGenerationError m)" by simp
  from handle_common_errors_BVGE [where func = ?func and w = w, OF this] func c(2,3)
  show ?thesis
    by (simp add: BedrockVideoClient_wait_for_job_completion_def)
qed

text \<open>
  Claim C4, at a failing input: the first status query raises a throttling error of the
  service and the second would be answered \<open>completed\<close>. Both pollers end with that first
  query: \<open>wait_for_job_completion\<close> raises the domain exception and \<open>poll_job_status\<close> lets
  the \<open>ClientError\<close> through; neither sleeps nor sends a second request.
\<close>

theorem transient_error_aborts_the_wait:
  "fst (BedrockVideoClient_wait_for_job_completion ''job-1'' ''amazon.nova.video-1080p''
      ''text-to-video'' 5 60 300
      (test_world
         (script [Inl (ClientError (Some ''ThrottlingException'') (Some ''Rate exceeded'')
            ''An error occurred (ThrottlingException): Rate exceeded'')]
            (Inr (response_with ''completed'' None))) (always 0))) =
     Inl (BedrockVideoGenerationError
       (tag_unexpected @ tag_throttling @ ''Rate exceeded''))
   \<and> requests (snd (BedrockVideoClient_wait_for_job_completion ''job-1''
      ''amazon.nova.video-1080p'' ''text-to-video'' 5 60 300
      (test_world
         (script [Inl (ClientError (Some ''ThrottlingException'') (Some ''Rate exceeded'')
            ''An error occurred (ThrottlingException): Rate exceeded'')]
            (Inr (response_with ''completed'' None))) (always 0)))) =
     [status_request ''job-1'' ''amazon.nova.video-1080p'' ''text-to-video'']
   \<and> sleeps (snd (BedrockVideoClient_wait_for_job_completion ''job-1''
      ''amazon.nova.video-1080p'' ''text-to-video'' 5 60 300
      (test_world
         (script [Inl (ClientError (Some ''ThrottlingException'') (Some ''Rate exceeded'')
            ''An error occurred (ThrottlingException): Rate exceeded'')]
            (Inr (response_with ''completed'' None))) (always 0)))) = []
   \<and> fst (poll_job_status ''job-1'' ''amazon.nova.video-1080p'' 5 60
      (test_world
         (script [Inl (ClientError (Some ''ThrottlingException'') (Some ''Rate exceeded'')
            ''An error occurred (ThrottlingException): Rate exceeded'')]
            (Inr (response_with ''completed'' None))) (always 0))) =
     Inl (ClientError (Some ''ThrottlingException'') (Some ''Rate exceeded'')
            ''An error occurred (ThrottlingException): Rate exceeded'')
   \<and> requests (snd (poll_job_status ''job-1'' ''amazon.nova.video-1080p'' 5 60
      (test_world
         (script [Inl (ClientError (Some ''ThrottlingException'') (Some ''Rate exceeded'')
            ''An error occurred (ThrottlingException): Rate exceeded'')]
            (Inr (response_with ''completed'' None))) (always 0)))) =
     [status_request ''job-1'' ''amazon.nova.video-1080p'' ''text-to-video'']
   \<and> sleeps (snd (poll_job_status ''job-1'' ''amazon.nova.video-1080p'' 5 60
      (test_world
         (script [Inl (ClientError (Some ''ThrottlingException'') (Some ''Rate exceeded'')
            ''An error occurred (ThrottlingException): Rate exceeded'')]
            (Inr (response_with ''completed'' None))) (always 0)))) = []"
proof -
  let ?e = "ClientError (Some ''ThrottlingException'') (Some ''Rate exceeded'')
            ''An error occurred (ThrottlingException): Rate exceeded''"
  let ?w = "test_world (script [Inl ?e] (Inr (response_with ''completed'' None))) (always 0)"
  let ?start = "snd (time_time ?w)"
  have fields: "requests ?w = []" "sleeps ?w = []" "clock_reads ?w = 0"
    "clock ?w = always 0"
    "invoke_results ?w = script [Inl ?e] (Inr (response_with ''completed'' None))"
    by (simp_all add: test_world_def)
  have id: "''job-1'' \<noteq> []" by simp
  have first: "script [Inl ?e] (Inr (response_with ''completed'' None)) 0 = Inl ?e"
    by (simp add: script_def)
  let ?pass = "snd (time_time ?start)"
  have checked: "fst (BedrockVideoClient_check_job_status ''job-1''
      ''amazon.nova.video-1080p'' ''text-to-video'' ?pass) =
      Inl (BedrockVideoGenerationError (tag_throttling @ ''Rate exceeded''))"
    by (simp add: BedrockVideoClient_check_job_status_def handle_common_errors_def
        BedrockVideoClient_check_job_status_func_def case_prod_beta fields first
        py_str_opt_def)
  have tried: "fst (wait_try ''job-1'' ''amazon.nova.video-1080p'' ''text-to-video'' 5 60 0
      ?pass) = Inl (BedrockVideoGenerationError (tag_throttling @ ''Rate exceeded''))"
    by (simp add: wait_try_def wait_except_def case_prod_beta checked)
  have budget: "(0::int) < 60" by simp
  have time0: "clock ?start (clock_reads ?start) - clock ?w (clock_reads ?w) < of_int 300"
    by (simp add: fields always_def)
  note looped = wait_loop_raises [OF budget time0 tried]
  have func: "fst (BedrockVideoClient_wait_for_job_completion_func ''job-1''
      ''amazon.nova.video-1080p'' ''text-to-video'' 5 60 300 ?w) =
      Inl (BedrockVideoGenerationError (tag_throttling @ ''Rate exceeded''))"
    by (simp add: wait_func_enters_loop [OF id] looped)
  from handle_common_errors_BVGE [where w = ?w and func =
      "BedrockVideoClient_wait_for_job_completion_func ''job-1''
         ''amazon.nova.video-1080p'' ''text-to-video'' 5 60 300", OF func]
  have raised: "fst (BedrockVideoClient_wait_for_job_completion ''job-1''
      ''amazon.nova.video-1080p'' ''text-to-video'' 5 60 300 ?w) =
      Inl (BedrockVideoGenerationError
        (tag_unexpected @ tag_throttling @ ''Rate exceeded''))"
    by (simp add: BedrockVideoClient_wait_for_job_completion_def)
  have answer: "invoke_results ?w (length (requests ?w)) = Inl ?e"
    by (simp add: fields first)
  have clock1: "clock ?w (clock_reads ?w + 1) - clock ?w (clock_reads ?w) < of_int 300"
    by (simp add: fields always_def)
  note general = wait_for_job_completion_transport_error [OF id answer budget clock1,
      of "''amazon.nova.video-1080p''" "''text-to-video''" 5]
  have polled: "poll_job_status ''job-1'' ''amazon.nova.video-1080p'' 5 60 ?w =
      (Inl ?e, snd (invoke_model
         (status_request ''job-1'' ''amazon.nova.video-1080p'' ''text-to-video'') ?w))"
    by (simp add: poll_job_status_def, subst poll_loop.simps)
       (simp add: case_prod_beta fields first)
  from raised general polled show ?thesis by (simp add: fields)
qed

section \<open>The downloads\<close>








section \<open>The submission\<close>

lemma random_seed_result:
  "fst (random_seed w) = \<bar>py_hash w (uuid4 w (uuids_drawn w))\<bar> mod 2 ^ 32"
  "snd (random_seed w) = snd (uuid_uuid4 w)"
  by (simp_all add: random_seed_def case_prod_beta)

lemma generate_video_result:
  "generate_video prompt model_id w =
    (invoke_results w (length (requests w)),
     snd (invoke_model
       \<lparr>modelId = model_id, contentType = ''application/json'',
        accept = ''application/json'',
        body = TextToVideoBody prompt (\<bar>py_hash w (uuid4 w (uuids_drawn w))\<bar> mod 2 ^ 32)
          4000 ''16:9'' ''video-generation'' ''text-to-video'' ''standard'' None None\<rparr>
       (snd (uuid_uuid4 w))))"
  by (simp add: generate_video_def case_prod_beta random_seed_result prod_eq_iff)

lemma BedrockVideoClient_generate_video_returns:
  assumes "prompt \<noteq> []" and "invoke_results w (length (requests w)) = Inr response"
  shows "BedrockVideoClient_generate_video prompt model_id kw w =
    (Inr response,
     snd (invoke_model
       \<lparr>modelId = model_id, contentType = ''application/json'',
        accept = ''application/json'',
        body = TextToVideoBody prompt (int_default (kw_seed kw) 42)
          (int_default (kw_duration kw) 4000) (get_default (kw_aspect_ratio kw) ''16:9'')
          ''video-generation'' ''text-to-video''
          (get_default (kw_image_quality kw) ''standard'')
          (kw_negative_prompt kw) (kw_style_preset kw)\<rparr> w))"
  using assms
  by (simp add: BedrockVideoClient_generate_video_def handle_common_errors_def
      BedrockVideoClient_generate_video_func_def case_prod_beta)

lemma main_try_missing_job_id:
  assumes "invoke_results w (length (requests w)) = Inr response"
    and "\<not> truthy (jobId response)"
  shows "main_try a w =
    (Inl (ValueError msg_no_job_id),
     snd (generate_video (arg_prompt a) (arg_model_id a)
       (logger_info (log_start_pre @ arg_prompt a @ [CHR 0x27]) w)))"
  using assms
  by (simp add: main_try_def case_prod_beta generate_video_result)

lemma simple_main_try_missing_job_id:
  assumes "invoke_results w (length (requests w)) = Inr response"
    and "\<not> truthy (jobId response)" and "arg_prompt a \<noteq> []"
  shows "simple_main_try a w =
    (Inl (ValueError msg_no_job_id),
     snd (invoke_model
       \<lparr>modelId = arg_model_id a, contentType = ''application/json'',
        accept = ''application/json'',
        body = TextToVideoBody (arg_prompt a) 42 (arg_duration a) ''16:9''
          ''video-generation'' ''text-to-video'' ''standard'' None None\<rparr>
       (logger_info (log_start_pre @ arg_prompt a @ [CHR 0x27]) w)))"
proof -
  let ?w1 = "logger_info (log_start_pre @ arg_prompt a @ [CHR 0x27]) w"
  have q: "invoke_results ?w1 (length (requests ?w1)) = Inr response"
    using assms(1) by simp
  show ?thesis
    using assms(2)
    by (simp add: simple_main_try_def BedrockVideoClient_generate_video_returns [OF assms(3) q]
        int_default_def get_default_def)
qed

lemma main_missing_job_id:
  assumes "invoke_results w (length (requests w)) = Inr response"
    and "\<not> truthy (jobId response)" and "makedirs_fails w (arg_output_dir a) = None"
  shows "fst (main cfg a w) = Inr 1"
    and "requests (snd (main cfg a w)) =
      requests w @
      [\<lparr>modelId = arg_model_id a, contentType = ''application/json'',
        accept = ''application/json'',
        body = TextToVideoBody (arg_prompt a)
          (\<bar>py_hash w (uuid4 w (uuids_drawn w))\<bar> mod 2 ^ 32)
          4000 ''16:9'' ''video-generation'' ''text-to-video'' ''standard'' None None\<rparr>]"
    and "sleeps (snd (main cfg a w)) = sleeps w"
proof -
  let ?w1 = "snd (os_makedirs (arg_output_dir a) w)"
  let ?w2 = "create_bedrock_client cfg (arg_region a) ?w1"
  have made: "fst (os_makedirs (arg_output_dir a) w) = Inr ()"
    using assms(3) by (simp add: os_makedirs_def)
  have q: "invoke_results ?w2 (length (requests ?w2)) = Inr response"
    using assms(1) by simp
  note t = main_try_missing_job_id [OF q assms(2), of a]
  show "fst (main cfg a w) = Inr 1"
    and "requests (snd (main cfg a w)) =
      requests w @
      [\<lparr>modelId = arg_model_id a, contentType = ''application/json'',
        accept = ''application/json'',
        body = TextToVideoBody (arg_prompt a)
          (\<bar>py_hash w (uuid4 w (uuids_drawn w))\<bar> mod 2 ^ 32)
          4000 ''16:9'' ''video-generation'' ''text-to-video'' ''standard'' None None\<rparr>]"
    and "sleeps (snd (main cfg a w)) = sleeps w"
    by (simp_all add: main_def case_prod_beta made t generate_video_result)
qed

lemma simple_main_missing_job_id:
  assumes "invoke_results w (length (requests w)) = Inr response"
    and "\<not> truthy (jobId response)" and "makedirs_fails w (arg_output_dir a) = None"
    and "arg_prompt a \<noteq> []"
  shows "fst (simple_main cfg a w) = Inr 1"
    and "requests (snd (simple_main cfg a w)) =
      requests w @
      [\<lparr>modelId = arg_model_id a, contentType = ''application/json'',
        accept = ''application/json'',
        body = TextToVideoBody (arg_prompt a) 42 (arg_duration a) ''16:9''
          ''video-generation'' ''text-to-video'' ''standard'' None None\<rparr>]"
    and "sleeps (snd (simple_main cfg a w)) = sleeps w"
proof -
  let ?w1 = "snd (os_makedirs (arg_output_dir a) w)"
  let ?w2 = "BedrockVideoClient_init cfg (arg_region a) ?w1"
  have made: "fst (os_makedirs (arg_output_dir a) w) = Inr ()"
    using assms(3) by (simp add: os_makedirs_def)
  have q: "invoke_results ?w2 (length (requests ?w2)) = Inr response"
    using assms(1) by simp
  note t = simple_main_try_missing_job_id [OF q assms(2,4)]
  show "fst (simple_main cfg a w) = Inr 1"
    and "requests (snd (simple_main cfg a w)) =
      requests w @
      [\<lparr>modelId = arg_model_id a, contentType = ''application/json'',
        accept = ''application/json'',
        body = TextToVideoBody (arg_prompt a) 42 (arg_duration a) ''16:9''
          ''video-generation'' ''text-to-video'' ''standard'' None None\<rparr>]"
    and "sleeps (snd (simple_main cfg a w)) = sleeps w"
    by (simp_all add: simple_main_def case_prod_beta made t)
qed

text \<open>
  Claim C6. The service answers the submission with a body that has no \<open>jobId\<close>. Then
  the \<open>try\<close> block of \<open>main\<close>, in generate\_video.py and in simple\_example.py, raises
  \<open>ValueError\<close> with the text that no job id was found, by the explicit check on the field;
  \<open>main\<close> logs it and returns 1; and the one request sent is the submission: no status
  request follows it and nothing is slept. (In simple\_example.py a body is only received
  for a prompt that is not empty.)
\<close>

theorem missing_job_id_raises_without_polling:
  assumes "invoke_results w (length (requests w)) = Inr response"
    and "jobId response = None"
  shows "fst (main_try a w) = Inl (ValueError msg_no_job_id)
    \<and> requests (snd (main_try a w)) =
        requests w @
        [\<lparr>modelId = arg_model_id a, contentType = ''application/json'',
          accept = ''application/json'',
          body = TextToVideoBody (arg_prompt a)
            (\<bar>py_hash w (uuid4 w (uuids_drawn w))\<bar> mod 2 ^ 32)
            4000 ''16:9'' ''video-generation'' ''text-to-video'' ''standard'' None None\<rparr>]
    \<and> sleeps (snd (main_try a w)) = sleeps w
    \<and> (makedirs_fails w (arg_output_dir a) = None \<longrightarrow>
        fst (main cfg a w) = Inr 1
        \<and> requests (snd (main cfg a w)) =
            requests w @
            [\<lparr>modelId = arg_model_id a, contentType = ''application/json'',
              accept = ''application/json'',
              body = TextToVideoBody (arg_prompt a)
                (\<bar>py_hash w (uuid4 w (uuids_drawn w))\<bar> mod 2 ^ 32)
                4000 ''16:9'' ''video-generation'' ''text-to-video'' ''standard'' None None\<rparr>]
        \<and> sleeps (snd (main cfg a w)) = sleeps w)
    \<and> (arg_prompt a \<noteq> [] \<longrightarrow>
        fst (simple_main_try a w) = Inl (ValueError msg_no_job_id)
        \<and> requests (snd (simple_main_try a w)) =
            requests w @
            [\<lparr>modelId = arg_model_id a, contentType = ''application/json'',
              accept = ''application/json'',
              body = TextToVideoBody (arg_prompt a) 42 (arg_duration a) ''16:9''
                ''video-generation'' ''text-to-video'' ''standard'' None None\<rparr>]
        \<and> sleeps (snd (simple_main_try a w)) = sleeps w)
    \<and> (arg_prompt a \<noteq> [] \<and> makedirs_fails w (arg_output_dir a) = None \<longrightarrow>
        fst (simple_main cfg a w) = Inr 1
        \<and> requests (snd (simple_main cfg a w)) =
            requests w @
            [\<lparr>modelId = arg_model_id a, contentType = ''application/json'',
              accept = ''application/json'',
              body = TextToVideoBody (arg_prompt a) 42 (arg_duration a) ''16:9''
                ''video-generation'' ''text-to-video'' ''standard'' None None\<rparr>]
        \<and> sleeps (snd (simple_main cfg a w)) = sleeps w)"
proof -
  from assms(2) have absent: "\<not> truthy (jobId response)"
    by (simp add: truthy_def)
  note t = main_try_missing_job_id [OF assms(1) absent, of a]
  note m = main_missing_job_id [OF assms(1) absent, of a cfg]
  note st = simple_main_try_missing_job_id [OF assms(1) absent, of a]
  note sm = simple_main_missing_job_id [OF assms(1) absent, of a cfg]
  show ?thesis
    apply (intro conjI impI)
    subgoal by (simp add: t)
    subgoal by (simp add: t generate_video_result)
    subgoal by (simp add: t generate_video_result)
    subgoal by (rule m)
    subgoal by (rule m)
    subgoal by (rule m)
    subgoal by (simp add: st)
    subgoal by (simp add: st)
    subgoal by (simp add: st)
    subgoal using sm by blast
    subgoal using sm by blast
    subgoal using sm by blast
    done
qed

theorem missing_job_id_raises_without_polling_witness:
  "fst (main_try test_args (test_world (always (Inr empty_response)) (always 0))) =
     Inl (ValueError msg_no_job_id)
   \<and> fst (main (test_config None None) test_args
       (test_world (always (Inr empty_response)) (always 0))) = Inr 1
   \<and> length (requests (snd (main (test_config None None) test_args
       (test_world (always (Inr empty_response)) (always 0))))) = 1
   \<and> sleeps (snd (main (test_config None None) test_args
       (test_world (always (Inr empty_response)) (always 0)))) = []
   \<and> fst (simple_main_try test_args (test_world (always (Inr empty_response)) (always 0))) =
     Inl (ValueError msg_no_job_id)
   \<and> fst (simple_main (test_config None None) test_args
       (test_world (always (Inr empty_response)) (always 0))) = Inr 1
   \<and> length (requests (snd (simple_main (test_config None None) test_args
       (test_world (always (Inr empty_response)) (always 0))))) = 1
   \<and> sleeps (snd (simple_main (test_config None None) test_args
       (test_world (always (Inr empty_response)) (always 0)))) = []"
proof -
  let ?w = "test_world (always (Inr empty_response)) (always 0)"
  have answer: "invoke_results ?w (length (requests ?w)) = Inr empty_response"
    by (simp add: test_world_def always_def)
  have absent: "jobId empty_response = None"
    by (simp add: empty_response_def)
  have fields: "requests ?w = []" "sleeps ?w = []"
    "makedirs_fails ?w (arg_output_dir test_args) = None" "arg_prompt test_args \<noteq> []"
    by (simp_all add: test_world_def test_args_def)
  from missing_job_id_raises_without_polling [OF answer absent, of test_args
      "test_config None None"]
  show ?thesis by (simp add: fields)
qed

subsection \<open>The seed\<close>

lemma encode_images_pure:
  "generate_video_from_storyboard storyboard_images model_id w =
     (case encode_images storyboard_images w of
        Inl e \<Rightarrow> (Inl e, w)
      | Inr encoded_images \<Rightarrow>
          (invoke_results w (length (requests w)),
           snd (invoke_model
             \<lparr>modelId = model_id, contentType = ''application/json'',
              accept = ''application/json'',
              body = StoryboardBody encoded_images
                (\<bar>py_hash w (uuid4 w (uuids_drawn w))\<bar> mod 2 ^ 32) 6000 ''16:9''
                ''video-generation'' ''image-to-video'' ''standard''\<rparr>
             (snd (uuid_uuid4 w)))))"
  by (simp add: generate_video_from_storyboard_def case_prod_beta random_seed_result
      prod_eq_iff split: sum.split)

lemma BedrockVideoClient_generate_video_sends:
  assumes "prompt \<noteq> []"
  shows "requests (snd (BedrockVideoClient_generate_video prompt model_id kw w)) =
      requests w @
      [\<lparr>modelId = model_id, contentType = ''application/json'',
        accept = ''application/json'',
        body = TextToVideoBody prompt (case kw_seed kw of None \<Rightarrow> 42 | Some seed \<Rightarrow> seed)
          (int_default (kw_duration kw) 4000) (get_default (kw_aspect_ratio kw) ''16:9'')
          ''video-generation'' ''text-to-video''
          (get_default (kw_image_quality kw) ''standard'')
          (kw_negative_prompt kw) (kw_style_preset kw)\<rparr>]"
    and "uuids_drawn (snd (BedrockVideoClient_generate_video prompt model_id kw w)) =
      uuids_drawn w"
  using assms
  by (simp_all add: BedrockVideoClient_generate_video_def
      BedrockVideoClient_generate_video_func_def case_prod_beta int_default_def
      split: sum.split)

text \<open>
  Claim C8, as the code has it. \<open>generate_video\<close> of generate\_video.py and
  \<open>generate_video_from_storyboard\<close> take no seed from their caller: each call draws one
  new UUID and sends as seed the absolute value of its hash modulo \<open>2^32\<close>, a number
  from 0 to \<open>2^32 - 1\<close>; a second call draws the next UUID. \<open>BedrockVideoClient.generate_video\<close>
  sends the seed of its caller, and the constant 42 when the caller gives none; it draws
  no UUID.
\<close>

theorem seed_of_each_submission:
  "requests (snd (generate_video prompt model_id w)) =
     requests w @
     [\<lparr>modelId = model_id, contentType = ''application/json'',
       accept = ''application/json'',
       body = TextToVideoBody prompt (\<bar>py_hash w (uuid4 w (uuids_drawn w))\<bar> mod 2 ^ 32)
         4000 ''16:9'' ''video-generation'' ''text-to-video'' ''standard'' None None\<rparr>]
   \<and> uuids_drawn (snd (generate_video prompt model_id w)) = Suc (uuids_drawn w)
   \<and> requests (snd (generate_video prompt' model_id'
         (snd (generate_video prompt model_id w)))) =
     requests w @
     [\<lparr>modelId = model_id, contentType = ''application/json'',
       accept = ''application/json'',
       body = TextToVideoBody prompt (\<bar>py_hash w (uuid4 w (uuids_drawn w))\<bar> mod 2 ^ 32)
         4000 ''16:9'' ''video-generation'' ''text-to-video'' ''standard'' None None\<rparr>,
      \<lparr>modelId = model_id', contentType = ''application/json'',
       accept = ''application/json'',
       body = TextToVideoBody prompt'
         (\<bar>py_hash w (uuid4 w (Suc (uuids_drawn w)))\<bar> mod 2 ^ 32)
         4000 ''16:9'' ''video-generation'' ''text-to-video'' ''standard'' None None\<rparr>]
   \<and> 0 \<le> \<bar>py_hash w (uuid4 w (uuids_drawn w))\<bar> mod 2 ^ 32
   \<and> \<bar>py_hash w (uuid4 w (uuids_drawn w))\<bar> mod 2 ^ 32 < 2 ^ 32
   \<and> (encode_images storyboard_images w = Inr encoded_images \<longrightarrow>
       requests (snd (generate_video_from_storyboard storyboard_images model_id w)) =
         requests w @
         [\<lparr>modelId = model_id, contentType = ''application/json'',
           accept = ''application/json'',
           body = StoryboardBody encoded_images
             (\<bar>py_hash w (uuid4 w (uuids_drawn w))\<bar> mod 2 ^ 32) 6000 ''16:9''
             ''video-generation'' ''image-to-video'' ''standard''\<rparr>]
       \<and> uuids_drawn (snd (generate_video_from_storyboard storyboard_images model_id w)) =
           Suc (uuids_drawn w))
   \<and> (prompt \<noteq> [] \<longrightarrow>
       requests (snd (BedrockVideoClient_generate_video prompt model_id kw w)) =
         requests w @
         [\<lparr>modelId = model_id, contentType = ''application/json'',
           accept = ''application/json'',
           body = TextToVideoBody prompt
             (case kw_seed kw of None \<Rightarrow> 42 | Some seed \<Rightarrow> seed)
             (int_default (kw_duration kw) 4000) (get_default (kw_aspect_ratio kw) ''16:9'')
             ''video-generation'' ''text-to-video''
             (get_default (kw_image_quality kw) ''standard'')
             (kw_negative_prompt kw) (kw_style_preset kw)\<rparr>]
       \<and> uuids_drawn (snd (BedrockVideoClient_generate_video prompt model_id kw w)) =
           uuids_drawn w)"
  apply (intro conjI impI)
  subgoal by (simp add: generate_video_result)
  subgoal by (simp add: generate_video_result)
  subgoal by (simp add: generate_video_result)
  subgoal by simp
  subgoal by simp
  subgoal by (simp add: encode_images_pure)
  subgoal by (simp add: encode_images_pure)
  subgoal by (rule BedrockVideoClient_generate_video_sends)
  subgoal by (rule BedrockVideoClient_generate_video_sends)
  done

theorem seed_of_each_submission_witness:
  "map (body_seed \<circ> body)
     (requests (snd (generate_video ''A dog'' ''amazon.nova.video-1080p''
        (snd (generate_video ''A cat'' ''amazon.nova.video-1080p''
           (random_world (script [''1b4e28ba''] ''6fa459ea-ee8a'') length_hash)))))) =
     [Some 8, Some 13]
   \<and> map (body_seed \<circ> body)
     (requests (snd (BedrockVideoClient_generate_video ''A cat'' ''amazon.nova.video-1080p''
        (no_kwargs\<lparr>kw_seed := Some 12345\<rparr>)
        (random_world (script [''1b4e28ba''] ''6fa459ea-ee8a'') length_hash)))) =
     [Some 12345]
   \<and> requests (snd (generate_video_from_storyboard [''storyboard_01.png'']
        ''amazon.nova.video-1080p''
        ((random_world (script [''1b4e28ba''] ''6fa459ea-ee8a'') length_hash)
           \<lparr>b64encode := always ''AQI='',
            files := [''storyboard_01.png'' \<mapsto> [1, 2]]\<rparr>))) =
     [\<lparr>modelId = ''amazon.nova.video-1080p'', contentType = ''application/json'',
       accept = ''application/json'',
       body = StoryboardBody [''AQI=''] 8 6000 ''16:9'' ''video-generation''
         ''image-to-video'' ''standard''\<rparr>]"
proof -
  let ?w = "random_world (script [''1b4e28ba''] ''6fa459ea-ee8a'') length_hash"
  have fields: "requests ?w = []" "uuids_drawn ?w = 0"
    "uuid4 ?w = script [''1b4e28ba''] ''6fa459ea-ee8a''" "py_hash ?w = length_hash"
    by (simp_all add: random_world_def test_world_def)
  have given: "''A cat'' \<noteq> []" by simp
  note s = seed_of_each_submission [where w = ?w and prompt = "''A cat''"
      and prompt' = "''A dog''" and model_id = "''amazon.nova.video-1080p''"
      and model_id' = "''amazon.nova.video-1080p''"
      and kw = "no_kwargs\<lparr>kw_seed := Some 12345\<rparr>"]
  from s have two: "requests (snd (generate_video ''A dog'' ''amazon.nova.video-1080p''
         (snd (generate_video ''A cat'' ''amazon.nova.video-1080p'' ?w)))) =
     requests ?w @
     [\<lparr>modelId = ''amazon.nova.video-1080p'', contentType = ''application/json'',
       accept = ''application/json'',
       body = TextToVideoBody ''A cat''
         (\<bar>py_hash ?w (uuid4 ?w (uuids_drawn ?w))\<bar> mod 2 ^ 32)
         4000 ''16:9'' ''video-generation'' ''text-to-video'' ''standard'' None None\<rparr>,
      \<lparr>modelId = ''amazon.nova.video-1080p'', contentType = ''application/json'',
       accept = ''application/json'',
       body = TextToVideoBody ''A dog''
         (\<bar>py_hash ?w (uuid4 ?w (Suc (uuids_drawn ?w)))\<bar> mod 2 ^ 32)
         4000 ''16:9'' ''video-generation'' ''text-to-video'' ''standard'' None None\<rparr>]"
    by blast
  from s given have own: "requests (snd (BedrockVideoClient_generate_video ''A cat''
         ''amazon.nova.video-1080p'' (no_kwargs\<lparr>kw_seed := Some 12345\<rparr>) ?w)) =
         requests ?w @
         [\<lparr>modelId = ''amazon.nova.video-1080p'', contentType = ''application/json'',
           accept = ''application/json'',
           body = TextToVideoBody ''A cat''
             (case kw_seed (no_kwargs\<lparr>kw_seed := Some 12345\<rparr>) of
                None \<Rightarrow> 42 | Some seed \<Rightarrow> seed)
             (int_default (kw_duration (no_kwargs\<lparr>kw_seed := Some 12345\<rparr>)) 4000)
             (get_default (kw_aspect_ratio (no_kwargs\<lparr>kw_seed := Some 12345\<rparr>)) ''16:9'')
             ''video-generation'' ''text-to-video''
             (get_default (kw_image_quality (no_kwargs\<lparr>kw_seed := Some 12345\<rparr>))
                ''standard'')
             (kw_negative_prompt (no_kwargs\<lparr>kw_seed := Some 12345\<rparr>))
             (kw_style_preset (no_kwargs\<lparr>kw_seed := Some 12345\<rparr>))\<rparr>]"
    by blast
  let ?v = "(random_world (script [''1b4e28ba''] ''6fa459ea-ee8a'') length_hash)
           \<lparr>b64encode := always ''AQI='',
            files := [''storyboard_01.png'' \<mapsto> [1, 2]]\<rparr>"
  have fields': "requests ?v = []" "uuids_drawn ?v = 0"
    "uuid4 ?v = script [''1b4e28ba''] ''6fa459ea-ee8a''" "py_hash ?v = length_hash"
    by (simp_all add: random_world_def test_world_def)
  have encoded: "encode_images [''storyboard_01.png''] ?v = Inr [''AQI='']"
    by (simp add: encode_image_def always_def)
  from seed_of_each_submission [where w = ?v
      and storyboard_images = "[''storyboard_01.png'']" and encoded_images = "[''AQI='']"
      and model_id = "''amazon.nova.video-1080p''"] encoded
  have board: "requests (snd (generate_video_from_storyboard [''storyboard_01.png'']
        ''amazon.nova.video-1080p'' ?v)) =
     requests ?v @
     [\<lparr>modelId = ''amazon.nova.video-1080p'', contentType = ''application/json'',
       accept = ''application/json'',
       body = StoryboardBody [''AQI='']
         (\<bar>py_hash ?v (uuid4 ?v (uuids_drawn ?v))\<bar> mod 2 ^ 32) 6000 ''16:9''
         ''video-generation'' ''image-to-video'' ''standard''\<rparr>]"
    by blast
  show ?thesis
    by (simp add: two own board fields fields' script_def length_hash_def)
qed

theorem client_seed_is_constant_42:
  "map (body_seed \<circ> body)
     (requests (snd (BedrockVideoClient_generate_video ''A cat playing with a ball''
        ''amazon.nova.video-1080p'' no_kwargs
        (random_world (always ''1b4e28ba'') length_hash)))) = [Some 42]
   \<and> map (body_seed \<circ> body)
     (requests (snd (BedrockVideoClient_generate_video ''A cat playing with a ball''
        ''amazon.nova.video-1080p'' no_kwargs
        (random_world (always ''6fa459ea-ee8a'') (always 7))))) = [Some 42]
   \<and> uuids_drawn (snd (BedrockVideoClient_generate_video ''A cat playing with a ball''
        ''amazon.nova.video-1080p'' no_kwargs
        (random_world (always ''1b4e28ba'') length_hash))) = 0"
proof -
  have given: "''A cat playing with a ball'' \<noteq> []" by simp
  have fields: "requests (random_world u h) = []" "uuids_drawn (random_world u h) = 0"
    for u h
    by (simp_all add: random_world_def test_world_def)
  have seed: "kw_seed no_kwargs = None" by (simp add: no_kwargs_def)
  note sent = BedrockVideoClient_generate_video_sends [OF given,
      of "''amazon.nova.video-1080p''" no_kwargs]
  show ?thesis by (simp add: sent fields seed)
qed

section \<open>The configuration\<close>

text \<open>
  Claim C9, as the code has it. \<open>validate_aws_credentials\<close> returns a boolean and nothing
  else: true if and only if both credentials are set and not empty, that is, if no
  required name is missing. The names that are missing are not returned; they are
  written, joined by a comma, into the first of two warnings that are logged when the
  result is false, and nothing is logged or changed when it is true. The function cannot
  raise. Loading the configuration does not raise when \<open>DEFAULT_DURATION\<close> is not set,
  whatever else is missing: every other optional value has a default.
\<close>

theorem validate_aws_credentials_returns_a_boolean:
  "fst (validate_aws_credentials cfg w) =
     (truthy (AWS_ACCESS_KEY_ID cfg) \<and> truthy (AWS_SECRET_ACCESS_KEY cfg))
   \<and> fst (validate_aws_credentials cfg w) = (missing_vars cfg = [])
   \<and> (missing_vars cfg = [] \<longrightarrow> snd (validate_aws_credentials cfg w) = w)
   \<and> (missing_vars cfg \<noteq> [] \<longrightarrow>
       logs (snd (validate_aws_credentials cfg w)) =
         logs w @
         [(WARNING, log_missing_vars @ str_join '', '' (missing_vars cfg)),
          (WARNING, log_set_credentials)])
   \<and> missing_vars cfg =
       (if truthy (AWS_ACCESS_KEY_ID cfg) then [] else [''AWS_ACCESS_KEY_ID'']) @
       (if truthy (AWS_SECRET_ACCESS_KEY cfg) then [] else [''AWS_SECRET_ACCESS_KEY''])
   \<and> (environ ''DEFAULT_DURATION'' = None \<longrightarrow>
       load_config environ py_int project_root =
         Inr \<lparr>AWS_ACCESS_KEY_ID = environ ''AWS_ACCESS_KEY_ID'',
              AWS_SECRET_ACCESS_KEY = environ ''AWS_SECRET_ACCESS_KEY'',
              AWS_REGION = get_default (environ ''AWS_REGION'') ''us-east-1'',
              DEFAULT_MODEL_ID =
                get_default (environ ''DEFAULT_MODEL_ID'') ''amazon.nova.video-1080p'',
              DEFAULT_DURATION = 5000,
              DEFAULT_IMAGE_QUALITY =
                get_default (environ ''DEFAULT_IMAGE_QUALITY'') ''standard'',
              OUTPUT_DIR =
                get_default (environ ''OUTPUT_DIR'')
                  (os_path_join project_root ''output'')\<rparr>)"
  apply (intro conjI impI)
  subgoal by (simp add: validate_aws_credentials_def missing_vars_def)
  subgoal by (simp add: validate_aws_credentials_def)
  subgoal by (simp add: validate_aws_credentials_def)
  subgoal by (simp add: validate_aws_credentials_def)
  subgoal by (simp add: missing_vars_def)
  subgoal by (simp add: load_config_def)
  done

theorem validate_aws_credentials_returns_a_boolean_witness:
  "fst (validate_aws_credentials (test_config (Some ''AKIAEXAMPLE'') None)
      (test_world (always (Inr empty_response)) (always 0))) = False
   \<and> logs (snd (validate_aws_credentials (test_config (Some ''AKIAEXAMPLE'') None)
      (test_world (always (Inr empty_response)) (always 0)))) =
       [(WARNING, log_missing_vars @ ''AWS_SECRET_ACCESS_KEY''),
        (WARNING, log_set_credentials)]
   \<and> fst (validate_aws_credentials (test_config (Some ''AKIAEXAMPLE'') (Some ''secret''))
      (test_world (always (Inr empty_response)) (always 0))) = True
   \<and> load_config (always None) (always None) ''/srv/app'' =
       Inr (test_config None None\<lparr>OUTPUT_DIR := ''/srv/app/output''\<rparr>)"
proof -
  let ?w = "test_world (always (Inr empty_response)) (always 0)"
  let ?c = "test_config (Some ''AKIAEXAMPLE'') None"
  let ?d = "test_config (Some ''AKIAEXAMPLE'') (Some ''secret'')"
  have creds: "truthy (AWS_ACCESS_KEY_ID ?c)" "\<not> truthy (AWS_SECRET_ACCESS_KEY ?c)"
    "truthy (AWS_ACCESS_KEY_ID ?d)" "truthy (AWS_SECRET_ACCESS_KEY ?d)"
    by (simp_all add: test_config_def truthy_def)
  have empty_log: "logs ?w = []" by (simp add: test_world_def)
  note c = validate_aws_credentials_returns_a_boolean [where cfg = ?c and w = ?w
      and environ = "always None" and py_int = "always None" and project_root = "''/srv/app''"]
  note d = validate_aws_credentials_returns_a_boolean [where cfg = ?d and w = ?w
      and environ = "always None" and py_int = "always None" and project_root = "''/srv/app''"]
  from c creds have missing: "missing_vars ?c = [''AWS_SECRET_ACCESS_KEY'']" by simp
  from c creds have "fst (validate_aws_credentials ?c ?w) = False" by simp
  moreover from c missing have "logs (snd (validate_aws_credentials ?c ?w)) =
       [(WARNING, log_missing_vars @ ''AWS_SECRET_ACCESS_KEY''),
        (WARNING, log_set_credentials)]"
    by (simp add: empty_log)
  moreover from d creds have "fst (validate_aws_credentials ?d ?w) = True" by simp
  moreover from c have "load_config (always None) (always None) ''/srv/app'' =
       Inr (test_config None None\<lparr>OUTPUT_DIR := ''/srv/app/output''\<rparr>)"
    by (simp add: always_def get_default_def os_path_join_def test_config_def)
  ultimately show ?thesis by simp
qed

theorem validate_aws_credentials_returns_no_list:
  "validate_aws_credentials (test_config None (Some ''secret'')) 
      (test_world (always (Inr empty_response)) (always 0)) =
     (False,
      logger_warning log_set_credentials
        (logger_warning (log_missing_vars @ ''AWS_ACCESS_KEY_ID'')
           (test_world (always (Inr empty_response)) (always 0))))
   \<and> fst (validate_aws_credentials (test_config None (Some ''secret''))
        (test_world (always (Inr empty_response)) (always 0))) =
     fst (validate_aws_credentials (test_config (Some ''AKIAEXAMPLE'') None)
        (test_world (always (Inr empty_response)) (always 0)))
   \<and> missing_vars (test_config None (Some ''secret'')) = [''AWS_ACCESS_KEY_ID'']
   \<and> missing_vars (test_config (Some ''AKIAEXAMPLE'') None) = [''AWS_SECRET_ACCESS_KEY'']"
  by (simp add: validate_aws_credentials_def missing_vars_def test_config_def truthy_def)

end
